theory Spec2Isabelle
  imports Complex_Main "HOL-Library.Word" "HOL-Library.List_Lexorder" "HOL-Library.Char_ord"
begin

section \<open>Bytes and the struct module\<close>

text \<open>
  A file is the list of its bytes. The header of a task file is written with
  \<^verbatim>\<open>struct.pack('!2i 128s 8d 6i', ...)\<close>: network byte order, no padding, 224 bytes.
  An \<^verbatim>\<open>i\<close> field is a signed 32-bit integer (struct.error when the value does not fit),
  an \<^verbatim>\<open>s\<close> field is cut or null-padded to its width, and a \<^verbatim>\<open>d\<close> field is an IEEE
  binary64 number. No arithmetic is done on the time stamps of the header, so a time stamp
  is kept as its 64-bit pattern: the value \<^verbatim>\<open>0\<close> is the pattern 0.
\<close>

type_synonym byte = "8 word"
type_synonym bytes = "byte list"
type_synonym double = "64 word"

datatype error =
    FileNotFoundError
  | StructError
  | OSError_EINVAL
  | RuntimeError string
  | ValueError string
  | TypeError
  | AttributeError
  | UnicodeEncodeError
  | UnicodeDecodeError
  | DecodeError

fun be_bytes :: "nat \<Rightarrow> nat \<Rightarrow> bytes" where
  "be_bytes 0 v = []"
| "be_bytes (Suc n) v = be_bytes n (v div 256) @ [of_nat (v mod 256)]"

definition be_value :: "bytes \<Rightarrow> nat" where
  "be_value bs = foldl (\<lambda>a b. a * 256 + unat b) 0 bs"

definition le_value :: "bytes \<Rightarrow> nat" where
  "le_value bs = be_value (rev bs)"

definition pack_i :: "int \<Rightarrow> error + bytes" where
  "pack_i v = (if - (2 ^ 31) \<le> v \<and> v < 2 ^ 31
               then Inr (be_bytes 4 (nat (v mod 2 ^ 32))) else Inl StructError)"

definition signed32 :: "nat \<Rightarrow> int" where
  "signed32 u = (if u < 2 ^ 31 then int u else int u - 2 ^ 32)"

definition unpack_i :: "bytes \<Rightarrow> int" where
  "unpack_i bs = signed32 (be_value bs)"

definition pack_s :: "nat \<Rightarrow> bytes \<Rightarrow> bytes" where
  "pack_s n bs = take n bs @ replicate (n - length bs) 0"

definition pack_d :: "double \<Rightarrow> bytes" where
  "pack_d w = be_bytes 8 (unat w)"

definition unpack_d :: "bytes \<Rightarrow> double" where
  "unpack_d bs = of_nat (be_value bs)"

definition slice :: "nat \<Rightarrow> nat \<Rightarrow> 'a list \<Rightarrow> 'a list" where
  "slice off n xs = take n (drop off xs)"

section \<open>The task file\<close>

datatype TaskStatus = new | pending | submitted | running | aborted | failed | completed

fun status_value :: "TaskStatus \<Rightarrow> int" where
  "status_value new = 0"
| "status_value pending = 1"
| "status_value submitted = 2"
| "status_value running = 3"
| "status_value aborted = 4"
| "status_value failed = 5"
| "status_value completed = 6"

fun status_name :: "TaskStatus \<Rightarrow> string" where
  "status_name new = ''new''"
| "status_name pending = ''pending''"
| "status_name submitted = ''submitted''"
| "status_name running = ''running''"
| "status_name aborted = ''aborted''"
| "status_name failed = ''failed''"
| "status_name completed = ''completed''"

text \<open>\<^verbatim>\<open>TaskStatus(v)\<close>: the member with value \<open>v\<close>, or ValueError.\<close>

definition TaskStatus_of_value :: "int \<Rightarrow> error + TaskStatus" where
  "TaskStatus_of_value v =
     (if v = 0 then Inr new else if v = 1 then Inr pending
      else if v = 2 then Inr submitted else if v = 3 then Inr running
      else if v = 4 then Inr aborted else if v = 5 then Inr failed
      else if v = 6 then Inr completed
      else Inl (ValueError ''not a valid TaskStatus''))"

record TaskHeader =
  version :: int
  status :: int
  tags :: bytes
  new_time :: double
  pending_time :: double
  submitted_time :: double
  running_time :: double
  aborted_time :: double
  failed_time :: double
  completed_time :: double
  last_modified :: double
  params_size :: int
  pulse_size :: int
  stdout_size :: int
  stderr_size :: int
  result_size :: int
  signature_size :: int

definition header_size :: nat where
  "header_size = 224"

text \<open>
  \<^verbatim>\<open>struct.pack(header_fmt, *header)\<close>. The fields are packed in the order of the
  namedtuple; the first integer that does not fit raises struct.error and nothing is
  produced.
\<close>

fun pack_all :: "(error + bytes) list \<Rightarrow> error + bytes" where
  "pack_all [] = Inr []"
| "pack_all (Inl e # ps) = Inl e"
| "pack_all (Inr b # ps) = (case pack_all ps of Inl e \<Rightarrow> Inl e | Inr bs \<Rightarrow> Inr (b @ bs))"

definition pack_header :: "TaskHeader \<Rightarrow> error + bytes" where
  "pack_header h = pack_all
     [pack_i (version h), pack_i (status h), Inr (pack_s 128 (tags h)),
      Inr (pack_d (new_time h)), Inr (pack_d (pending_time h)),
      Inr (pack_d (submitted_time h)), Inr (pack_d (running_time h)),
      Inr (pack_d (aborted_time h)), Inr (pack_d (failed_time h)),
      Inr (pack_d (completed_time h)), Inr (pack_d (last_modified h)),
      pack_i (params_size h), pack_i (pulse_size h), pack_i (stdout_size h),
      pack_i (stderr_size h), pack_i (result_size h), pack_i (signature_size h)]"

definition unpack_header :: "bytes \<Rightarrow> TaskHeader" where
  "unpack_header bs =
     \<lparr> version = unpack_i (slice 0 4 bs),
       status = unpack_i (slice 4 4 bs),
       tags = slice 8 128 bs,
       new_time = unpack_d (slice 136 8 bs),
       pending_time = unpack_d (slice 144 8 bs),
       submitted_time = unpack_d (slice 152 8 bs),
       running_time = unpack_d (slice 160 8 bs),
       aborted_time = unpack_d (slice 168 8 bs),
       failed_time = unpack_d (slice 176 8 bs),
       completed_time = unpack_d (slice 184 8 bs),
       last_modified = unpack_d (slice 192 8 bs),
       params_size = unpack_i (slice 200 4 bs),
       pulse_size = unpack_i (slice 204 4 bs),
       stdout_size = unpack_i (slice 208 4 bs),
       stderr_size = unpack_i (slice 212 4 bs),
       result_size = unpack_i (slice 216 4 bs),
       signature_size = unpack_i (slice 220 4 bs) \<rparr>"

subsection \<open>File handles\<close>

text \<open>
  \<^verbatim>\<open>fh.seek(pos); fh.write(data)\<close> on a file opened \<^verbatim>\<open>r+b\<close>: the bytes from \<open>pos\<close> on
  are overwritten, the file grows when the data reach beyond its end, and a gap between
  the old end and \<open>pos\<close> reads as zero bytes. Writing no data changes nothing.
\<close>

definition write_at :: "nat \<Rightarrow> bytes \<Rightarrow> bytes \<Rightarrow> bytes" where
  "write_at pos data f =
     (if data = [] then f
      else take pos f @ replicate (pos - length f) 0 @ data @ drop (pos + length data) f)"

text \<open>\<^verbatim>\<open>fh.truncate(n)\<close>: the file is cut to \<open>n\<close> bytes, or extended with zero bytes.\<close>

definition truncate_to :: "nat \<Rightarrow> bytes \<Rightarrow> bytes" where
  "truncate_to n f = take n f @ replicate (n - length f) 0"

text \<open>\<^verbatim>\<open>fh.seek(0, 0); fh.read(header_size)\<close> and \<^verbatim>\<open>struct.unpack\<close>, which needs all 224 bytes.\<close>

definition read_header :: "bytes \<Rightarrow> error + TaskHeader" where
  "read_header f =
     (if length f < header_size then Inl StructError
      else Inr (unpack_header (take header_size f)))"

text \<open>
  \<^verbatim>\<open>_write_header\<close>: the header is packed first, so a header that cannot be packed
  leaves the file as it was.
\<close>

definition write_header :: "TaskHeader \<Rightarrow> bytes \<Rightarrow> error + bytes" where
  "write_header h f =
     (case pack_header h of Inl e \<Rightarrow> Inl e | Inr hb \<Rightarrow> Inr (write_at 0 hb f))"


text \<open>
  The task file itself may be absent. A method that opens it with mode \<^verbatim>\<open>r+b\<close> or
  \<^verbatim>\<open>rb\<close> raises FileNotFoundError then. A method returns what it returns or raises,
  together with the file as it leaves it: a method that raises half way has already
  written what it wrote before.
\<close>

definition with_file ::
  "(bytes \<Rightarrow> (error + 'a) \<times> bytes) \<Rightarrow> bytes option \<Rightarrow> (error + 'a) \<times> bytes option" where
  "with_file body s =
     (case s of
        None \<Rightarrow> (Inl FileNotFoundError, None)
      | Some f \<Rightarrow> (case body f of (r, f') \<Rightarrow> (r, Some f')))"

subsection \<open>update and reset\<close>

text \<open>
  \<^verbatim>\<open>update\<close> is given the block \<^verbatim>\<open>lzma.compress(pickle.dumps(params))\<close>, which the source
  computes before it opens the file, and the reading \<open>now\<close> of \<^verbatim>\<open>time.time()\<close>.
\<close>

definition update_fh :: "double \<Rightarrow> bytes \<Rightarrow> bytes \<Rightarrow> (error + unit) \<times> bytes" where
  "update_fh now params_block f =
     (case read_header f of
        Inl e \<Rightarrow> (Inl e, f)
      | Inr header \<Rightarrow>
          let header = header\<lparr>
                status := status_value pending,
                new_time := now,
                pending_time := 0,
                submitted_time := 0,
                running_time := 0,
                aborted_time := 0,
                failed_time := 0,
                completed_time := 0,
                last_modified := now,
                params_size := int (length params_block),
                pulse_size := 0,
                stdout_size := 0,
                stderr_size := 0,
                result_size := 0,
                signature_size := 0\<rparr>
          in (case write_header header f of
                Inl e \<Rightarrow> (Inl e, f)
              | Inr f1 \<Rightarrow>
                  let f2 = write_at header_size params_block f1
                  in (Inr (), truncate_to (header_size + nat (params_size header)) f2)))"

definition update :: "double \<Rightarrow> bytes \<Rightarrow> bytes option \<Rightarrow> (error + unit) \<times> bytes option" where
  "update now params_block = with_file (update_fh now params_block)"

text \<open>
  \<^verbatim>\<open>_reset(fh)\<close> returns the header it wrote. \<^verbatim>\<open>fh.truncate\<close> of a negative size is
  an OSError (EINVAL), raised after the header has been written.
\<close>

definition reset_fh :: "double \<Rightarrow> bytes \<Rightarrow> (error + TaskHeader) \<times> bytes" where
  "reset_fh now f =
     (case read_header f of
        Inl e \<Rightarrow> (Inl e, f)
      | Inr header \<Rightarrow>
          let header = header\<lparr>
                status := status_value new,
                new_time := now,
                pending_time := 0,
                submitted_time := 0,
                running_time := 0,
                aborted_time := 0,
                failed_time := 0,
                completed_time := 0,
                last_modified := now,
                pulse_size := 0,
                stdout_size := 0,
                stderr_size := 0,
                result_size := 0,
                signature_size := 0\<rparr>
          in (case write_header header f of
                Inl e \<Rightarrow> (Inl e, f)
              | Inr f1 \<Rightarrow>
                  if int header_size + params_size header < 0 then (Inl OSError_EINVAL, f1)
                  else (Inr header,
                        truncate_to (nat (int header_size + params_size header)) f1)))"

definition reset :: "double \<Rightarrow> bytes option \<Rightarrow> (error + unit) \<times> bytes option" where
  "reset now = with_file (\<lambda>f. case reset_fh now f of (r, f') \<Rightarrow> (map_sum id (\<lambda>_. ()) r, f'))"

subsection \<open>The status setter\<close>

definition set_status_fh :: "double \<Rightarrow> string \<Rightarrow> bytes \<Rightarrow> (error + unit) \<times> bytes" where
  "set_status_fh now st f =
     (case read_header f of
        Inl e \<Rightarrow> (Inl e, f)
      | Inr header \<Rightarrow>
          let r =
            (if st = ''pending'' then
               Inr (header\<lparr>status := status_value pending,
                           pending_time := now, last_modified := now\<rparr>)
             else if st = ''submitted'' then
               Inr (header\<lparr>status := status_value submitted,
                           submitted_time := now, last_modified := now\<rparr>)
             else if st = ''running'' then
               Inr (header\<lparr>status := status_value running,
                           running_time := now, last_modified := now\<rparr>)
             else if st = ''failed'' then
               Inr (header\<lparr>status := status_value failed,
                           failed_time := now, last_modified := now\<rparr>)
             else if st = ''aborted'' then
               Inr (header\<lparr>status := status_value aborted,
                           aborted_time := now, last_modified := now\<rparr>)
             else if st = ''completed'' then
               Inr (header\<lparr>status := status_value completed,
                           completed_time := now, last_modified := now\<rparr>)
             else Inl (RuntimeError (''Unrecognized task status: '' @ st)))
          in (case r of
                Inl e \<Rightarrow> (Inl e, f)
              | Inr header \<Rightarrow>
                  (case write_header header f of
                     Inl e \<Rightarrow> (Inl e, f)
                   | Inr f1 \<Rightarrow> (Inr (), f1))))"

definition set_status :: "double \<Rightarrow> string \<Rightarrow> bytes option \<Rightarrow> (error + unit) \<times> bytes option" where
  "set_status now st = with_file (set_status_fh now st)"

subsection \<open>add_outputs, add_result, add_signature\<close>

text \<open>
  \<^verbatim>\<open>_get_content(ext)\<close>: the companion file is absent (\<open>None\<close>) or has a content, which
  is compressed. \<^verbatim>\<open>lzma.compress\<close> is a parameter of the model.
\<close>

definition get_content :: "(bytes \<Rightarrow> bytes) \<Rightarrow> bytes option \<Rightarrow> bytes" where
  "get_content compress c = (case c of None \<Rightarrow> [] | Some content \<Rightarrow> compress content)"

text \<open>\<^verbatim>\<open>fh.seek(p, 0)\<close>: a negative position is an OSError (EINVAL).\<close>

definition seek :: "int \<Rightarrow> error + nat" where
  "seek p = (if p < 0 then Inl OSError_EINVAL else Inr (nat p))"

text \<open>
  The three writes that end \<^verbatim>\<open>add_outputs\<close>, after \<^verbatim>\<open>fh.seek\<close> to \<open>pos\<close>: each block is
  written where the one before it ended, and an empty block is not written.
\<close>

definition write_outputs :: "nat \<Rightarrow> bytes \<Rightarrow> bytes \<Rightarrow> bytes \<Rightarrow> bytes \<Rightarrow> bytes" where
  "write_outputs pos pulse stdout stderr f1 =
     (let f2 = (if pulse \<noteq> [] then write_at pos pulse f1 else f1);
          f3 = (if stdout \<noteq> [] then write_at (pos + length pulse) stdout f2 else f2);
          f4 = (if stderr \<noteq> []
                then write_at (pos + length pulse + length stdout) stderr f3 else f3)
      in f4)"

text \<open>
  \<^verbatim>\<open>add_outputs\<close>. The value returned by \<^verbatim>\<open>self._reset(fh)\<close> is not used: the header
  written afterwards is the one read at the start, with three sizes replaced.
\<close>

definition add_outputs_fh ::
  "double \<Rightarrow> bytes \<Rightarrow> bytes \<Rightarrow> bytes \<Rightarrow> bytes \<Rightarrow> (error + unit) \<times> bytes" where
  "add_outputs_fh now pulse stdout stderr f =
     (case read_header f of
        Inl e \<Rightarrow> (Inl e, f)
      | Inr header \<Rightarrow>
          (case (if result_size header \<noteq> 0 then reset_fh now f else (Inr header, f)) of
             (Inl e, f0) \<Rightarrow> (Inl e, f0)
           | (Inr _, f0) \<Rightarrow>
               let header = header\<lparr>
                     pulse_size := int (length pulse),
                     stdout_size := int (length stdout),
                     stderr_size := int (length stderr)\<rparr>
               in (case write_header header f0 of
                     Inl e \<Rightarrow> (Inl e, f0)
                   | Inr f1 \<Rightarrow>
                       (case seek (int header_size + params_size header) of
                          Inl e \<Rightarrow> (Inl e, f1)
                        | Inr pos \<Rightarrow> (Inr (), write_outputs pos pulse stdout stderr f1)))))"

definition add_outputs ::
  "(bytes \<Rightarrow> bytes) \<Rightarrow> double \<Rightarrow> bytes option \<Rightarrow> bytes option \<Rightarrow> bytes option \<Rightarrow>
   bytes option \<Rightarrow> (error + unit) \<times> bytes option" where
  "add_outputs compress now pulse_file out_file err_file =
     with_file (add_outputs_fh now (get_content compress pulse_file)
                  (get_content compress out_file) (get_content compress err_file))"

text \<open>\<^verbatim>\<open>add_result\<close> and \<^verbatim>\<open>add_signature\<close> are given the compressed pickled block.\<close>

definition add_result_fh :: "bytes \<Rightarrow> bytes \<Rightarrow> (error + unit) \<times> bytes" where
  "add_result_fh result_block f =
     (case read_header f of
        Inl e \<Rightarrow> (Inl e, f)
      | Inr header \<Rightarrow>
          let header = header\<lparr>result_size := int (length result_block)\<rparr>
          in (case write_header header f of
                Inl e \<Rightarrow> (Inl e, f)
              | Inr f1 \<Rightarrow>
                  (case seek (int header_size + params_size header + pulse_size header
                              + stdout_size header + stderr_size header) of
                     Inl e \<Rightarrow> (Inl e, f1)
                   | Inr pos \<Rightarrow> (Inr (), write_at pos result_block f1))))"

definition add_result :: "bytes \<Rightarrow> bytes option \<Rightarrow> (error + unit) \<times> bytes option" where
  "add_result result_block = with_file (add_result_fh result_block)"

definition add_signature_fh :: "bytes \<Rightarrow> bytes \<Rightarrow> (error + unit) \<times> bytes" where
  "add_signature_fh signature_block f =
     (case read_header f of
        Inl e \<Rightarrow> (Inl e, f)
      | Inr header \<Rightarrow>
          let header = header\<lparr>signature_size := int (length signature_block)\<rparr>
          in (case write_header header f of
                Inl e \<Rightarrow> (Inl e, f)
              | Inr f1 \<Rightarrow>
                  (case seek (int header_size + params_size header + pulse_size header
                              + stdout_size header + stderr_size header
                              + result_size header) of
                     Inl e \<Rightarrow> (Inl e, f1)
                   | Inr pos \<Rightarrow> (Inr (), write_at pos signature_block f1))))"

definition add_signature :: "bytes \<Rightarrow> bytes option \<Rightarrow> (error + unit) \<times> bytes option" where
  "add_signature signature_block = with_file (add_signature_fh signature_block)"

subsection \<open>Python strings and UTF-8\<close>

text \<open>
  The tags are Python strings that are encoded into a field of bytes, so they are lists
  of code points, and \<^verbatim>\<open>str.encode()\<close> and \<^verbatim>\<open>bytes.decode()\<close> are UTF-8. Status names,
  dictionary keys, task identifiers and paths are only compared and concatenated; they
  are \<^typ>\<open>string\<close>.
\<close>

type_synonym pystr = "nat list"

definition utf8_char :: "nat \<Rightarrow> error + bytes" where
  "utf8_char c =
     (if c < 0x80 then Inr [of_nat c]
      else if c < 0x800 then Inr [of_nat (0xC0 + c div 64), of_nat (0x80 + c mod 64)]
      else if 0xD800 \<le> c \<and> c < 0xE000 then Inl UnicodeEncodeError
      else if c < 0x10000 then
        Inr [of_nat (0xE0 + c div 4096), of_nat (0x80 + c div 64 mod 64),
             of_nat (0x80 + c mod 64)]
      else if c < 0x110000 then
        Inr [of_nat (0xF0 + c div 262144), of_nat (0x80 + c div 4096 mod 64),
             of_nat (0x80 + c div 64 mod 64), of_nat (0x80 + c mod 64)]
      else Inl UnicodeEncodeError)"

fun encode :: "pystr \<Rightarrow> error + bytes" where
  "encode [] = Inr []"
| "encode (c # cs) =
     (case utf8_char c of
        Inl e \<Rightarrow> Inl e
      | Inr b \<Rightarrow> (case encode cs of Inl e \<Rightarrow> Inl e | Inr bs \<Rightarrow> Inr (b @ bs)))"

definition cont :: "byte \<Rightarrow> bool" where
  "cont b \<longleftrightarrow> 0x80 \<le> unat b \<and> unat b < 0xC0"

text \<open>
  Strict UTF-8, as \<^verbatim>\<open>bytes.decode()\<close>: no overlong forms, no surrogates, nothing above
  U+10FFFF; \<open>None\<close> is UnicodeDecodeError.
\<close>

fun decode :: "bytes \<Rightarrow> pystr option" where
  "decode [] = Some []"
| "decode (b # bs) =
     (if unat b < 0x80 then map_option ((#) (unat b)) (decode bs)
      else if 0xC2 \<le> unat b \<and> unat b < 0xE0 then
        (case bs of
           b1 # r \<Rightarrow>
             if cont b1
             then map_option ((#) ((unat b - 0xC0) * 64 + (unat b1 - 0x80))) (decode r)
             else None
         | _ \<Rightarrow> None)
      else if 0xE0 \<le> unat b \<and> unat b < 0xF0 then
        (case bs of
           b1 # b2 # r \<Rightarrow>
             let c = (unat b - 0xE0) * 4096 + (unat b1 - 0x80) * 64 + (unat b2 - 0x80)
             in if cont b1 \<and> cont b2 \<and> 0x800 \<le> c \<and> \<not> (0xD800 \<le> c \<and> c < 0xE000)
                then map_option ((#) c) (decode r) else None
         | _ \<Rightarrow> None)
      else if 0xF0 \<le> unat b \<and> unat b < 0xF5 then
        (case bs of
           b1 # b2 # b3 # r \<Rightarrow>
             let c = (unat b - 0xF0) * 262144 + (unat b1 - 0x80) * 4096
                     + (unat b2 - 0x80) * 64 + (unat b3 - 0x80)
             in if cont b1 \<and> cont b2 \<and> cont b3 \<and> 0x10000 \<le> c \<and> c < 0x110000
                then map_option ((#) c) (decode r) else None
         | _ \<Rightarrow> None)
      else None)"

text \<open>The characters \<^verbatim>\<open>str.strip()\<close> removes: those for which \<^verbatim>\<open>str.isspace\<close> holds.\<close>

definition isspace :: "nat \<Rightarrow> bool" where
  "isspace c \<longleftrightarrow>
     (0x09 \<le> c \<and> c \<le> 0x0D) \<or> (0x1C \<le> c \<and> c \<le> 0x20) \<or> c = 0x85 \<or> c = 0xA0 \<or>
     c = 0x1680 \<or> (0x2000 \<le> c \<and> c \<le> 0x200A) \<or> c = 0x2028 \<or> c = 0x2029 \<or>
     c = 0x202F \<or> c = 0x205F \<or> c = 0x3000"

definition strip :: "pystr \<Rightarrow> pystr" where
  "strip s = rev (dropWhile isspace (rev (dropWhile isspace s)))"

definition ljust :: "nat \<Rightarrow> pystr \<Rightarrow> pystr" where
  "ljust n s = s @ replicate (n - length s) 0x20"

fun join_space :: "pystr list \<Rightarrow> pystr" where
  "join_space [] = []"
| "join_space [x] = x"
| "join_space (x # y # xs) = x @ [0x20] @ join_space (y # xs)"

subsection \<open>The tags property\<close>

definition get_tags_fh :: "bytes \<Rightarrow> error + pystr" where
  "get_tags_fh f =
     (case decode (slice 8 128 f) of
        None \<Rightarrow> Inl UnicodeDecodeError
      | Some s \<Rightarrow> Inr (strip s))"

definition get_tags :: "bytes option \<Rightarrow> error + pystr" where
  "get_tags s = (case s of None \<Rightarrow> Inl FileNotFoundError | Some f \<Rightarrow> get_tags_fh f)"

definition set_tags_fh :: "pystr list \<Rightarrow> bytes \<Rightarrow> (error + unit) \<times> bytes" where
  "set_tags_fh tgs f =
     (case encode (ljust 128 (join_space (sort tgs))) of
        Inl e \<Rightarrow> (Inl e, f)
      | Inr b \<Rightarrow> (Inr (), write_at 8 b f))"

definition set_tags :: "pystr list \<Rightarrow> bytes option \<Rightarrow> (error + unit) \<times> bytes option" where
  "set_tags tgs = with_file (set_tags_fh tgs)"

subsection \<open>The section accessors\<close>

text \<open>
  \<^verbatim>\<open>fh.read(n)\<close> at position \<open>pos\<close>: at most \<open>n\<close> bytes; \<open>-1\<close> reads to the end of the
  file and a smaller number is a ValueError.
\<close>

definition fh_read :: "nat \<Rightarrow> int \<Rightarrow> bytes \<Rightarrow> error + bytes" where
  "fh_read pos n f =
     (if n = - 1 then Inr (drop pos f)
      else if n < - 1 then Inl (ValueError ''read length must be non-negative or -1'')
      else Inr (take (nat n) (drop pos f)))"

text \<open>
  What an accessor of a pickled section returns: the unpickled value, the empty dictionary
  \<^verbatim>\<open>{}\<close> or the dictionary \<^verbatim>\<open>{'ret_code': 1}\<close>.
\<close>

datatype 'v obj = Unpickled 'v | Dict_empty | Dict_ret_code_1

text \<open>
  \<^verbatim>\<open>lzma.decompress\<close> and \<^verbatim>\<open>pickle.loads(lzma.decompress(...))\<close> are parameters of the
  model: \<open>decompress\<close> and \<open>loads\<close>, with \<open>None\<close> where they raise. An accessor returns its
  value or raises, and the warnings it has logged.
\<close>

definition decompress_decode :: "(bytes \<Rightarrow> bytes option) \<Rightarrow> bytes \<Rightarrow> pystr option" where
  "decompress_decode decompress b =
     (case decompress b of None \<Rightarrow> None | Some raw \<Rightarrow> decode raw)"

definition get_params_fh :: "(bytes \<Rightarrow> 'v option) \<Rightarrow> bytes \<Rightarrow> (error + 'v obj) \<times> string list" where
  "get_params_fh loads f =
     (case read_header f of
        Inl e \<Rightarrow> (Inl e, [])
      | Inr header \<Rightarrow>
          if params_size header = 0 then (Inr Dict_empty, [])
          else (case fh_read header_size (params_size header) f of
                  Inl e \<Rightarrow> (Inl e, [])
                | Inr b \<Rightarrow>
                    (case loads b of
                       None \<Rightarrow> (Inl DecodeError, [])
                     | Some v \<Rightarrow> (Inr (Unpickled v), []))))"

definition get_pulse_fh :: "(bytes \<Rightarrow> bytes option) \<Rightarrow> bytes \<Rightarrow> (error + pystr) \<times> string list" where
  "get_pulse_fh decompress f =
     (case read_header f of
        Inl e \<Rightarrow> (Inl e, [])
      | Inr header \<Rightarrow>
          if pulse_size header = 0 then (Inr [], [])
          else (case seek (int header_size + params_size header) of
                  Inl e \<Rightarrow> (Inl e, [])
                | Inr pos \<Rightarrow>
                    (case fh_read pos (pulse_size header) f of
                       Inl e \<Rightarrow> (Inr [], [''Failed to decode pulse''])
                     | Inr b \<Rightarrow>
                         (case decompress_decode decompress b of
                            None \<Rightarrow> (Inr [], [''Failed to decode pulse''])
                          | Some s \<Rightarrow> (Inr s, [])))))"

definition get_stdout_fh :: "(bytes \<Rightarrow> bytes option) \<Rightarrow> bytes \<Rightarrow> (error + pystr) \<times> string list" where
  "get_stdout_fh decompress f =
     (case read_header f of
        Inl e \<Rightarrow> (Inl e, [])
      | Inr header \<Rightarrow>
          if stdout_size header = 0 then (Inr [], [])
          else (case seek (int header_size + params_size header + pulse_size header) of
                  Inl e \<Rightarrow> (Inl e, [])
                | Inr pos \<Rightarrow>
                    (case fh_read pos (stdout_size header) f of
                       Inl e \<Rightarrow> (Inr [], [''Failed to decode stdout''])
                     | Inr b \<Rightarrow>
                         (case decompress_decode decompress b of
                            None \<Rightarrow> (Inr [], [''Failed to decode stdout''])
                          | Some s \<Rightarrow> (Inr s, [])))))"

definition get_stderr_fh :: "(bytes \<Rightarrow> bytes option) \<Rightarrow> bytes \<Rightarrow> (error + pystr) \<times> string list" where
  "get_stderr_fh decompress f =
     (case read_header f of
        Inl e \<Rightarrow> (Inl e, [])
      | Inr header \<Rightarrow>
          if stderr_size header = 0 then (Inr [], [])
          else (case seek (int header_size + params_size header + pulse_size header
                           + stdout_size header) of
                  Inl e \<Rightarrow> (Inl e, [])
                | Inr pos \<Rightarrow>
                    (case fh_read pos (stderr_size header) f of
                       Inl e \<Rightarrow> (Inr [], [''Failed to decode stderr''])
                     | Inr b \<Rightarrow>
                         (case decompress_decode decompress b of
                            None \<Rightarrow> (Inr [], [''Failed to decode stderr''])
                          | Some s \<Rightarrow> (Inr s, [])))))"

definition get_result_fh :: "(bytes \<Rightarrow> 'v option) \<Rightarrow> bytes \<Rightarrow> (error + 'v obj) \<times> string list" where
  "get_result_fh loads f =
     (case read_header f of
        Inl e \<Rightarrow> (Inl e, [])
      | Inr header \<Rightarrow>
          if result_size header = 0 then (Inr Dict_empty, [])
          else (case seek (int header_size + params_size header + pulse_size header
                           + stdout_size header + stderr_size header) of
                  Inl e \<Rightarrow> (Inl e, [])
                | Inr pos \<Rightarrow>
                    (case fh_read pos (result_size header) f of
                       Inl e \<Rightarrow> (Inr Dict_ret_code_1, [''Failed to decode result''])
                     | Inr b \<Rightarrow>
                         (case loads b of
                            None \<Rightarrow> (Inr Dict_ret_code_1, [''Failed to decode result''])
                          | Some v \<Rightarrow> (Inr (Unpickled v), [])))))"

definition get_signature_fh :: "(bytes \<Rightarrow> 'v option) \<Rightarrow> bytes \<Rightarrow> (error + 'v obj) \<times> string list" where
  "get_signature_fh loads f =
     (case read_header f of
        Inl e \<Rightarrow> (Inl e, [])
      | Inr header \<Rightarrow>
          if signature_size header = 0 then (Inr Dict_empty, [])
          else (case seek (int header_size + params_size header + pulse_size header
                           + stdout_size header + stderr_size header
                           + result_size header) of
                  Inl e \<Rightarrow> (Inl e, [])
                | Inr pos \<Rightarrow>
                    (case fh_read pos (signature_size header) f of
                       Inl e \<Rightarrow> (Inr Dict_ret_code_1, [''Failed to decode signature''])
                     | Inr b \<Rightarrow>
                         (case loads b of
                            None \<Rightarrow> (Inr Dict_ret_code_1, [''Failed to decode signature''])
                          | Some v \<Rightarrow> (Inr (Unpickled v), [])))))"

text \<open>An accessor opens the task file with mode \<^verbatim>\<open>rb\<close>.\<close>

definition reading :: "(bytes \<Rightarrow> (error + 'a) \<times> string list) \<Rightarrow> bytes option \<Rightarrow>
    (error + 'a) \<times> string list" where
  "reading body s = (case s of None \<Rightarrow> (Inl FileNotFoundError, []) | Some f \<Rightarrow> body f)"

definition get_params :: "(bytes \<Rightarrow> 'v option) \<Rightarrow> bytes option \<Rightarrow> (error + 'v obj) \<times> string list" where
  "get_params loads = reading (get_params_fh loads)"

definition get_pulse :: "(bytes \<Rightarrow> bytes option) \<Rightarrow> bytes option \<Rightarrow> (error + pystr) \<times> string list" where
  "get_pulse decompress = reading (get_pulse_fh decompress)"

definition get_stdout :: "(bytes \<Rightarrow> bytes option) \<Rightarrow> bytes option \<Rightarrow> (error + pystr) \<times> string list" where
  "get_stdout decompress = reading (get_stdout_fh decompress)"

definition get_stderr :: "(bytes \<Rightarrow> bytes option) \<Rightarrow> bytes option \<Rightarrow> (error + pystr) \<times> string list" where
  "get_stderr decompress = reading (get_stderr_fh decompress)"

definition get_result :: "(bytes \<Rightarrow> 'v option) \<Rightarrow> bytes option \<Rightarrow> (error + 'v obj) \<times> string list" where
  "get_result loads = reading (get_result_fh loads)"

definition get_signature :: "(bytes \<Rightarrow> 'v option) \<Rightarrow> bytes option \<Rightarrow> (error + 'v obj) \<times> string list" where
  "get_signature loads = reading (get_signature_fh loads)"

subsection \<open>Sequences of writer calls\<close>

text \<open>
  A call of one of the four writers, with the reading of the clock where the writer takes
  one, and a sequence of such calls. The sequence stops at the first call that raises.
\<close>

datatype writer_call =
    Update double bytes
  | Add_outputs double "bytes option" "bytes option" "bytes option"
  | Add_result bytes
  | Add_signature bytes

fun call :: "(bytes \<Rightarrow> bytes) \<Rightarrow> writer_call \<Rightarrow> bytes option \<Rightarrow> (error + unit) \<times> bytes option" where
  "call compress (Update now b) s = update now b s"
| "call compress (Add_outputs now p out err) s = add_outputs compress now p out err s"
| "call compress (Add_result b) s = add_result b s"
| "call compress (Add_signature b) s = add_signature b s"

fun calls :: "(bytes \<Rightarrow> bytes) \<Rightarrow> writer_call list \<Rightarrow> bytes option \<Rightarrow> (error + unit) \<times> bytes option" where
  "calls compress [] s = (Inr (), s)"
| "calls compress (c # cs) s =
     (case call compress c s of
        (Inl e, s') \<Rightarrow> (Inl e, s')
      | (Inr _, s') \<Rightarrow> calls compress cs s')"

section \<open>Task parameters\<close>

text \<open>
  A value of the \<^verbatim>\<open>_runtime\<close> dictionary is an integer or a string. A key whose value
  is \<^verbatim>\<open>None\<close> is read by the code as a key that is absent, and is absent in the model.
  Of \<^verbatim>\<open>sos_dict\<close> the model keeps the entries that \<^verbatim>\<open>push\<close> reads or writes; \<open>d_input\<close>,
  \<open>d_output\<close> and \<open>d_depends\<close> are the entries \<^verbatim>\<open>_input\<close>, \<^verbatim>\<open>_output\<close> and \<^verbatim>\<open>_depends\<close>.
  What \<^verbatim>\<open>push\<close> asks of these entries differs between the task that is pushed and the
  master, so their type \<open>'e\<close> is left open: in a task that is pushed it is
  \<open>string list option\<close>, a list of names, or \<open>None\<close> when the entry is absent or is not a
  list; in the master it is \<open>sos_targets\<close>.
\<close>

datatype pyval = PInt int | PStr string

record 'e sos_dict_t =
  runtime :: "string \<rightharpoonup> pyval"
  step_name :: string
  d_input :: 'e
  d_output :: 'e
  d_depends :: 'e

text \<open>
  The class \<^verbatim>\<open>sos_targets\<close> comes from a module of the repository that is not among the
  sources at hand. Of an object of the class the model keeps how it was made: by
  \<^verbatim>\<open>sos_targets()\<close>, followed by the lists it has been extended with, in the order of the
  calls. What the items of such an object are is for the class to say; \<^verbatim>\<open>extend\<close> is
  taken to return.
\<close>

datatype sos_targets = Sos_targets "string list list"

definition sos_targets_extend :: "sos_targets \<Rightarrow> string list \<Rightarrow> sos_targets" where
  "sos_targets_extend t xs = (case t of Sos_targets added \<Rightarrow> Sos_targets (added @ [xs]))"

text \<open>
  A \<^verbatim>\<open>TaskParams\<close> object. \<open>task_text\<close> is the attribute \<^verbatim>\<open>task\<close> and \<open>tags_attr\<close> the
  attribute \<^verbatim>\<open>tags\<close>, \<open>None\<close> once it has been deleted.
\<close>

record 'e TaskParams =
  name :: string
  global_def :: string
  task_text :: string
  raw_dict :: "'e sos_dict_t"
  sos_dict :: "'e sos_dict_t"
  tags_attr :: "pystr list option"

subsection \<open>save\<close>

text \<open>
  \<open>dumps\<close> is \<^verbatim>\<open>lzma.compress(pickle.dumps(params))\<close>, a parameter of the model. \<open>save\<close>
  returns what it returns or raises, the caller's object as it leaves it, and the file.
  The file is opened with \<^verbatim>\<open>wb+\<close> before the header is packed, so a header that cannot
  be packed leaves an empty file.
\<close>

definition save ::
  "('e TaskParams \<Rightarrow> error + bytes) \<Rightarrow> double \<Rightarrow> 'e TaskParams \<Rightarrow> bytes option \<Rightarrow>
   (error + unit) \<times> 'e TaskParams \<times> bytes option" where
  "save dumps now params s =
     (case s of
        Some f \<Rightarrow> (Inr (), params, Some f)
      | None \<Rightarrow>
          (case tags_attr params of
             None \<Rightarrow> (Inl AttributeError, params, None)
           | Some tgs \<Rightarrow>
               let params = params\<lparr>tags_attr := None\<rparr>
               in (case dumps params of
                     Inl e \<Rightarrow> (Inl e, params, None)
                   | Inr params_block \<Rightarrow>
                       (case encode (ljust 128 (join_space (sort tgs))) of
                          Inl e \<Rightarrow> (Inl e, params, None)
                        | Inr tag_bytes \<Rightarrow>
                            let header = \<lparr>
                                  version = 1,
                                  status = status_value new,
                                  tags = tag_bytes,
                                  new_time = now,
                                  pending_time = 0,
                                  submitted_time = 0,
                                  running_time = 0,
                                  aborted_time = 0,
                                  failed_time = 0,
                                  completed_time = 0,
                                  last_modified = now,
                                  params_size = int (length params_block),
                                  pulse_size = 0,
                                  stdout_size = 0,
                                  stderr_size = 0,
                                  result_size = 0,
                                  signature_size = 0\<rparr>
                            in (case write_header header [] of
                                  Inl e \<Rightarrow> (Inl e, params, Some [])
                                | Inr f1 \<Rightarrow>
                                    (Inr (), params,
                                     Some (write_at header_size params_block f1)))))))"

section \<open>The master task\<close>

text \<open>
  \<^verbatim>\<open>expand_time\<close>, \<^verbatim>\<open>expand_size\<close> and \<^verbatim>\<open>format_HHMMSS\<close> come from a module of the
  repository that is not among the sources at hand; they are parameters of the model. The
  two parsers may raise. \<open>has_item\<close> belongs to the class \<^verbatim>\<open>sos_targets\<close>, which is not
  at hand either: \<open>has_item t x\<close> says that the string \<open>x\<close> is equal to one of the items
  that iterating over the object \<open>t\<close> gives, which is what makes \<^verbatim>\<open>set(xs) - set(t)\<close>
  leave \<open>x\<close> out.
\<close>

record helpers =
  expand_time :: "pyval \<Rightarrow> error + int"
  expand_size :: "pyval \<Rightarrow> error + int"
  format_HHMMSS :: "int \<Rightarrow> pyval"
  has_item :: "sos_targets \<Rightarrow> string \<Rightarrow> bool"

text \<open>
  The master is a \<^verbatim>\<open>TaskParams\<close> whose entries \<^verbatim>\<open>_input\<close>, \<^verbatim>\<open>_output\<close> and \<^verbatim>\<open>_depends\<close>
  are \<^verbatim>\<open>sos_targets\<close> objects; the tasks of its stack are the tasks that were pushed.
\<close>

record MasterTaskParams = "sos_targets TaskParams" +
  ID :: string
  num_workers :: int
  task_stack :: "(string \<times> string list option TaskParams) list"

text \<open>\<^verbatim>\<open>str(n)\<close> for an integer, and the value of a format field \<^verbatim>\<open>{v}\<close>.\<close>

fun digits :: "nat \<Rightarrow> nat \<Rightarrow> string" where
  "digits 0 n = []"
| "digits (Suc k) n =
     (if n < 10 then [char_of (48 + n)]
      else digits k (n div 10) @ [char_of (48 + n mod 10)])"

definition str_int :: "int \<Rightarrow> string" where
  "str_int i = (if i < 0 then CHR ''-'' # digits (Suc (nat (- i))) (nat (- i))
               else digits (Suc (nat i)) (nat i))"

fun str_val :: "pyval \<Rightarrow> string" where
  "str_val (PInt i) = str_int i"
| "str_val (PStr s) = s"

definition empty_dict :: "sos_targets sos_dict_t" where
  "empty_dict = \<lparr>runtime = Map.empty, step_name = [], d_input = Sos_targets [],
                 d_output = Sos_targets [], d_depends = Sos_targets []\<rparr>"

definition MasterTaskParams_init :: "int \<Rightarrow> MasterTaskParams" where
  "MasterTaskParams_init nw =
     \<lparr>name = ''M_0'', global_def = [], task_text = [], raw_dict = empty_dict,
      sos_dict = empty_dict, tags_attr = Some [], ID = ''M_0'', num_workers = nw,
      task_stack = []\<rparr>"

definition num_tasks :: "MasterTaskParams \<Rightarrow> nat" where
  "num_tasks m = length (task_stack m)"

text \<open>The keys copied at the first push, and the keys compared at every later push.\<close>

definition first_keys :: "string list" where
  "first_keys = [''walltime'', ''max_walltime'', ''cores'', ''max_cores'', ''mem'', ''max_mem'',
     ''map_vars'', ''name'', ''cur_dir'', ''home_dir'', ''verbosity'', ''sig_mode'',
     ''run_mode'']"

definition identity_keys :: "string list" where
  "identity_keys = [''walltime'', ''max_walltime'', ''cores'', ''max_cores'', ''mem'', ''max_mem'',
     ''name'', ''cur_dir'', ''home_dir'']"

fun copy_keys :: "string list \<Rightarrow> (string \<rightharpoonup> pyval) \<Rightarrow> (string \<rightharpoonup> pyval) \<Rightarrow> (string \<rightharpoonup> pyval)" where
  "copy_keys [] src dst = dst"
| "copy_keys (key # keys) src dst =
     copy_keys keys src (case src key of None \<Rightarrow> dst | Some v \<Rightarrow> dst(key \<mapsto> v))"

definition nrow :: "int \<Rightarrow> nat \<Rightarrow> int" where
  "nrow nw len =
     (if nw \<le> 1 then int len
      else (int len + 1) div nw + (if (int len + 1) mod nw = 0 then 0 else 1))"

definition ncol :: "int \<Rightarrow> nat \<Rightarrow> int" where
  "ncol nw len =
     (if nw = 0 then 1 else if nrow nw len > 1 then nw else int len + 1)"

text \<open>
  The body of the loop over the identity keys at a later push, for a key whose value
  \<open>val0\<close> in the first task of the stack is defined: \<open>len\<close> is the length of the stack and
  \<open>mrt\<close> the \<^verbatim>\<open>_runtime\<close> of the master, which the body updates.
  \<^verbatim>\<open>ncol * val0 + 1\<close> is a TypeError when \<^verbatim>\<open>val0\<close> is a string.
\<close>

definition merge_key ::
  "helpers \<Rightarrow> int \<Rightarrow> nat \<Rightarrow> string \<Rightarrow> pyval \<Rightarrow> (string \<rightharpoonup> pyval) \<Rightarrow>
   error + (string \<rightharpoonup> pyval)" where
  "merge_key H nw len key val0 mrt =
     (if key = ''walltime'' then
        (case expand_time H val0 of
           Inl e \<Rightarrow> Inl e
         | Inr t \<Rightarrow> Inr (mrt(''walltime'' \<mapsto> format_HHMMSS H (nrow nw len * t))))
      else if key = ''mem'' then
        (case expand_size H val0 of
           Inl e \<Rightarrow> Inl e
         | Inr sz \<Rightarrow>
             if nw > 0 then
               (case expand_size H (PStr ''100M'') of
                  Inl e \<Rightarrow> Inl e
                | Inr extra \<Rightarrow> Inr (mrt(''mem'' \<mapsto> PInt (ncol nw len * sz + extra))))
             else Inr (mrt(''mem'' \<mapsto> PInt (ncol nw len * sz + 0))))
      else if key = ''cores'' then
        (case val0 of
           PInt c \<Rightarrow> Inr (mrt(''cores'' \<mapsto> PInt (ncol nw len * c + (if nw > 0 then 1 else 0))))
         | PStr _ \<Rightarrow> Inl TypeError)
      else if key = ''name'' then
        Inr (mrt(''name'' \<mapsto> PStr (str_val val0 @ ''_'' @ str_int (int len + 1))))
      else Inr mrt)"

text \<open>
  The loop: \<open>rt0\<close> is the \<^verbatim>\<open>_runtime\<close> of the first task of the stack and \<open>rt\<close> that of
  the task pushed. A loop that raises has updated the master for the keys before.
\<close>

fun merge_keys ::
  "helpers \<Rightarrow> int \<Rightarrow> nat \<Rightarrow> (string \<rightharpoonup> pyval) \<Rightarrow> (string \<rightharpoonup> pyval) \<Rightarrow> string list \<Rightarrow>
   (string \<rightharpoonup> pyval) \<Rightarrow> error option \<times> (string \<rightharpoonup> pyval)" where
  "merge_keys H nw len rt0 rt [] mrt = (None, mrt)"
| "merge_keys H nw len rt0 rt (key # keys) mrt =
     (let val0 = rt0 key; val = rt key in
      if val0 \<noteq> val
      then (Some (ValueError (''All tasks should have the same resource '' @ key)), mrt)
      else
        (case val0 of
           None \<Rightarrow> merge_keys H nw len rt0 rt keys mrt
         | Some v0 \<Rightarrow>
             (case merge_key H nw len key v0 mrt of
                Inl e \<Rightarrow> (Some e, mrt)
              | Inr mrt' \<Rightarrow> merge_keys H nw len rt0 rt keys mrt')))"

text \<open>
  \<^verbatim>\<open>self.sos_dict[key].extend(list(set(params.sos_dict[key]) - set(self.sos_dict[key])))\<close>,
  for a key that the task pushed has and whose value there is a list: \<open>own\<close> is the object
  of the master and \<open>added\<close> the entry of the task. The set of the names of the list loses
  those that equal an item of the master's object, and the object is extended with what
  is left. The order in which a Python set is enumerated is not fixed; the model
  enumerates in the order of the list added.
\<close>

definition extend_new :: "helpers \<Rightarrow> sos_targets \<Rightarrow> string list option \<Rightarrow> sos_targets" where
  "extend_new H own added =
     (case added of
        None \<Rightarrow> own
      | Some ys \<Rightarrow> sos_targets_extend own (remdups (filter (\<lambda>y. \<not> has_item H own y) ys)))"

text \<open>
  \<^verbatim>\<open>push\<close> returns the exception it raises, if any, and the master as it leaves it.
\<close>

definition push ::
  "helpers \<Rightarrow> string \<Rightarrow> string list option TaskParams \<Rightarrow> MasterTaskParams \<Rightarrow>
   error option \<times> MasterTaskParams" where
  "push H task_id params self =
     (let r =
        (if task_stack self = [] then
           (case tags_attr params of
              None \<Rightarrow> (Some AttributeError,
                 self\<lparr>sos_dict := (sos_dict self)\<lparr>
                    runtime := copy_keys first_keys (runtime (sos_dict params))
                                 (runtime (sos_dict self)),
                    step_name := step_name (sos_dict params)\<rparr>\<rparr>)
            | Some tgs \<Rightarrow> (None,
                 self\<lparr>sos_dict := (sos_dict self)\<lparr>
                    runtime := copy_keys first_keys (runtime (sos_dict params))
                                 (runtime (sos_dict self)),
                    step_name := step_name (sos_dict params)\<rparr>,
                  tags_attr := Some tgs\<rparr>))
         else
           (case merge_keys H (num_workers self) (length (task_stack self))
                   (runtime (sos_dict (snd (hd (task_stack self)))))
                   (runtime (sos_dict params)) identity_keys (runtime (sos_dict self)) of
              (Some e, mrt) \<Rightarrow> (Some e, self\<lparr>sos_dict := (sos_dict self)\<lparr>runtime := mrt\<rparr>\<rparr>)
            | (None, mrt) \<Rightarrow>
                let self = self\<lparr>sos_dict := (sos_dict self)\<lparr>runtime := mrt\<rparr>\<rparr>
                in (case (tags_attr self, tags_attr params) of
                      (Some own, Some tgs) \<Rightarrow> (None, self\<lparr>tags_attr := Some (own @ tgs)\<rparr>)
                    | _ \<Rightarrow> (Some AttributeError, self))))
      in case r of
           (Some e, self) \<Rightarrow> (Some e, self)
         | (None, self) \<Rightarrow>
             let self = self\<lparr>sos_dict := (sos_dict self)\<lparr>
                          d_input := extend_new H (d_input (sos_dict self))
                                       (d_input (sos_dict params)),
                          d_output := extend_new H (d_output (sos_dict self))
                                        (d_output (sos_dict params)),
                          d_depends := extend_new H (d_depends (sos_dict self))
                                         (d_depends (sos_dict params))\<rparr>\<rparr>;
                 self = self\<lparr>task_stack := task_stack self @ [(task_id, params)]\<rparr>;
                 self = self\<lparr>tags_attr := map_option (\<lambda>t. sort (remdups t)) (tags_attr self)\<rparr>;
                 self = self\<lparr>ID := ''M'' @ str_int (int (length (task_stack self))) @ ''_''
                                    @ fst (hd (task_stack self))\<rparr>;
                 self = self\<lparr>raw_dict := sos_dict self\<rparr>;
                 self = self\<lparr>name := ID self\<rparr>
             in (None, self))"

text \<open>Pushing a list of tasks, one after the other, until a push raises.\<close>

fun push_all ::
  "helpers \<Rightarrow> (string \<times> string list option TaskParams) list \<Rightarrow> MasterTaskParams \<Rightarrow>
   error option \<times> MasterTaskParams" where
  "push_all H [] self = (None, self)"
| "push_all H ((task_id, params) # ts) self =
     (case push H task_id params self of
        (Some e, self') \<Rightarrow> (Some e, self')
      | (None, self') \<Rightarrow> push_all H ts self')"

section \<open>The liveness probe\<close>

text \<open>
  What \<^verbatim>\<open>check_task\<close> sees of the world up to the point where it returns a terminal
  status: the regular files, each with its modification time and its content, and the home
  directory. Modification times are only compared with each other and with 0.
\<close>

record finfo =
  st_mtime :: real
  content :: bytes

record world =
  home :: string
  files :: "string \<rightharpoonup> finfo"

text \<open>A hint: \<open>None\<close> is the empty dictionary.\<close>

record hint_t =
  hint_status :: string
  hint_files :: "(string \<times> real) list"

text \<open>What the probe returns: the empty dictionary, or a status with its evidence.\<close>

datatype probe = Unchanged | Probe string "(string \<times> real) list"

definition os_path_join :: "string \<Rightarrow> string \<Rightarrow> string" where
  "os_path_join a b =
     (if b \<noteq> [] \<and> hd b = CHR ''/'' then b
      else if a = [] \<or> last a = CHR ''/'' then a @ b
      else a @ ''/'' @ b)"

definition task_path :: "world \<Rightarrow> string \<Rightarrow> string \<Rightarrow> string" where
  "task_path w task ext =
     os_path_join (os_path_join (os_path_join (home w) ''.sos'') ''tasks'') (task @ ext)"

text \<open>
  The test of the evidence of a hint: a file recorded with a time other than 0 is a file
  with that time, a file recorded with 0 does not exist.
\<close>

definition evidence_matches :: "world \<Rightarrow> (string \<times> real) list \<Rightarrow> bool" where
  "evidence_matches w fs =
     list_all (\<lambda>(f, v).
        if v \<noteq> 0 then (case files w f of None \<Rightarrow> False | Some i \<Rightarrow> st_mtime i = v)
        else files w f = None) fs"

text \<open>
  \<^verbatim>\<open>_get_status\<close> reads four bytes at offset 4 and unpacks them with the format
  \<^verbatim>\<open>'i'\<close>, which is the byte order of the host, while the header is written in network
  byte order. The byte order of the host is a parameter.
\<close>

datatype endian = Big | Little

definition unpack_native_i :: "endian \<Rightarrow> bytes \<Rightarrow> error + int" where
  "unpack_native_i byteorder b =
     (if length b \<noteq> 4 then Inl StructError
      else Inr (signed32 (case byteorder of Big \<Rightarrow> be_value b | Little \<Rightarrow> le_value b)))"

definition get_status_fh :: "endian \<Rightarrow> bytes \<Rightarrow> error + string" where
  "get_status_fh byteorder f =
     (case unpack_native_i byteorder (slice 4 4 f) of
        Inl e \<Rightarrow> Inl e
      | Inr v \<Rightarrow>
          (case TaskStatus_of_value v of
             Inl e \<Rightarrow> Inl e
           | Inr st \<Rightarrow> Inr (status_name st)))"

text \<open>
  \<^verbatim>\<open>check_task\<close> up to the return of a terminal status. What the function does
  afterwards (the liveness file, the submission files, the sleep and the retries) is the
  parameter \<open>live\<close>: a result that does not depend on \<open>live\<close> has been computed without
  entering that part.
\<close>

definition check_task ::
  "endian \<Rightarrow> (world \<Rightarrow> string \<Rightarrow> hint_t option \<Rightarrow> string \<Rightarrow> error + probe) \<Rightarrow>
   world \<Rightarrow> string \<Rightarrow> hint_t option \<Rightarrow> error + probe" where
  "check_task byteorder live w task hint =
     (if (case hint of
            None \<Rightarrow> False
          | Some h \<Rightarrow> hint_status h \<notin> {''pending'', ''running''}
                      \<and> evidence_matches w (hint_files h))
      then Inr Unchanged
      else
        let task_file = task_path w task ''.task'' in
        (case files w task_file of
           None \<Rightarrow> Inr (Probe ''missing'' [(task_file, 0)])
         | Some tf \<Rightarrow>
             (case get_status_fh byteorder (content tf) of
                Inl e \<Rightarrow> Inl e
              | Inr st \<Rightarrow>
                  if st \<in> {''failed'', ''completed'', ''aborted''}
                  then Inr (Probe st [(task_file, st_mtime tf)])
                  else live w task hint st)))"

subsection \<open>Notions used to state the properties\<close>

text \<open>The header a reader finds in a file of at least 224 bytes.\<close>

definition header_of :: "bytes \<Rightarrow> TaskHeader" where
  "header_of f = unpack_header (take header_size f)"

definition int32 :: "int \<Rightarrow> bool" where
  "int32 v \<longleftrightarrow> - (2 ^ 31) \<le> v \<and> v < 2 ^ 31"

definition packable :: "TaskHeader \<Rightarrow> bool" where
  "packable h \<longleftrightarrow>
     int32 (version h) \<and> int32 (status h) \<and> length (tags h) = 128 \<and>
     int32 (params_size h) \<and> int32 (pulse_size h) \<and> int32 (stdout_size h) \<and>
     int32 (stderr_size h) \<and> int32 (result_size h) \<and> int32 (signature_size h)"

text \<open>
  The time stamp that belongs to a state: the field the specification calls the state's
  own time stamp.
\<close>

fun set_own_time :: "TaskStatus \<Rightarrow> double \<Rightarrow> TaskHeader \<Rightarrow> TaskHeader" where
  "set_own_time new t h = h\<lparr>new_time := t\<rparr>"
| "set_own_time pending t h = h\<lparr>pending_time := t\<rparr>"
| "set_own_time submitted t h = h\<lparr>submitted_time := t\<rparr>"
| "set_own_time running t h = h\<lparr>running_time := t\<rparr>"
| "set_own_time aborted t h = h\<lparr>aborted_time := t\<rparr>"
| "set_own_time failed t h = h\<lparr>failed_time := t\<rparr>"
| "set_own_time completed t h = h\<lparr>completed_time := t\<rparr>"

text \<open>
  The six sections of a record, as the bytes last written for each, and the records that
  hold them: the header gives the six lengths and the sections follow the header in
  order, with nothing after them.
\<close>

record sections =
  params_sec :: bytes
  pulse_sec :: bytes
  stdout_sec :: bytes
  stderr_sec :: bytes
  result_sec :: bytes
  signature_sec :: bytes

definition holds :: "bytes \<Rightarrow> sections \<Rightarrow> bool" where
  "holds f secs \<longleftrightarrow>
     header_size \<le> length f \<and>
     params_size (header_of f) = int (length (params_sec secs)) \<and>
     pulse_size (header_of f) = int (length (pulse_sec secs)) \<and>
     stdout_size (header_of f) = int (length (stdout_sec secs)) \<and>
     stderr_size (header_of f) = int (length (stderr_sec secs)) \<and>
     result_size (header_of f) = int (length (result_sec secs)) \<and>
     signature_size (header_of f) = int (length (signature_sec secs)) \<and>
     drop header_size f =
       params_sec secs @ pulse_sec secs @ stdout_sec secs @ stderr_sec secs
       @ result_sec secs @ signature_sec secs"

text \<open>The header/offset invariant: header size plus the six sizes is the file length.\<close>

definition sizes_add_up :: "bytes \<Rightarrow> bool" where
  "sizes_add_up f \<longleftrightarrow>
     header_size \<le> length f \<and>
     int (length f) =
       int header_size + params_size (header_of f) + pulse_size (header_of f)
       + stdout_size (header_of f) + stderr_size (header_of f)
       + result_size (header_of f) + signature_size (header_of f)"

text \<open>What was last written for each section after a call.\<close>

fun written :: "(bytes \<Rightarrow> bytes) \<Rightarrow> writer_call \<Rightarrow> sections \<Rightarrow> sections" where
  "written compress (Update now b) secs =
     \<lparr>params_sec = b, pulse_sec = [], stdout_sec = [], stderr_sec = [],
      result_sec = [], signature_sec = []\<rparr>"
| "written compress (Add_outputs now p out err) secs =
     secs\<lparr>pulse_sec := get_content compress p, stdout_sec := get_content compress out,
          stderr_sec := get_content compress err\<rparr>"
| "written compress (Add_result b) secs = secs\<lparr>result_sec := b\<rparr>"
| "written compress (Add_signature b) secs = secs\<lparr>signature_sec := b\<rparr>"

text \<open>
  The calls for which the writers keep the invariant: a writer finds no section after the
  ones it writes, and writes at least as many bytes as the sections it replaces hold.
  A size of 2^31 bytes or more does not fit the header. For \<open>add_outputs\<close> the record has
  no result either: on a record with a result the call goes through \<open>_reset\<close>, a path
  that the invariant stated with \<open>appending\<close> says nothing about.
\<close>

fun appending :: "(bytes \<Rightarrow> bytes) \<Rightarrow> writer_call \<Rightarrow> sections \<Rightarrow> bool" where
  "appending compress (Update now b) secs \<longleftrightarrow> length b < 2 ^ 31"
| "appending compress (Add_outputs now p out err) secs \<longleftrightarrow>
     result_sec secs = [] \<and> signature_sec secs = [] \<and>
     length (pulse_sec secs) + length (stdout_sec secs) + length (stderr_sec secs)
       \<le> length (get_content compress p) + length (get_content compress out)
         + length (get_content compress err) \<and>
     length (get_content compress p) < 2 ^ 31 \<and>
     length (get_content compress out) < 2 ^ 31 \<and>
     length (get_content compress err) < 2 ^ 31"
| "appending compress (Add_result b) secs \<longleftrightarrow>
     signature_sec secs = [] \<and> length (result_sec secs) \<le> length b \<and> length b < 2 ^ 31"
| "appending compress (Add_signature b) secs \<longleftrightarrow>
     length (signature_sec secs) \<le> length b \<and> length b < 2 ^ 31"

fun all_appending :: "(bytes \<Rightarrow> bytes) \<Rightarrow> writer_call list \<Rightarrow> sections \<Rightarrow> bool" where
  "all_appending compress [] secs \<longleftrightarrow> True"
| "all_appending compress (c # cs) secs \<longleftrightarrow>
     appending compress c secs \<and> all_appending compress cs (written compress c secs)"

fun written_all :: "(bytes \<Rightarrow> bytes) \<Rightarrow> writer_call list \<Rightarrow> sections \<Rightarrow> sections" where
  "written_all compress [] secs = secs"
| "written_all compress (c # cs) secs = written_all compress cs (written compress c secs)"




text \<open>
  A decoder fails on a stored section: reading the section raises, or the decoder raises
  on the bytes read.
\<close>

definition fails_on :: "(bytes \<Rightarrow> 'a option) \<Rightarrow> int \<Rightarrow> int \<Rightarrow> bytes \<Rightarrow> bool" where
  "fails_on dec off n f \<longleftrightarrow>
     n \<noteq> 0 \<and> 0 \<le> off \<and>
     (case fh_read (nat off) n f of Inl e \<Rightarrow> True | Inr b \<Rightarrow> dec b = None)"

text \<open>
  The resource values of a task are well-formed: the number of cores is an integer, and
  the parsers of times and sizes accept the walltime, the memory and, where there are
  workers, the fixed overhead.
\<close>

definition resources_ok :: "helpers \<Rightarrow> int \<Rightarrow> (string \<rightharpoonup> pyval) \<Rightarrow> bool" where
  "resources_ok H nw rt \<longleftrightarrow>
     (case rt ''walltime'' of None \<Rightarrow> True | Some v \<Rightarrow> \<not> isl (expand_time H v)) \<and>
     (case rt ''mem'' of
        None \<Rightarrow> True
      | Some v \<Rightarrow> \<not> isl (expand_size H v) \<and> (nw > 0 \<longrightarrow> \<not> isl (expand_size H (PStr ''100M'')))) \<and>
     (case rt ''cores'' of None \<Rightarrow> True | Some (PInt c) \<Rightarrow> True | Some (PStr s) \<Rightarrow> False)"


text \<open>
  Two records, byte by byte, on which the properties are tried. Both have version 1, a
  tags field of 128 spaces, a params section \<open>07 08\<close>, a stdout section \<open>09\<close> and a result
  section \<open>0a\<close>. The first is \<open>pending\<close> since the time 3 and was made at the time 2; the
  second went through \<open>pending\<close>, \<open>submitted\<close> and \<open>running\<close> at the times 3, 4 and 5 and
  is \<open>completed\<close> since the time 6.
\<close>

definition pending_record :: bytes where
  "pending_record =
     [0, 0, 0, 1, 0, 0, 0, 1] @ replicate 128 32
     @ [0, 0, 0, 0, 0, 0, 0, 2, 0, 0, 0, 0, 0, 0, 0, 3] @ replicate 40 0
     @ [0, 0, 0, 0, 0, 0, 0, 3]
     @ [0, 0, 0, 2, 0, 0, 0, 0, 0, 0, 0, 1, 0, 0, 0, 0, 0, 0, 0, 1, 0, 0, 0, 0]
     @ [7, 8, 9, 10]"

definition completed_record :: bytes where
  "completed_record =
     [0, 0, 0, 1, 0, 0, 0, 6] @ replicate 128 32
     @ [0, 0, 0, 0, 0, 0, 0, 2, 0, 0, 0, 0, 0, 0, 0, 3, 0, 0, 0, 0, 0, 0, 0, 4,
        0, 0, 0, 0, 0, 0, 0, 5] @ replicate 16 0
     @ [0, 0, 0, 0, 0, 0, 0, 6, 0, 0, 0, 0, 0, 0, 0, 6]
     @ [0, 0, 0, 2, 0, 0, 0, 0, 0, 0, 0, 1, 0, 0, 0, 0, 0, 0, 0, 1, 0, 0, 0, 0]
     @ [7, 8, 9, 10]"
section \<open>Properties of the byte encodings\<close>

lemma length_be_bytes [simp]: "length (be_bytes n v) = n"
  by (induction n arbitrary: v) auto

lemma be_value_append: "be_value (xs @ [b]) = be_value xs * 256 + unat b"
  by (simp add: be_value_def)

lemma be_value_be_bytes: "be_value (be_bytes n v) = v mod 256 ^ n"
proof (induction n arbitrary: v)
  case 0
  show ?case by (simp add: be_value_def)
next
  case (Suc n)
  have "unat (of_nat (v mod 256) :: byte) = v mod 256"
    by (simp add: unat_of_nat)
  then have "be_value (be_bytes (Suc n) v) = (v div 256) mod 256 ^ n * 256 + v mod 256"
    by (simp add: be_value_append Suc.IH)
  also have "\<dots> = v mod 256 ^ Suc n"
    by (simp add: mod_mult2_eq)
  finally show ?case .
qed

lemma unat_byte_less: "unat (b :: byte) < 256"
  using unsigned_less [of b, where ?'a = nat] by simp

lemma be_value_less: "be_value bs < 256 ^ length bs"
proof (induction bs rule: rev_induct)
  case Nil
  show ?case by (simp add: be_value_def)
next
  case (snoc b bs)
  have "unat b < 256" by (rule unat_byte_less)
  with snoc show ?case by (simp add: be_value_append)
qed

lemma unpack_i_range:
  "length bs = 4 \<Longrightarrow> - (2 ^ 31) \<le> unpack_i bs \<and> unpack_i bs < 2 ^ 31"
  using be_value_less [of bs] by (simp add: unpack_i_def signed32_def)

lemma signed32_mod:
  assumes "- (2 ^ 31) \<le> v" "v < 2 ^ 31"
  shows "signed32 (nat (v mod 2 ^ 32)) = v"
proof (cases "0 \<le> v")
  case True
  with assms have "v mod 2 ^ 32 = v" by simp
  with True assms show ?thesis by (simp add: signed32_def)
next
  case False
  have "(v + 2 ^ 32) mod 2 ^ 32 = v + 2 ^ 32"
    using assms False by (intro mod_pos_pos_trivial) simp_all
  then have "v mod 2 ^ 32 = v + 2 ^ 32"
    by simp
  with False assms show ?thesis by (simp add: signed32_def)
qed

lemma pack_i_length: "pack_i v = Inr bs \<Longrightarrow> length bs = 4"
  by (auto simp: pack_i_def split: if_splits)

lemma pack_i_unpack: "pack_i v = Inr bs \<Longrightarrow> unpack_i bs = v"
  using signed32_mod [of v]
  by (auto simp: pack_i_def unpack_i_def be_value_be_bytes split: if_splits)

lemma pack_i_ok: "- (2 ^ 31) \<le> v \<Longrightarrow> v < 2 ^ 31 \<Longrightarrow> \<exists>bs. pack_i v = Inr bs"
  by (simp add: pack_i_def)

lemma unpack_d_pack_d [simp]: "unpack_d (pack_d w) = w"
proof -
  have "unat w < 2 ^ 64" using unsigned_less [of w, where ?'a = nat] by simp
  then show ?thesis by (simp add: unpack_d_def pack_d_def be_value_be_bytes)
qed

lemma length_pack_d [simp]: "length (pack_d w) = 8"
  by (simp add: pack_d_def)

lemma length_pack_s [simp]: "length (pack_s n bs) = n"
  by (simp add: pack_s_def)

lemma pack_s_same: "length bs = n \<Longrightarrow> pack_s n bs = bs"
  by (simp add: pack_s_def)

lemma slice_append_skip:
  "length a \<le> off \<Longrightarrow> slice off n (a @ b) = slice (off - length a) n b"
  by (simp add: slice_def)

lemma slice_append_here: "length a = n \<Longrightarrow> slice 0 n (a @ b) = a"
  by (simp add: slice_def)

lemma pack_all_Cons_Inr:
  "pack_all (p # ps) = Inr bs \<longleftrightarrow>
     (\<exists>b bs'. p = Inr b \<and> pack_all ps = Inr bs' \<and> bs = b @ bs')"
  by (cases p) (auto split: sum.splits)

lemma unpack_pack_header:
  assumes "pack_header h = Inr bs"
  shows "length bs = 224" and "unpack_header bs = h\<lparr>tags := pack_s 128 (tags h)\<rparr>"
proof -
  from assms obtain b1 b2 b3 b4 b5 b6 b7 b8 where
    p: "pack_i (version h) = Inr b1" "pack_i (status h) = Inr b2"
       "pack_i (params_size h) = Inr b3" "pack_i (pulse_size h) = Inr b4"
       "pack_i (stdout_size h) = Inr b5" "pack_i (stderr_size h) = Inr b6"
       "pack_i (result_size h) = Inr b7" "pack_i (signature_size h) = Inr b8"
    and bs: "bs = b1 @ b2 @ pack_s 128 (tags h) @ pack_d (new_time h) @ pack_d (pending_time h)
       @ pack_d (submitted_time h) @ pack_d (running_time h) @ pack_d (aborted_time h)
       @ pack_d (failed_time h) @ pack_d (completed_time h) @ pack_d (last_modified h)
       @ b3 @ b4 @ b5 @ b6 @ b7 @ b8"
    unfolding pack_header_def pack_all_Cons_Inr by auto
  note l = p [THEN pack_i_length]
  note u = p [THEN pack_i_unpack]
  show "length bs = 224" by (simp add: bs l)
  show "unpack_header bs = h\<lparr>tags := pack_s 128 (tags h)\<rparr>"
    unfolding unpack_header_def bs
    by (simp add: slice_append_skip slice_append_here l u slice_def)
qed

section \<open>Reading and writing the header\<close>

lemma read_header_ok: "header_size \<le> length f \<Longrightarrow> read_header f = Inr (header_of f)"
  by (simp add: read_header_def header_of_def)

lemma int32_unpack_i: "length bs = 4 \<Longrightarrow> int32 (unpack_i bs)"
  using unpack_i_range [of bs] by (simp add: int32_def)

lemma packable_unpack_header: "224 \<le> length bs \<Longrightarrow> packable (unpack_header bs)"
  by (simp add: packable_def unpack_header_def int32_unpack_i slice_def)

lemma packable_header_of: "header_size \<le> length f \<Longrightarrow> packable (header_of f)"
  by (simp add: header_of_def packable_unpack_header header_size_def)

lemma pack_all_Cons_Inr_eq:
  "pack_all (Inr b # ps) = (case pack_all ps of Inl e \<Rightarrow> Inl e | Inr bs \<Rightarrow> Inr (b @ bs))"
  by simp

lemma pack_header_ok:
  assumes "packable h"
  shows "\<exists>hb. pack_header h = Inr hb"
proof -
  from assms obtain b1 b2 b3 b4 b5 b6 b7 b8 where
    "pack_i (version h) = Inr b1" "pack_i (status h) = Inr b2"
    "pack_i (params_size h) = Inr b3" "pack_i (pulse_size h) = Inr b4"
    "pack_i (stdout_size h) = Inr b5" "pack_i (stderr_size h) = Inr b6"
    "pack_i (result_size h) = Inr b7" "pack_i (signature_size h) = Inr b8"
    unfolding packable_def int32_def pack_i_def by auto
  then show ?thesis by (simp add: pack_header_def)
qed

lemma write_at_0: "length hb \<le> length f \<Longrightarrow> hb \<noteq> [] \<Longrightarrow> write_at 0 hb f = hb @ drop (length hb) f"
  by (simp add: write_at_def)

text \<open>Writing a packable header into a file with a full header.\<close>

lemma write_header_ok:
  assumes "packable h" "header_size \<le> length f"
  shows "\<exists>hb. pack_header h = Inr hb \<and> length hb = header_size \<and>
            write_header h f = Inr (hb @ drop header_size f) \<and> header_of (hb @ rest) = h"
proof -
  from pack_header_ok [OF assms(1)] obtain hb where hb: "pack_header h = Inr hb" by blast
  have l: "length hb = 224" by (rule unpack_pack_header(1) [OF hb])
  have "pack_s 128 (tags h) = tags h" using assms(1) by (simp add: packable_def pack_s_same)
  then have u: "unpack_header hb = h" using unpack_pack_header(2) [OF hb] by simp
  have ne: "hb \<noteq> []" using l by auto
  show ?thesis using hb l u ne assms(2)
    by (simp add: write_header_def header_size_def write_at_0 header_of_def)
qed


lemma packable_status_update:
  "packable h \<Longrightarrow> packable ((set_own_time s t (h\<lparr>status := status_value s\<rparr>))\<lparr>last_modified := t'\<rparr>)"
  by (cases s) (simp_all add: packable_def int32_def)

lemma set_own_time_commute:
  "s \<noteq> new \<Longrightarrow> (set_own_time s t h)\<lparr>last_modified := t'\<rparr> = set_own_time s t (h\<lparr>last_modified := t'\<rparr>)"
  by (cases s) simp_all

lemma set_status_fh_recognized:
  assumes "header_size \<le> length f" "s \<noteq> new"
  shows "\<exists>hb. pack_header ((set_own_time s now ((header_of f)\<lparr>status := status_value s\<rparr>))\<lparr>last_modified := now\<rparr>) = Inr hb
        \<and> length hb = header_size
        \<and> set_status_fh now (status_name s) f = (Inr (), hb @ drop header_size f)"
proof -
  let ?h = "(set_own_time s now ((header_of f)\<lparr>status := status_value s\<rparr>))\<lparr>last_modified := now\<rparr>"
  have "packable ?h"
    by (rule packable_status_update) (rule packable_header_of [OF assms(1)])
  from write_header_ok [OF this assms(1)] obtain hb where
    hb: "pack_header ?h = Inr hb" "length hb = header_size" "write_header ?h f = Inr (hb @ drop header_size f)"
    by blast
  have "set_status_fh now (status_name s) f = (Inr (), hb @ drop header_size f)"
    using assms(2) hb(3)
    by (cases s) (simp_all add: set_status_fh_def read_header_ok [OF assms(1)])
  with hb show ?thesis by blast
qed

lemma set_status_fh_unrecognized:
  assumes "header_size \<le> length f"
    and "st \<notin> {''pending'', ''submitted'', ''running'', ''failed'', ''aborted'', ''completed''}"
  shows "set_status_fh now st f = (Inl (RuntimeError (''Unrecognized task status: '' @ st)), f)"
  using assms(2) by (simp add: set_status_fh_def read_header_ok [OF assms(1)])

lemma header_of_append: "length hb = header_size \<Longrightarrow> header_of (hb @ rest) = unpack_header hb"
  by (simp add: header_of_def)

lemma update_fh_ok:
  assumes "header_size \<le> length f" "length block < 2 ^ 31"
  shows "\<exists>hb. length hb = header_size
        \<and> unpack_header hb = (header_of f)\<lparr>
                status := status_value pending,
                new_time := now,
                pending_time := 0,
                submitted_time := 0,
                running_time := 0,
                aborted_time := 0,
                failed_time := 0,
                completed_time := 0,
                last_modified := now,
                params_size := int (length block),
                pulse_size := 0,
                stdout_size := 0,
                stderr_size := 0,
                result_size := 0,
                signature_size := 0\<rparr>
        \<and> update_fh now block f = (Inr (), hb @ block)"
proof -
  let ?h = "(header_of f)\<lparr>
                status := status_value pending,
                new_time := now,
                pending_time := 0,
                submitted_time := 0,
                running_time := 0,
                aborted_time := 0,
                failed_time := 0,
                completed_time := 0,
                last_modified := now,
                params_size := int (length block),
                pulse_size := 0,
                stdout_size := 0,
                stderr_size := 0,
                result_size := 0,
                signature_size := 0\<rparr>"
  have "packable (header_of f)" by (rule packable_header_of [OF assms(1)])
  then have "packable ?h" using assms(2) by (simp add: packable_def int32_def)
  from write_header_ok [OF this assms(1), of "[]"] obtain hb where
    hb: "pack_header ?h = Inr hb" "length hb = header_size"
        "write_header ?h f = Inr (hb @ drop header_size f)" "header_of (hb @ []) = ?h"
    by blast
  have u: "unpack_header hb = ?h" using hb(4) hb(2) by (simp add: header_of_def)
  have "truncate_to (header_size + length block) (write_at header_size block (hb @ drop header_size f))
        = hb @ block"
    using hb(2) by (simp add: truncate_to_def write_at_def)
  then have "update_fh now block f = (Inr (), hb @ block)"
    using hb(3) by (simp add: update_fh_def read_header_ok [OF assms(1)])
  with hb(2) u show ?thesis by blast
qed

lemma reset_fh_ok:
  assumes "header_size \<le> length f" "0 \<le> params_size (header_of f)"
  shows "\<exists>hb. length hb = header_size
        \<and> unpack_header hb = (header_of f)\<lparr>
                status := status_value new,
                new_time := now,
                pending_time := 0,
                submitted_time := 0,
                running_time := 0,
                aborted_time := 0,
                failed_time := 0,
                completed_time := 0,
                last_modified := now,
                pulse_size := 0,
                stdout_size := 0,
                stderr_size := 0,
                result_size := 0,
                signature_size := 0\<rparr>
        \<and> reset_fh now f = (Inr (unpack_header hb),
              hb @ truncate_to (nat (params_size (header_of f))) (drop header_size f))"
proof -
  let ?h = "(header_of f)\<lparr>
                status := status_value new,
                new_time := now,
                pending_time := 0,
                submitted_time := 0,
                running_time := 0,
                aborted_time := 0,
                failed_time := 0,
                completed_time := 0,
                last_modified := now,
                pulse_size := 0,
                stdout_size := 0,
                stderr_size := 0,
                result_size := 0,
                signature_size := 0\<rparr>"
  have "packable (header_of f)" by (rule packable_header_of [OF assms(1)])
  then have "packable ?h" by (simp add: packable_def int32_def)
  from write_header_ok [OF this assms(1), of "[]"] obtain hb where
    hb: "pack_header ?h = Inr hb" "length hb = header_size"
        "write_header ?h f = Inr (hb @ drop header_size f)" "header_of (hb @ []) = ?h"
    by blast
  have u: "unpack_header hb = ?h" using hb(4) hb(2) by (simp add: header_of_def)
  have "truncate_to (nat (int header_size + params_size (header_of f))) (hb @ drop header_size f)
        = hb @ truncate_to (nat (params_size (header_of f))) (drop header_size f)"
    using hb(2) assms(2) by (simp add: truncate_to_def nat_add_distrib)
  then have "reset_fh now f = (Inr ?h,
              hb @ truncate_to (nat (params_size (header_of f))) (drop header_size f))"
    using hb(3) assms(2) by (simp add: reset_fh_def read_header_ok [OF assms(1)])
  with hb(2) u show ?thesis by auto
qed

lemma be_value_replicate_0 [simp]: "be_value (replicate n 0) = 0"
  by (induction n) (simp_all add: be_value_def)

lemma header_of_zeros:
  "header_of (replicate 224 0) = 
     \<lparr> version = 0, status = 0, tags = replicate 128 0,
       new_time = 0, pending_time = 0, submitted_time = 0, running_time = 0,
       aborted_time = 0, failed_time = 0, completed_time = 0, last_modified = 0,
       params_size = 0, pulse_size = 0, stdout_size = 0, stderr_size = 0,
       result_size = 0, signature_size = 0 \<rparr>"
  by (simp add: header_of_def unpack_header_def header_size_def slice_def unpack_i_def unpack_d_def signed32_def)

lemma length_pending_record: "length pending_record = 228"
  by (simp add: pending_record_def)

lemma header_of_pending_record:
  "header_of pending_record =
     \<lparr>version = 1, status = 1, tags = replicate 128 32, new_time = 2, pending_time = 3,
      submitted_time = 0, running_time = 0, aborted_time = 0, failed_time = 0,
      completed_time = 0, last_modified = 3, params_size = 2, pulse_size = 0,
      stdout_size = 1, stderr_size = 0, result_size = 1, signature_size = 0\<rparr>"
  by (simp add: pending_record_def header_of_def header_size_def unpack_header_def slice_def
        unpack_i_def unpack_d_def be_value_def signed32_def
        be_value_replicate_0 [unfolded be_value_def])

lemma body_of_pending_record: "drop header_size pending_record = [7, 8, 9, 10]"
  by (simp add: pending_record_def header_size_def)

lemma header_of_completed_record:
  "header_of completed_record =
     \<lparr>version = 1, status = 6, tags = replicate 128 32, new_time = 2, pending_time = 3,
      submitted_time = 4, running_time = 5, aborted_time = 0, failed_time = 0,
      completed_time = 6, last_modified = 6, params_size = 2, pulse_size = 0,
      stdout_size = 1, stderr_size = 0, result_size = 1, signature_size = 0\<rparr>"
  by (simp add: completed_record_def header_of_def header_size_def unpack_header_def slice_def
        unpack_i_def unpack_d_def be_value_def signed32_def
        be_value_replicate_0 [unfolded be_value_def])

lemma header_update_as_reset:
  "h\<lparr>status := status_value pending,
                new_time := now,
                pending_time := 0,
                submitted_time := 0,
                running_time := 0,
                aborted_time := 0,
                failed_time := 0,
                completed_time := 0,
                last_modified := now,
                params_size := n,
                pulse_size := 0,
                stdout_size := 0,
                stderr_size := 0,
                result_size := 0,
                signature_size := 0\<rparr>
   = h\<lparr>status := status_value new,
                new_time := now,
                pending_time := 0,
                submitted_time := 0,
                running_time := 0,
                aborted_time := 0,
                failed_time := 0,
                completed_time := 0,
                last_modified := now,
                pulse_size := 0,
                stdout_size := 0,
                stderr_size := 0,
                result_size := 0,
                signature_size := 0\<rparr>\<lparr>status := status_value pending, params_size := n\<rparr>"
  by (rule TaskHeader.equality) simp_all

section \<open>reset (claim C3)\<close>

text \<open>
  Claim C3, as the code has it. On an existing record whose header gives a params size
  that is not negative, \<open>reset\<close> succeeds; the header read back afterwards is the old header
  with the status set to \<open>new\<close> (not \<open>pending\<close>), the seven transition time stamps zeroed
  but for \<open>new_time\<close>, which like \<open>last_modified\<close> is the current time, and the sizes of
  pulse, stdout, stderr, result and signature zeroed; version, tags and the params size are
  kept. The file is cut to header size plus params size, and the params section is kept.
  \<open>update\<close> on the same record writes the same header but for the status, which is
  \<open>pending\<close>, and the params size, which is that of the new block.
\<close>

theorem reset_keeps_params:
  assumes "header_size \<le> length f" "0 \<le> params_size (header_of f)"
  shows "\<exists>f'. reset now (Some f) = (Inr (), Some f')
           \<and> read_header f' =
               Inr ((header_of f)\<lparr>
                      status := status_value new,
                      new_time := now,
                      pending_time := 0,
                      submitted_time := 0,
                      running_time := 0,
                      aborted_time := 0,
                      failed_time := 0,
                      completed_time := 0,
                      last_modified := now,
                      pulse_size := 0,
                      stdout_size := 0,
                      stderr_size := 0,
                      result_size := 0,
                      signature_size := 0\<rparr>)
           \<and> length f' = header_size + nat (params_size (header_of f))
           \<and> drop header_size f' =
               truncate_to (nat (params_size (header_of f))) (drop header_size f)
           \<and> (header_size + nat (params_size (header_of f)) \<le> length f \<longrightarrow>
                slice header_size (nat (params_size (header_of f))) f' =
                slice header_size (nat (params_size (header_of f))) f)
           \<and> (\<forall>block. length block < 2 ^ 31 \<longrightarrow>
                (\<exists>g. update now block (Some f) = (Inr (), Some g)
                   \<and> header_of g =
                       (header_of f')\<lparr>status := status_value pending,
                                      params_size := int (length block)\<rparr>
                   \<and> drop header_size g = block))"
proof -
  let ?n = "nat (params_size (header_of f))"
  from reset_fh_ok [OF assms, of now] obtain hb where
    hb: "length hb = header_size"
        "unpack_header hb = (header_of f)\<lparr>
                      status := status_value new,
                      new_time := now,
                      pending_time := 0,
                      submitted_time := 0,
                      running_time := 0,
                      aborted_time := 0,
                      failed_time := 0,
                      completed_time := 0,
                      last_modified := now,
                      pulse_size := 0,
                      stdout_size := 0,
                      stderr_size := 0,
                      result_size := 0,
                      signature_size := 0\<rparr>"
        "reset_fh now f = (Inr (unpack_header hb), hb @ truncate_to ?n (drop header_size f))"
    by blast
  let ?f' = "hb @ truncate_to ?n (drop header_size f)"
  have 1: "reset now (Some f) = (Inr (), Some ?f')"
    by (simp add: reset_def with_file_def hb(3))
  have h': "header_of ?f' = unpack_header hb"
    by (rule header_of_append [OF hb(1)])
  have 2: "read_header ?f' = Inr (unpack_header hb)"
    using read_header_ok [of ?f'] hb(1) h' by simp
  have 3: "length ?f' = header_size + ?n"
    using hb(1) by (simp add: truncate_to_def)
  have 4: "drop header_size ?f' = truncate_to ?n (drop header_size f)"
    using hb(1) by simp
  have 5: "header_size + ?n \<le> length f \<longrightarrow> slice header_size ?n ?f' = slice header_size ?n f"
    using hb(1) by (simp add: slice_def truncate_to_def)
  have 6: "\<forall>block. length block < 2 ^ 31 \<longrightarrow>
                (\<exists>g. update now block (Some f) = (Inr (), Some g)
                   \<and> header_of g =
                       (header_of ?f')\<lparr>status := status_value pending,
                                      params_size := int (length block)\<rparr>
                   \<and> drop header_size g = block)"
  proof (intro allI impI)
    fix block :: bytes
    assume "length block < 2 ^ 31"
    from update_fh_ok [OF assms(1) this, of now] obtain ub where
      ub: "length ub = header_size"
          "unpack_header ub = (header_of f)\<lparr>
                status := status_value pending,
                new_time := now,
                pending_time := 0,
                submitted_time := 0,
                running_time := 0,
                aborted_time := 0,
                failed_time := 0,
                completed_time := 0,
                last_modified := now,
                params_size := int (length block),
                pulse_size := 0,
                stdout_size := 0,
                stderr_size := 0,
                result_size := 0,
                signature_size := 0\<rparr>"
          "update_fh now block f = (Inr (), ub @ block)"
      by blast
    have a: "update now block (Some f) = (Inr (), Some (ub @ block))"
      by (simp add: update_def with_file_def ub(3))
    have b: "header_of (ub @ block) =
                (header_of ?f')\<lparr>status := status_value pending,
                                      params_size := int (length block)\<rparr>"
      unfolding h' hb(2) header_of_append [OF ub(1)] ub(2)
      by (rule header_update_as_reset)
    have c: "drop header_size (ub @ block) = block" using ub(1) by simp
    from a b c show "\<exists>g. update now block (Some f) = (Inr (), Some g)
                   \<and> header_of g =
                       (header_of ?f')\<lparr>status := status_value pending,
                                      params_size := int (length block)\<rparr>
                   \<and> drop header_size g = block"
      by blast
  qed
  from 1 2 3 4 5 6 show ?thesis unfolding hb(2) by blast
qed

theorem reset_keeps_params_witness:
  "header_size \<le> length pending_record
   \<and> 0 \<le> params_size (header_of pending_record)
   \<and> status (header_of pending_record) = status_value pending
   \<and> slice header_size 2 pending_record = [7, 8]
   \<and> (\<exists>f'. reset 9 (Some pending_record) = (Inr (), Some f')
         \<and> read_header f' =
             Inr \<lparr>version = 1, status = status_value new, tags = replicate 128 32,
                  new_time = 9, pending_time = 0, submitted_time = 0, running_time = 0,
                  aborted_time = 0, failed_time = 0, completed_time = 0, last_modified = 9,
                  params_size = 2, pulse_size = 0, stdout_size = 0, stderr_size = 0,
                  result_size = 0, signature_size = 0\<rparr>
         \<and> length f' = 226
         \<and> drop header_size f' = [7, 8]
         \<and> (\<exists>g. update 9 [4, 5, 6] (Some pending_record) = (Inr (), Some g)
               \<and> header_of g =
                   \<lparr>version = 1, status = status_value pending, tags = replicate 128 32,
                    new_time = 9, pending_time = 0, submitted_time = 0, running_time = 0,
                    aborted_time = 0, failed_time = 0, completed_time = 0, last_modified = 9,
                    params_size = 3, pulse_size = 0, stdout_size = 0, stderr_size = 0,
                    result_size = 0, signature_size = 0\<rparr>
               \<and> drop header_size g = [4, 5, 6]))"
proof -
  have a: "header_size \<le> length pending_record"
    by (simp add: length_pending_record header_size_def)
  have b: "0 \<le> params_size (header_of pending_record)"
    by (simp add: header_of_pending_record)
  have c: "status (header_of pending_record) = status_value pending"
    by (simp add: header_of_pending_record)
  have d: "slice header_size 2 pending_record = [7, 8]"
    by (simp add: slice_def body_of_pending_record)
  have l: "length [4, 5, 6 :: byte] < 2 ^ 31" by simp
  from reset_keeps_params [OF a b, of 9] obtain f' where
    f': "reset 9 (Some pending_record) = (Inr (), Some f')"
      "read_header f' =
               Inr ((header_of pending_record)\<lparr>
                      status := status_value new,
                      new_time := 9,
                      pending_time := 0,
                      submitted_time := 0,
                      running_time := 0,
                      aborted_time := 0,
                      failed_time := 0,
                      completed_time := 0,
                      last_modified := 9,
                      pulse_size := 0,
                      stdout_size := 0,
                      stderr_size := 0,
                      result_size := 0,
                      signature_size := 0\<rparr>)"
      "length f' = header_size + nat (params_size (header_of pending_record))"
      "drop header_size f' =
         truncate_to (nat (params_size (header_of pending_record)))
           (drop header_size pending_record)"
      "\<forall>block. length block < 2 ^ 31 \<longrightarrow>
                (\<exists>g. update 9 block (Some pending_record) = (Inr (), Some g)
                   \<and> header_of g =
                       (header_of f')\<lparr>status := status_value pending,
                                      params_size := int (length block)\<rparr>
                   \<and> drop header_size g = block)"
    by blast
  have 2: "read_header f' =
             Inr \<lparr>version = 1, status = status_value new, tags = replicate 128 32,
                  new_time = 9, pending_time = 0, submitted_time = 0, running_time = 0,
                  aborted_time = 0, failed_time = 0, completed_time = 0, last_modified = 9,
                  params_size = 2, pulse_size = 0, stdout_size = 0, stderr_size = 0,
                  result_size = 0, signature_size = 0\<rparr>"
    using f'(2) by (simp add: header_of_pending_record)
  have 3: "length f' = 226"
    using f'(3) by (simp add: header_of_pending_record header_size_def)
  have hf: "header_of f' =
      \<lparr>version = 1, status = status_value new, tags = replicate 128 32,
                  new_time = 9, pending_time = 0, submitted_time = 0, running_time = 0,
                  aborted_time = 0, failed_time = 0, completed_time = 0, last_modified = 9,
                  params_size = 2, pulse_size = 0, stdout_size = 0, stderr_size = 0,
                  result_size = 0, signature_size = 0\<rparr>"
  proof -
    have "header_size \<le> length f'" using 3 by (simp add: header_size_def)
    from read_header_ok [OF this] 2 show ?thesis by simp
  qed
  have 4: "drop header_size f' = [7, 8]"
    using f'(4) by (simp add: header_of_pending_record body_of_pending_record truncate_to_def)
  from f'(5) l obtain g where
    g: "update 9 [4, 5, 6] (Some pending_record) = (Inr (), Some g)"
       "header_of g = (header_of f')\<lparr>status := status_value pending,
                                      params_size := int (length [4, 5, 6 :: byte])\<rparr>"
       "drop header_size g = [4, 5, 6]"
    by blast
  have 5: "header_of g =
                   \<lparr>version = 1, status = status_value pending, tags = replicate 128 32,
                    new_time = 9, pending_time = 0, submitted_time = 0, running_time = 0,
                    aborted_time = 0, failed_time = 0, completed_time = 0, last_modified = 9,
                    params_size = 3, pulse_size = 0, stdout_size = 0, stderr_size = 0,
                    result_size = 0, signature_size = 0\<rparr>"
    unfolding g(2) hf by simp
  from a b c d f'(1) 2 3 4 g(1) 5 g(3) show ?thesis by blast
qed

text \<open>
  Claim C3 as stated fails: it says that \<open>reset\<close> sets the status to \<open>pending\<close>, as
  \<open>update\<close> does. \<open>_reset\<close> writes \<open>TaskStatus.new.value\<close>: a record that was \<open>pending\<close>
  is \<open>new\<close> after it.
\<close>

theorem reset_status_is_new:
  "status (header_of pending_record) = status_value pending
   \<and> map_option (status \<circ> header_of) (snd (reset 9 (Some pending_record)))
       = Some (status_value new)
   \<and> status_value new \<noteq> status_value pending"
proof -
  let ?f = "pending_record"
  have a: "header_size \<le> length ?f" by (simp add: length_pending_record header_size_def)
  have b: "0 \<le> params_size (header_of ?f)" by (simp add: header_of_pending_record)
  from reset_fh_ok [OF a b, of 9] obtain hb r where
    hb: "length hb = header_size"
        "unpack_header hb = (header_of ?f)\<lparr>
                status := status_value new,
                new_time := 9,
                pending_time := 0,
                submitted_time := 0,
                running_time := 0,
                aborted_time := 0,
                failed_time := 0,
                completed_time := 0,
                last_modified := 9,
                pulse_size := 0,
                stdout_size := 0,
                stderr_size := 0,
                result_size := 0,
                signature_size := 0\<rparr>"
        "reset_fh 9 ?f = (Inr (unpack_header hb), hb @ r)"
    by blast
  have "status (unpack_header hb) = status_value new"
    unfolding hb(2) by simp
  then have "status (header_of (hb @ r)) = status_value new"
    by (simp only: header_of_append [OF hb(1)])
  moreover have "snd (reset 9 (Some ?f)) = Some (hb @ r)"
    by (simp only: reset_def with_file_def hb(3) option.case prod.case snd_conv)
  moreover have "status (header_of ?f) = status_value pending"
    by (simp add: header_of_pending_record)
  ultimately show ?thesis by simp
qed

section \<open>The status setter (claim C6)\<close>

text \<open>
  Claim C6, as the code has it. On an existing record (a file with a full header) the
  setter accepts each of the six states \<open>pending\<close>, \<open>submitted\<close>, \<open>running\<close>, \<open>failed\<close>,
  \<open>aborted\<close>, \<open>completed\<close>: the header read back afterwards is the old header with the
  status, that state's own time stamp and \<open>last_modified\<close> replaced (version, tags, the
  other time stamps and the six sizes are as before), and the bytes after the header are
  untouched. Every other value, the enumerated state \<open>new\<close> included, raises
  RuntimeError and leaves the file as it was.
\<close>

theorem status_setter:
  assumes "header_size \<le> length f"
  shows "(s \<noteq> new \<longrightarrow>
           (\<exists>f'. set_status now (status_name s) (Some f) = (Inr (), Some f')
              \<and> read_header f' =
                  Inr ((set_own_time s now ((header_of f)\<lparr>status := status_value s\<rparr>))\<lparr>last_modified := now\<rparr>)
              \<and> length f' = length f
              \<and> drop header_size f' = drop header_size f))
       \<and> (st \<notin> {''pending'', ''submitted'', ''running'', ''failed'', ''aborted'', ''completed''} \<longrightarrow>
           set_status now st (Some f) =
             (Inl (RuntimeError (''Unrecognized task status: '' @ st)), Some f))"
proof (intro conjI impI)
  assume "s \<noteq> new"
  from set_status_fh_recognized [OF assms this, of now] obtain hb where
    hb: "pack_header ((set_own_time s now ((header_of f)\<lparr>status := status_value s\<rparr>))\<lparr>last_modified := now\<rparr>) = Inr hb"
        "length hb = header_size"
        "set_status_fh now (status_name s) f = (Inr (), hb @ drop header_size f)"
    by blast
  let ?f' = "hb @ drop header_size f"
  have 1: "set_status now (status_name s) (Some f) = (Inr (), Some ?f')"
    by (simp add: set_status_def with_file_def hb(3))
  have 2: "length ?f' = length f" using hb(2) assms by simp
  have "packable ((set_own_time s now ((header_of f)\<lparr>status := status_value s\<rparr>))\<lparr>last_modified := now\<rparr>)"
    by (rule packable_status_update) (rule packable_header_of [OF assms])
  from write_header_ok [OF this assms, of "drop header_size f"] hb(1)
  have "header_of ?f' = (set_own_time s now ((header_of f)\<lparr>status := status_value s\<rparr>))\<lparr>last_modified := now\<rparr>"
    by auto
  then have 3: "read_header ?f' = Inr ((set_own_time s now ((header_of f)\<lparr>status := status_value s\<rparr>))\<lparr>last_modified := now\<rparr>)"
    using read_header_ok [of ?f'] 2 assms by simp
  have 4: "drop header_size ?f' = drop header_size f" using hb(2) by simp
  from 1 2 3 4 show "\<exists>f'. set_status now (status_name s) (Some f) = (Inr (), Some f')
              \<and> read_header f' =
                  Inr ((set_own_time s now ((header_of f)\<lparr>status := status_value s\<rparr>))\<lparr>last_modified := now\<rparr>)
              \<and> length f' = length f
              \<and> drop header_size f' = drop header_size f"
    by blast
next
  assume "st \<notin> {''pending'', ''submitted'', ''running'', ''failed'', ''aborted'', ''completed''}"
  from set_status_fh_unrecognized [OF assms this]
  show "set_status now st (Some f) =
             (Inl (RuntimeError (''Unrecognized task status: '' @ st)), Some f)"
    by (simp add: set_status_def with_file_def)
qed

text \<open>
  Claim C6 as stated fails: \<open>new\<close> is one of the enumerated states, and the setter
  rejects it.
\<close>

theorem status_setter_new_rejected:
  "set_status 1 (status_name new) (Some (replicate 224 0)) =
     (Inl (RuntimeError ''Unrecognized task status: new''), Some (replicate 224 0))"
  by (simp add: set_status_def with_file_def set_status_fh_def read_header_def header_size_def)



theorem status_setter_witness:
  "header_size \<le> length (replicate 224 (0::byte))
   \<and> running \<noteq> new
   \<and> (\<exists>f'. set_status 7 ''running'' (Some (replicate 224 0)) = (Inr (), Some f')
         \<and> read_header f' =
              Inr ((header_of (replicate 224 0))\<lparr>status := 3, running_time := 7,
                                                 last_modified := 7\<rparr>)
         \<and> length f' = 224)
   \<and> set_status 7 ''paused'' (Some (replicate 224 0)) =
        (Inl (RuntimeError ''Unrecognized task status: paused''), Some (replicate 224 0))"
  using status_setter [of "replicate 224 0" running 7 "''paused''"]
  by (auto simp: header_size_def)

section \<open>The sections of a record\<close>

lemma write_at_end:
  "pos = length a \<Longrightarrow> write_at pos b (a @ old) = a @ b @ drop (length b) old"
  by (simp add: write_at_def)


lemma holdsI:
  assumes "length hb = header_size"
    and "params_size (unpack_header hb) = int (length (params_sec secs))"
    and "pulse_size (unpack_header hb) = int (length (pulse_sec secs))"
    and "stdout_size (unpack_header hb) = int (length (stdout_sec secs))"
    and "stderr_size (unpack_header hb) = int (length (stderr_sec secs))"
    and "result_size (unpack_header hb) = int (length (result_sec secs))"
    and "signature_size (unpack_header hb) = int (length (signature_sec secs))"
    and "body = params_sec secs @ pulse_sec secs @ stdout_sec secs @ stderr_sec secs
       @ result_sec secs @ signature_sec secs"
  shows "holds (hb @ body) secs"
  using assms unfolding holds_def by (simp add: header_of_append)

lemma holdsD:
  assumes "holds f secs"
  shows "header_size \<le> length f"
    and "f = take header_size f @ params_sec secs @ pulse_sec secs @ stdout_sec secs
            @ stderr_sec secs @ result_sec secs @ signature_sec secs"
    and "read_header f = Inr (header_of f)"
    and "packable (header_of f)"
proof -
  show 1: "header_size \<le> length f" using assms by (simp add: holds_def)
  have e: "drop header_size f = params_sec secs @ pulse_sec secs @ stdout_sec secs
            @ stderr_sec secs @ result_sec secs @ signature_sec secs"
    using assms by (simp add: holds_def)
  show "f = take header_size f @ params_sec secs @ pulse_sec secs @ stdout_sec secs
            @ stderr_sec secs @ result_sec secs @ signature_sec secs"
    using append_take_drop_id [of header_size f] unfolding e by simp
  show "read_header f = Inr (header_of f)" by (rule read_header_ok [OF 1])
  show "packable (header_of f)" by (rule packable_header_of [OF 1])
qed

lemma update_holds:
  assumes "header_size \<le> length f" "length b < 2 ^ 31"
  shows "\<exists>f'. update now b (Some f) = (Inr (), Some f') \<and>
              holds f' \<lparr>params_sec = b, pulse_sec = [], stdout_sec = [], stderr_sec = [],
                          result_sec = [], signature_sec = []\<rparr>"
proof -
  from update_fh_ok [OF assms, of now] obtain hb where
    hb: "length hb = header_size"
        "unpack_header hb = (header_of f)\<lparr>
                status := status_value pending,
                new_time := now,
                pending_time := 0,
                submitted_time := 0,
                running_time := 0,
                aborted_time := 0,
                failed_time := 0,
                completed_time := 0,
                last_modified := now,
                params_size := int (length b),
                pulse_size := 0,
                stdout_size := 0,
                stderr_size := 0,
                result_size := 0,
                signature_size := 0\<rparr>"
        "update_fh now b f = (Inr (), hb @ b)"
    by blast
  have "holds (hb @ b) \<lparr>params_sec = b, pulse_sec = [], stdout_sec = [], stderr_sec = [],
                          result_sec = [], signature_sec = []\<rparr>"
    by (rule holdsI [OF hb(1)]) (simp_all add: hb(2))
  moreover have "update now b (Some f) = (Inr (), Some (hb @ b))"
    by (simp add: update_def with_file_def hb(3))
  ultimately show ?thesis by blast
qed

lemma add_result_holds:
  assumes "holds f secs" "signature_sec secs = []" "length (result_sec secs) \<le> length b"
    "length b < 2 ^ 31"
  shows "\<exists>f'. add_result b (Some f) = (Inr (), Some f') \<and> holds f' (secs\<lparr>result_sec := b\<rparr>)"
proof -
  note d = holdsD [OF assms(1)]
  let ?h = "(header_of f)\<lparr>result_size := int (length b)\<rparr>"
  let ?pre = "params_sec secs @ pulse_sec secs @ stdout_sec secs @ stderr_sec secs"
  have "packable ?h" using d(4) assms(4) by (simp add: packable_def int32_def)
  from write_header_ok [OF this d(1), of "[]"] obtain hb where
    hb: "pack_header ?h = Inr hb" "length hb = header_size"
        "write_header ?h f = Inr (hb @ drop header_size f)" "header_of (hb @ []) = ?h"
    by blast
  have u: "unpack_header hb = ?h" using hb(4) hb(2) by (simp add: header_of_def)
  have body: "drop header_size f = ?pre @ result_sec secs"
    using assms(1,2) by (simp add: holds_def)
  have sz: "params_size (header_of f) = int (length (params_sec secs))"
    "pulse_size (header_of f) = int (length (pulse_sec secs))"
    "stdout_size (header_of f) = int (length (stdout_sec secs))"
    "stderr_size (header_of f) = int (length (stderr_sec secs))"
    "signature_size (header_of f) = int (length (signature_sec secs))"
    using assms(1) by (simp_all add: holds_def)
  have pos: "seek (int header_size + params_size ?h + pulse_size ?h + stdout_size ?h + stderr_size ?h)
       = Inr (length (hb @ ?pre))"
    by (simp add: seek_def sz hb(2))
  have w: "write_at (length (hb @ ?pre)) b (hb @ drop header_size f) = hb @ ?pre @ b"
    using write_at_end [of "length (hb @ ?pre)" "hb @ ?pre" b "result_sec secs"] assms(3)
    by (simp add: body)
  have "add_result_fh b f = (Inr (), hb @ ?pre @ b)"
    unfolding add_result_fh_def d(3) using hb(3) pos w
    by (simp add: Let_def)
  then have 1: "add_result b (Some f) = (Inr (), Some (hb @ ?pre @ b))"
    by (simp add: add_result_def with_file_def)
  have 2: "holds (hb @ ?pre @ b) (secs\<lparr>result_sec := b\<rparr>)"
    by (rule holdsI [OF hb(2)]) (simp_all add: u sz assms(2))
  from 1 2 show ?thesis by blast
qed


lemma add_signature_holds:
  assumes "holds f secs" "length (signature_sec secs) \<le> length b" "length b < 2 ^ 31"
  shows "\<exists>f'. add_signature b (Some f) = (Inr (), Some f') \<and> holds f' (secs\<lparr>signature_sec := b\<rparr>)"
proof -
  note d = holdsD [OF assms(1)]
  let ?h = "(header_of f)\<lparr>signature_size := int (length b)\<rparr>"
  let ?pre = "params_sec secs @ pulse_sec secs @ stdout_sec secs @ stderr_sec secs @ result_sec secs"
  have "packable ?h" using d(4) assms(3) by (simp add: packable_def int32_def)
  from write_header_ok [OF this d(1), of "[]"] obtain hb where
    hb: "pack_header ?h = Inr hb" "length hb = header_size"
        "write_header ?h f = Inr (hb @ drop header_size f)" "header_of (hb @ []) = ?h"
    by blast
  have u: "unpack_header hb = ?h" using hb(4) hb(2) by (simp add: header_of_def)
  have body: "drop header_size f = ?pre @ signature_sec secs"
    using assms(1) by (simp add: holds_def)
  have sz: "params_size (header_of f) = int (length (params_sec secs))"
    "pulse_size (header_of f) = int (length (pulse_sec secs))"
    "stdout_size (header_of f) = int (length (stdout_sec secs))"
    "stderr_size (header_of f) = int (length (stderr_sec secs))"
    "result_size (header_of f) = int (length (result_sec secs))"
    using assms(1) by (simp_all add: holds_def)
  have pos: "seek (int header_size + params_size ?h + pulse_size ?h + stdout_size ?h
                   + stderr_size ?h + result_size ?h)
       = Inr (length (hb @ ?pre))"
    by (simp add: seek_def sz hb(2))
  have w: "write_at (length (hb @ ?pre)) b (hb @ drop header_size f) = hb @ ?pre @ b"
    using write_at_end [of "length (hb @ ?pre)" "hb @ ?pre" b "signature_sec secs"] assms(2)
    by (simp add: body)
  have "add_signature_fh b f = (Inr (), hb @ ?pre @ b)"
    unfolding add_signature_fh_def d(3) using hb(3) pos w
    by (simp add: Let_def)
  then have 1: "add_signature b (Some f) = (Inr (), Some (hb @ ?pre @ b))"
    by (simp add: add_signature_def with_file_def)
  have 2: "holds (hb @ ?pre @ b) (secs\<lparr>signature_sec := b\<rparr>)"
    by (rule holdsI [OF hb(2)]) (simp_all add: u sz)
  from 1 2 show ?thesis by blast
qed

lemma write_outputs_end:
  assumes "length old \<le> length p + length out + length err"
  shows "write_outputs (length a) p out err (a @ old) = a @ p @ out @ err"
proof -
  have 2: "(if p \<noteq> [] then write_at (length a) p (a @ old) else a @ old)
             = (a @ p) @ drop (length p) old"
    by (simp add: write_at_end)
  have 3: "(if out \<noteq> [] then write_at (length a + length p) out ((a @ p) @ drop (length p) old)
            else (a @ p) @ drop (length p) old)
             = (a @ p @ out) @ drop (length out) (drop (length p) old)"
    using write_at_end [of "length a + length p" "a @ p" out "drop (length p) old"]
    by simp
  have 4: "(if err \<noteq> [] then write_at (length a + length p + length out) err
                 ((a @ p @ out) @ drop (length out) (drop (length p) old))
            else (a @ p @ out) @ drop (length out) (drop (length p) old))
             = (a @ p @ out @ err) @ drop (length err) (drop (length out) (drop (length p) old))"
    using write_at_end [of "length a + length p + length out" "a @ p @ out" err
        "drop (length out) (drop (length p) old)"]
    by simp
  have 5: "drop (length err) (drop (length out) (drop (length p) old)) = []"
    using assms by simp
  show ?thesis unfolding write_outputs_def Let_def 2 3 4 5 by simp
qed

lemma add_outputs_fh_holds:
  assumes "holds f secs" "result_sec secs = []" "signature_sec secs = []"
    "length (pulse_sec secs) + length (stdout_sec secs) + length (stderr_sec secs)
       \<le> length p + length out + length err"
    "length p < 2 ^ 31" "length out < 2 ^ 31" "length err < 2 ^ 31"
  shows "\<exists>f'. add_outputs_fh now p out err f = (Inr (), f') \<and>
           holds f' (secs\<lparr>pulse_sec := p, stdout_sec := out, stderr_sec := err\<rparr>)"
proof -
  note d = holdsD [OF assms(1)]
  let ?h = "(header_of f)\<lparr>pulse_size := int (length p), stdout_size := int (length out),
                           stderr_size := int (length err)\<rparr>"
  let ?old = "pulse_sec secs @ stdout_sec secs @ stderr_sec secs"
  have "packable ?h" using d(4) assms(5,6,7) by (simp add: packable_def int32_def)
  from write_header_ok [OF this d(1), of "[]"] obtain hb where
    hb: "pack_header ?h = Inr hb" "length hb = header_size"
        "write_header ?h f = Inr (hb @ drop header_size f)" "header_of (hb @ []) = ?h"
    by blast
  have u: "unpack_header hb = ?h" using hb(4) hb(2) by (simp add: header_of_def)
  have body: "hb @ drop header_size f = (hb @ params_sec secs) @ ?old"
    using assms(1,2,3) by (simp add: holds_def)
  have sz: "params_size (header_of f) = int (length (params_sec secs))"
    "result_size (header_of f) = 0" "signature_size (header_of f) = 0"
    using assms(1,2,3) by (simp_all add: holds_def)
  have pos: "seek (int header_size + params_size ?h) = Inr (length (hb @ params_sec secs))"
    by (simp add: seek_def sz hb(2))
  have l: "length ?old \<le> length p + length out + length err" using assms(4) by simp
  note w = write_outputs_end [OF l, of "hb @ params_sec secs"]
  have "add_outputs_fh now p out err f = (Inr (), (hb @ params_sec secs) @ p @ out @ err)"
    unfolding add_outputs_fh_def d(3) using hb(3) pos
    by (simp add: sz(2) body Let_def w [simplified])
  moreover have "holds (hb @ params_sec secs @ p @ out @ err)
      (secs\<lparr>pulse_sec := p, stdout_sec := out, stderr_sec := err\<rparr>)"
    by (rule holdsI [OF hb(2)]) (simp_all add: u sz assms(2,3))
  ultimately show ?thesis by simp
qed

lemma add_outputs_holds:
  assumes "holds f secs" "appending compress (Add_outputs now p out err) secs"
  shows "\<exists>f'. add_outputs compress now p out err (Some f) = (Inr (), Some f') \<and>
           holds f' (written compress (Add_outputs now p out err) secs)"
proof -
  from assms(2) have a: "result_sec secs = []" "signature_sec secs = []"
    "length (pulse_sec secs) + length (stdout_sec secs) + length (stderr_sec secs)
       \<le> length (get_content compress p) + length (get_content compress out)
         + length (get_content compress err)"
     "length (get_content compress p) < 2 ^ 31"
     "length (get_content compress out) < 2 ^ 31"
     "length (get_content compress err) < 2 ^ 31"
    by simp_all
  from add_outputs_fh_holds [OF assms(1) a, of now] obtain f' where
    "add_outputs_fh now (get_content compress p) (get_content compress out)
        (get_content compress err) f = (Inr (), f')"
    "holds f' (secs\<lparr>pulse_sec := get_content compress p,
         stdout_sec := get_content compress out, stderr_sec := get_content compress err\<rparr>)"
    by blast
  then show ?thesis by (simp add: add_outputs_def with_file_def)
qed



lemma holds_sizes:
  assumes "holds f secs"
  shows "params_size (header_of f) = int (length (params_sec secs))"
    "pulse_size (header_of f) = int (length (pulse_sec secs))"
    "stdout_size (header_of f) = int (length (stdout_sec secs))"
    "stderr_size (header_of f) = int (length (stderr_sec secs))"
    "result_size (header_of f) = int (length (result_sec secs))"
    "signature_size (header_of f) = int (length (signature_sec secs))"
    "drop header_size f = params_sec secs @ pulse_sec secs @ stdout_sec secs @ stderr_sec secs
       @ result_sec secs @ signature_sec secs"
  using assms by (simp_all add: holds_def)







lemma call_holds:
  assumes "holds f secs" "appending compress c secs"
  shows "\<exists>f'. call compress c (Some f) = (Inr (), Some f') \<and> holds f' (written compress c secs)"
proof (cases c)
  case (Update now b)
  with assms(2) have "length b < 2 ^ 31" by simp
  from update_holds [OF holdsD(1) [OF assms(1)] this, of now] show ?thesis
    by (simp add: Update)
next
  case (Add_outputs now p out err)
  from add_outputs_holds [OF assms(1) assms(2) [unfolded Add_outputs]] show ?thesis
    by (simp add: Add_outputs)
next
  case (Add_result b)
  with assms(2) have "signature_sec secs = []" "length (result_sec secs) \<le> length b"
    "length b < 2 ^ 31" by simp_all
  from add_result_holds [OF assms(1) this] show ?thesis
    by (simp add: Add_result)
next
  case (Add_signature b)
  with assms(2) have "length (signature_sec secs) \<le> length b" "length b < 2 ^ 31" by simp_all
  from add_signature_holds [OF assms(1) this] show ?thesis
    by (simp add: Add_signature)
qed

lemma calls_holds:
  "holds f secs \<Longrightarrow> all_appending compress cs secs \<Longrightarrow>
   \<exists>f'. calls compress cs (Some f) = (Inr (), Some f') \<and> holds f' (written_all compress cs secs)"
proof (induction cs arbitrary: f secs)
  case Nil
  then show ?case by simp
next
  case (Cons c cs)
  from Cons.prems(2) have a: "appending compress c secs"
    and b: "all_appending compress cs (written compress c secs)" by simp_all
  from call_holds [OF Cons.prems(1) a] obtain f1 where
    f1: "call compress c (Some f) = (Inr (), Some f1)" "holds f1 (written compress c secs)"
    by blast
  from Cons.IH [OF f1(2) b] obtain f' where
    "calls compress cs (Some f1) = (Inr (), Some f')"
    "holds f' (written_all compress cs (written compress c secs))"
    by blast
  then show ?case by (simp add: f1(1))
qed



lemma holds_zeros:
  "holds (replicate 224 0)
     \<lparr>params_sec = [], pulse_sec = [], stdout_sec = [], stderr_sec = [],
      result_sec = [], signature_sec = []\<rparr>"
  by (simp add: holds_def header_of_zeros) (simp add: header_size_def)

lemma add_outputs_fh_stale:
  assumes "holds f secs" "result_sec secs \<noteq> []"
  shows "\<exists>hb. length hb = header_size
           \<and> unpack_header hb = (header_of f)\<lparr>pulse_size := 0, stdout_size := 0, stderr_size := 0\<rparr>
           \<and> add_outputs_fh now [] [] [] f = (Inr (), hb @ params_sec secs)"
proof -
  note d = holdsD [OF assms(1)] and z = holds_sizes [OF assms(1)]
  have nz: "result_size (header_of f) \<noteq> 0" using assms(2) by (simp add: z(5))
  have p0: "0 \<le> params_size (header_of f)" by (simp add: z(1))
  from reset_fh_ok [OF d(1) p0, of now] obtain hr where
    hr: "length hr = header_size"
        "reset_fh now f = (Inr (unpack_header hr),
              hr @ truncate_to (nat (params_size (header_of f))) (drop header_size f))"
    by blast
  have t: "truncate_to (nat (params_size (header_of f))) (drop header_size f) = params_sec secs"
    by (simp add: z(1) z(7) truncate_to_def)
  let ?f0 = "hr @ params_sec secs"
  let ?h = "(header_of f)\<lparr>pulse_size := int (length ([]::bytes)),
               stdout_size := int (length ([]::bytes)), stderr_size := int (length ([]::bytes))\<rparr>"
  have l0: "header_size \<le> length ?f0" using hr(1) by simp
  have "packable ?h" using d(4) by (simp add: packable_def int32_def)
  from write_header_ok [OF this l0, of "[]"] obtain hb where
    hb: "pack_header ?h = Inr hb" "length hb = header_size"
        "write_header ?h ?f0 = Inr (hb @ drop header_size ?f0)" "header_of (hb @ []) = ?h"
    by blast
  have u: "unpack_header hb = ?h" using hb(4) hb(2) by (simp add: header_of_def)
  have w: "write_header ?h ?f0 = Inr (hb @ params_sec secs)" using hb(3) hr(1) by simp
  have k: "seek (int header_size + params_size ?h) = Inr (header_size + length (params_sec secs))"
    by (simp add: seek_def z(1) nat_add_distrib)
  have "add_outputs_fh now [] [] [] f = (Inr (), hb @ params_sec secs)"
    unfolding add_outputs_fh_def d(3)
    using nz w k by (simp add: hr(2) t Let_def write_outputs_def)
  with hb(2) u show ?thesis by auto
qed




text \<open>
  \<open>add_outputs\<close> on a record that has a result calls \<open>_reset\<close>, which cuts the file
  after the params section and writes a header with the five other sizes zeroed; the value
  \<open>_reset\<close> returns is dropped, and the header written next is the one read before the
  call, which still gives the size of the result. After \<open>update\<close>, \<open>add_result\<close>,
  \<open>add_outputs\<close> (with no companion file) the file has 225 bytes and the header says
  224 + 1 + 1.
\<close>

lemma add_outputs_after_result:
  "(case calls (\<lambda>b. b) [Update 1 [1], Add_result [2], Add_outputs 2 None None None]
           (Some (replicate 224 0)) of
      (Inr u, Some f') \<Rightarrow>
         length f' = 225 \<and> params_size (header_of f') = 1 \<and> result_size (header_of f') = 1
         \<and> \<not> sizes_add_up f'
    | _ \<Rightarrow> False)"
proof -
  let ?c = "\<lambda>b::bytes. b"
  let ?s0 = "\<lparr>params_sec = [], pulse_sec = [], stdout_sec = [], stderr_sec = [],
      result_sec = [], signature_sec = []\<rparr>"
  have a: "all_appending ?c [Update 1 [1], Add_result [2]] ?s0" by simp
  from calls_holds [OF holds_zeros a] obtain f2 where
    f2: "calls ?c [Update 1 [1], Add_result [2]] (Some (replicate 224 0)) = (Inr (), Some f2)"
        "holds f2 (written_all ?c [Update 1 [1], Add_result [2]] ?s0)"
    by blast
  let ?s2 = "\<lparr>params_sec = [1], pulse_sec = [], stdout_sec = [], stderr_sec = [],
      result_sec = [2], signature_sec = []\<rparr>"
  have h2: "holds f2 ?s2" using f2(2) by simp
  from add_outputs_fh_stale [OF h2, of 2] obtain hb where
    hb: "length hb = header_size"
        "unpack_header hb = (header_of f2)\<lparr>pulse_size := 0, stdout_size := 0, stderr_size := 0\<rparr>"
        "add_outputs_fh 2 [] [] [] f2 = (Inr (), hb @ [1])"
    by auto
  note z = holds_sizes [OF h2]
  let ?f' = "hb @ [1]"
  have ho: "header_of ?f' = (header_of f2)\<lparr>pulse_size := 0, stdout_size := 0, stderr_size := 0\<rparr>"
    by (simp only: header_of_append [OF hb(1)] hb(2))
  have 1: "length ?f' = 225" using hb(1) by (simp add: header_size_def)
  have 2: "params_size (header_of ?f') = 1" "result_size (header_of ?f') = 1"
    "pulse_size (header_of ?f') = 0" "stdout_size (header_of ?f') = 0"
    "stderr_size (header_of ?f') = 0" "signature_size (header_of ?f') = 0"
    unfolding ho using z by simp_all
  have 3: "\<not> sizes_add_up ?f'"
    unfolding sizes_add_up_def 2 using 1 by (simp add: header_size_def)
  have "calls ?c [Update 1 [1], Add_result [2], Add_outputs 2 None None None]
           (Some (replicate 224 0)) = (Inr (), Some ?f')"
  proof -
    obtain r1 s1 where c1: "call ?c (Update 1 [1]) (Some (replicate 224 0)) = (r1, s1)"
      by (cases "call ?c (Update 1 [1]) (Some (replicate 224 0))")
    show ?thesis
    proof (cases r1)
      case (Inl e)
      with f2(1) c1 show ?thesis by simp
    next
      case (Inr u1)
      obtain r2 s2 where c2: "call ?c (Add_result [2]) s1 = (r2, s2)"
        by (cases "call ?c (Add_result [2]) s1")
      show ?thesis
      proof (cases r2)
        case (Inl e)
        with f2(1) c1 c2 Inr show ?thesis by simp
      next
        case (Inr u2)
        with f2(1) c1 c2 \<open>r1 = Inr u1\<close> have "s2 = Some f2" by simp
        then show ?thesis using c1 c2 Inr \<open>r1 = Inr u1\<close> hb(3)
          by (simp add: add_outputs_def with_file_def get_content_def)
      qed
    qed
  qed
  then show ?thesis using 1 2 3 by simp
qed


section \<open>The header/offset invariant (claim C1)\<close>





section \<open>Decode failures in the accessors (claim C2)\<close>

lemma get_pulse_fails:
  assumes "header_size \<le> length f"
    and "fails_on (decompress_decode decompress)
           (int header_size + params_size (header_of f)) (pulse_size (header_of f)) f"
  shows "get_pulse decompress (Some f) = (Inr [], [''Failed to decode pulse''])"
  using assms(2)
  unfolding get_pulse_def reading_def get_pulse_fh_def fails_on_def
  by (simp add: read_header_ok [OF assms(1)] seek_def split: sum.splits)

lemma get_stdout_fails:
  assumes "header_size \<le> length f"
    and "fails_on (decompress_decode decompress)
           (int header_size + params_size (header_of f) + pulse_size (header_of f))
           (stdout_size (header_of f)) f"
  shows "get_stdout decompress (Some f) = (Inr [], [''Failed to decode stdout''])"
  using assms(2)
  unfolding get_stdout_def reading_def get_stdout_fh_def fails_on_def
  by (simp add: read_header_ok [OF assms(1)] seek_def split: sum.splits)

lemma get_stderr_fails:
  assumes "header_size \<le> length f"
    and "fails_on (decompress_decode decompress)
           (int header_size + params_size (header_of f) + pulse_size (header_of f)
            + stdout_size (header_of f))
           (stderr_size (header_of f)) f"
  shows "get_stderr decompress (Some f) = (Inr [], [''Failed to decode stderr''])"
  using assms(2)
  unfolding get_stderr_def reading_def get_stderr_fh_def fails_on_def
  by (simp add: read_header_ok [OF assms(1)] seek_def split: sum.splits)

lemma get_result_fails:
  assumes "header_size \<le> length f"
    and "fails_on loads
           (int header_size + params_size (header_of f) + pulse_size (header_of f)
            + stdout_size (header_of f) + stderr_size (header_of f))
           (result_size (header_of f)) f"
  shows "get_result loads (Some f) = (Inr Dict_ret_code_1, [''Failed to decode result''])"
  using assms(2)
  unfolding get_result_def reading_def get_result_fh_def fails_on_def
  by (simp add: read_header_ok [OF assms(1)] seek_def split: sum.splits)

lemma get_signature_fails:
  assumes "header_size \<le> length f"
    and "fails_on loads
           (int header_size + params_size (header_of f) + pulse_size (header_of f)
            + stdout_size (header_of f) + stderr_size (header_of f)
            + result_size (header_of f))
           (signature_size (header_of f)) f"
  shows "get_signature loads (Some f) = (Inr Dict_ret_code_1, [''Failed to decode signature''])"
  using assms(2)
  unfolding get_signature_def reading_def get_signature_fh_def fails_on_def
  by (simp add: read_header_ok [OF assms(1)] seek_def split: sum.splits)

lemma get_params_fails:
  assumes "header_size \<le> length f"
    and "fails_on loads (int header_size) (params_size (header_of f)) f"
  shows "\<exists>e. get_params loads (Some f) = (Inl e, [])"
  using assms(2)
  unfolding get_params_def reading_def get_params_fh_def fails_on_def
  by (simp add: read_header_ok [OF assms(1)] split: sum.splits)

lemma header_of_undecodable:
  "params_size (header_of (replicate 203 0 @ 1 # replicate 19 0 @ [1, 7, 7])) = 1"
  "pulse_size (header_of (replicate 203 0 @ 1 # replicate 19 0 @ [1, 7, 7])) = 0"
  "stdout_size (header_of (replicate 203 0 @ 1 # replicate 19 0 @ [1, 7, 7])) = 0"
  "stderr_size (header_of (replicate 203 0 @ 1 # replicate 19 0 @ [1, 7, 7])) = 0"
  "result_size (header_of (replicate 203 0 @ 1 # replicate 19 0 @ [1, 7, 7])) = 0"
  "signature_size (header_of (replicate 203 0 @ 1 # replicate 19 0 @ [1, 7, 7])) = 1"
  by (simp_all add: header_of_def header_size_def unpack_header_def slice_def unpack_i_def
        signed32_def be_value_append)

text \<open>
  Claim C2, as the code has it. On a record with a full header, when the decoder fails on a
  stored section (the section has a size other than 0, its offset is not negative, and
  reading it or decompressing and decoding what was read raises), the accessors of pulse,
  stdout and stderr log a warning and return the empty string, the accessors of result
  and of signature log a warning and return \<^verbatim>\<open>{'ret_code': 1}\<close>, and the accessor of
  params, which has no handler, raises.
\<close>

theorem decode_failures:
  assumes "header_size \<le> length f"
  shows "(fails_on (decompress_decode decompress)
            (int header_size + params_size (header_of f)) (pulse_size (header_of f)) f \<longrightarrow>
          get_pulse decompress (Some f) = (Inr [], [''Failed to decode pulse'']))
       \<and> (fails_on (decompress_decode decompress)
            (int header_size + params_size (header_of f) + pulse_size (header_of f))
            (stdout_size (header_of f)) f \<longrightarrow>
          get_stdout decompress (Some f) = (Inr [], [''Failed to decode stdout'']))
       \<and> (fails_on (decompress_decode decompress)
            (int header_size + params_size (header_of f) + pulse_size (header_of f)
             + stdout_size (header_of f))
            (stderr_size (header_of f)) f \<longrightarrow>
          get_stderr decompress (Some f) = (Inr [], [''Failed to decode stderr'']))
       \<and> (fails_on loads
            (int header_size + params_size (header_of f) + pulse_size (header_of f)
             + stdout_size (header_of f) + stderr_size (header_of f))
            (result_size (header_of f)) f \<longrightarrow>
          get_result loads (Some f) = (Inr Dict_ret_code_1, [''Failed to decode result'']))
       \<and> (fails_on loads
            (int header_size + params_size (header_of f) + pulse_size (header_of f)
             + stdout_size (header_of f) + stderr_size (header_of f)
             + result_size (header_of f))
            (signature_size (header_of f)) f \<longrightarrow>
          get_signature loads (Some f) =
            (Inr Dict_ret_code_1, [''Failed to decode signature'']))
       \<and> (fails_on loads (int header_size) (params_size (header_of f)) f \<longrightarrow>
          (\<exists>e. get_params loads (Some f) = (Inl e, [])))"
  using get_pulse_fails [OF assms] get_stdout_fails [OF assms] get_stderr_fails [OF assms]
    get_result_fails [OF assms] get_signature_fails [OF assms] get_params_fails [OF assms]
  by blast

theorem decode_failures_witness:
  "header_size \<le> length (replicate 203 0 @ 1 # replicate 19 0 @ [1, 7, 7 :: byte])
   \<and> fails_on (\<lambda>b. None :: unit option) (int header_size + 1 + 0 + 0 + 0 + 0) 1
        (replicate 203 0 @ 1 # replicate 19 0 @ [1, 7, 7])
   \<and> get_signature (\<lambda>b. None :: unit option)
        (Some (replicate 203 0 @ 1 # replicate 19 0 @ [1, 7, 7]))
        = (Inr Dict_ret_code_1, [''Failed to decode signature''])
   \<and> fails_on (\<lambda>b. None :: unit option) (int header_size) 1
        (replicate 203 0 @ 1 # replicate 19 0 @ [1, 7, 7])
   \<and> (\<exists>e. get_params (\<lambda>b. None :: unit option)
        (Some (replicate 203 0 @ 1 # replicate 19 0 @ [1, 7, 7])) = (Inl e, []))"
proof -
  let ?f = "replicate 203 0 @ 1 # replicate 19 0 @ [1, 7, 7 :: byte]"
  have l: "header_size \<le> length ?f" by (simp add: header_size_def)
  have a: "fails_on (\<lambda>b. None :: unit option) (int header_size + 1 + 0 + 0 + 0 + 0) 1 ?f"
    by (simp add: fails_on_def fh_read_def)
  have b: "fails_on (\<lambda>b. None :: unit option) (int header_size) 1 ?f"
    by (simp add: fails_on_def fh_read_def)
  from decode_failures [OF l, of "\<lambda>b. None" "\<lambda>b. None :: unit option"] a b
  have "get_signature (\<lambda>b. None :: unit option) (Some ?f)
          = (Inr Dict_ret_code_1, [''Failed to decode signature''])
        \<and> (\<exists>e. get_params (\<lambda>b. None :: unit option) (Some ?f) = (Inl e, []))"
    by (simp add: header_of_undecodable)
  with l a b show ?thesis by blast
qed

text \<open>
  Claim C2 as stated fails twice on a record whose params section and signature section
  are the single byte 7, which is no lzma stream: the params accessor raises, and the
  signature accessor returns the failure dictionary, not the empty one.
\<close>

theorem params_failure_propagates:
  "get_params (\<lambda>b. None :: unit option)
      (Some (replicate 203 0 @ 1 # replicate 19 0 @ [1, 7, 7])) = (Inl DecodeError, [])
   \<and> get_signature (\<lambda>b. None :: unit option)
      (Some (replicate 203 0 @ 1 # replicate 19 0 @ [1, 7, 7]))
        = (Inr Dict_ret_code_1, [''Failed to decode signature''])"
proof -
  let ?f = "replicate 203 0 @ 1 # replicate 19 0 @ [1, 7, 7 :: byte]"
  have l: "header_size \<le> length ?f" by (simp add: header_size_def)
  note r = read_header_ok [OF l]
  have 1: "get_params (\<lambda>b. None :: unit option) (Some ?f) = (Inl DecodeError, [])"
    unfolding get_params_def reading_def get_params_fh_def
    by (simp add: r header_of_undecodable fh_read_def)
  have 2: "get_signature (\<lambda>b. None :: unit option) (Some ?f)
        = (Inr Dict_ret_code_1, [''Failed to decode signature''])"
    unfolding get_signature_def reading_def get_signature_fh_def
    by (simp add: r header_of_undecodable fh_read_def seek_def split: sum.splits)
  from 1 2 show ?thesis by blast
qed

section \<open>The tags setter (claim C10)\<close>

lemma foldl_be_shift:
  "foldl (\<lambda>a b. a * 256 + unat b) v (bs :: bytes) = v * 256 ^ length bs + be_value bs"
  unfolding be_value_def
proof (induction bs arbitrary: v rule: rev_induct)
  case Nil
  show ?case by simp
next
  case (snoc b bs)
  have "foldl (\<lambda>a b. a * 256 + unat b) v (bs @ [b])
          = foldl (\<lambda>a b. a * 256 + unat b) v bs * 256 + unat b"
    by simp
  also have "\<dots> = (v * 256 ^ length bs + foldl (\<lambda>a b. a * 256 + unat b) 0 bs) * 256 + unat b"
    by (simp only: snoc.IH [of v])
  also have "\<dots> = v * 256 ^ length (bs @ [b]) + foldl (\<lambda>a b. a * 256 + unat b) 0 (bs @ [b])"
    by (simp add: distrib_right)
  finally show ?case .
qed

lemma be_value_Cons: "be_value (b # bs) = unat b * 256 ^ length bs + be_value bs"
  using foldl_be_shift [of "unat b" bs] by (simp add: be_value_def)

lemma encode_ascii: "\<forall>c\<in>set s. c < 128 \<Longrightarrow> encode s = Inr (map of_nat s)"
  by (induction s) (simp_all add: utf8_char_def)

lemma encode_spaces: "encode (replicate n 32) = Inr (replicate n 32)"
  using encode_ascii [of "replicate n 32"] by simp

lemma encode_e_acute: "encode (ljust 128 [233]) = Inr (195 # 169 # replicate 127 32)"
  by (simp add: ljust_def utf8_char_def encode_spaces)

text \<open>
  Claim C10: for a list of non-empty tags without whitespace whose sorted, space-joined
  encoding has at most 128 bytes, setting the tags changes no header field but the tags.
  The setter pads the joined string to 128 characters and encodes it afterwards, so a
  character that takes two bytes makes the field 129 bytes long. With the single tag
  \<open>U+00E9\<close> on a record whose time stamps are 0, the encoding of the joined string has
  two bytes, and the setter overwrites the first byte of \<open>new_time\<close> with a space.
\<close>

theorem set_tags_overwrites_new_time:
  "encode (join_space (sort [[233]])) = Inr [195, 169]
   \<and> new_time (header_of (replicate 224 0)) = 0
   \<and> (case set_tags [[233]] (Some (replicate 224 0)) of
        (Inr u, Some f') \<Rightarrow> new_time (header_of f') = 0x2000000000000000
      | _ \<Rightarrow> False)"
proof -
  have 1: "encode (join_space (sort [[233]])) = Inr [195, 169]"
    by (simp add: utf8_char_def)
  have 2: "new_time (header_of (replicate 224 0)) = 0"
    by (simp add: header_of_zeros)
  have 3: "set_tags [[233]] (Some (replicate 224 0))
             = (Inr (), Some (replicate 8 0 @ 195 # 169 # replicate 127 32 @ replicate 87 0))"
    by (simp add: set_tags_def with_file_def set_tags_fh_def encode_e_acute write_at_def)
  have 4: "new_time (header_of (replicate 8 0 @ 195 # 169 # replicate 127 32 @ replicate 87 0))
             = 0x2000000000000000"
    by (simp add: header_of_def header_size_def unpack_header_def slice_def unpack_d_def
          be_value_Cons)
  show ?thesis unfolding 1 3 using 2 4 by simp
qed

lemma decode_ascii: "\<forall>c\<in>set s. c < 128 \<Longrightarrow> decode (map of_nat s) = Some s"
proof (induction s)
  case Nil
  show ?case by simp
next
  case (Cons c s)
  then have c: "c < 128" and s: "\<forall>c\<in>set s. c < 128" by simp_all
  have "unat (of_nat c :: byte) = c" using c by (simp add: unat_of_nat)
  with c Cons.IH [OF s] show ?case by simp
qed

lemma dropWhile_spaces: "dropWhile isspace (replicate n 32 @ xs) = dropWhile isspace xs"
  by (induction n) (simp_all add: isspace_def)

lemma strip_padded:
  assumes "s = [] \<or> (\<not> isspace (hd s) \<and> \<not> isspace (last s))"
  shows "strip (s @ replicate n 32) = s"
proof (cases "s = []")
  case True
  have "dropWhile isspace (replicate n 32 @ []) = []" by (simp only: dropWhile_spaces) simp
  then show ?thesis using True by (simp add: strip_def)
next
  case False
  with assms have h: "\<not> isspace (hd s)" and l: "\<not> isspace (last s)" by simp_all
  from False obtain x xs where x: "s = x # xs" by (cases s) auto
  have 1: "dropWhile isspace (s @ replicate n 32) = s @ replicate n 32"
    using h x by simp
  have r: "rev s \<noteq> []" "hd (rev s) = last s" using False by (simp_all add: hd_rev)
  then obtain y ys where y: "rev s = y # ys" by (cases "rev s") auto
  with r l have ny: "\<not> isspace y" by simp
  have 2: "dropWhile isspace (replicate n 32 @ rev s) = rev s"
    by (simp only: dropWhile_spaces) (simp add: y ny)
  have "strip (s @ replicate n 32) = rev (dropWhile isspace (replicate n 32 @ rev s))"
    by (simp add: strip_def 1)
  also have "\<dots> = s" by (simp only: 2 rev_rev_ident)
  finally show ?thesis .
qed

lemma join_space_ends:
  assumes "ts \<noteq> []" "\<forall>t\<in>set ts. t \<noteq> [] \<and> (\<forall>c\<in>set t. \<not> isspace c)"
  shows "join_space ts \<noteq> [] \<and> \<not> isspace (hd (join_space ts))
         \<and> \<not> isspace (last (join_space ts))"
  using assms
proof (induction ts rule: join_space.induct)
  case 1
  then show ?case by simp
next
  case (2 x)
  then have "x \<noteq> []" "\<forall>c\<in>set x. \<not> isspace c" by simp_all
  then show ?case by simp
next
  case (3 x y xs)
  then have x: "x \<noteq> []" "\<forall>c\<in>set x. \<not> isspace c"
    and r: "\<forall>t\<in>set (y # xs). t \<noteq> [] \<and> (\<forall>c\<in>set t. \<not> isspace c)"
    by simp_all
  from "3.IH" r have ih: "join_space (y # xs) \<noteq> []"
    "\<not> isspace (last (join_space (y # xs)))" by simp_all
  from x have "\<not> isspace (hd x)" by simp
  with x ih show ?case by simp
qed

lemma join_space_ascii:
  "\<forall>t\<in>set ts. \<forall>c\<in>set t. c < 128 \<Longrightarrow> \<forall>c\<in>set (join_space ts). c < 128"
  by (induction ts rule: join_space.induct) auto

lemma unpack_header_tags_written:
  fixes a x y c :: bytes
  assumes "length a = 8" "length x = 128" "length y = 128"
  shows "unpack_header (take 224 (a @ x @ c)) = (unpack_header (take 224 (a @ y @ c)))\<lparr>tags := x\<rparr>"
  using assms by (simp add: unpack_header_def slice_def)

text \<open>
  Where every character of every tag takes one byte, the setter does what is expected of
  it: the tags read back are the sorted tags joined by spaces, the header differs from the
  old one in the tags field only, and the bytes after the header are untouched.
\<close>

lemma set_tags_ascii:
  assumes "header_size \<le> length f"
    and "\<forall>t\<in>set tgs. t \<noteq> [] \<and> (\<forall>c\<in>set t. c < 128 \<and> \<not> isspace c)"
    and "length (join_space (sort tgs)) \<le> 128"
  shows "\<exists>f'. set_tags tgs (Some f) = (Inr (), Some f')
           \<and> get_tags (Some f') = Inr (join_space (sort tgs))
           \<and> header_of f' =
               (header_of f)\<lparr>tags := map of_nat (ljust 128 (join_space (sort tgs)))\<rparr>
           \<and> drop header_size f' = drop header_size f"
proof -
  let ?j = "join_space (sort tgs)"
  let ?b = "map of_nat (ljust 128 ?j) :: bytes"
  have st: "set (sort tgs) = set tgs" by simp
  have asc: "\<forall>c\<in>set ?j. c < 128"
    by (rule join_space_ascii) (use assms(2) st in auto)
  then have pasc: "\<forall>c\<in>set (ljust 128 ?j). c < 128" by (auto simp: ljust_def)
  have enc: "encode (ljust 128 ?j) = Inr ?b" by (rule encode_ascii [OF pasc])
  have lb: "length ?b = 128" using assms(3) by (simp add: ljust_def)
  have ne: "?b \<noteq> []" using lb by auto
  let ?a = "take 8 f" and ?y = "take 128 (drop 8 f)" and ?c = "drop 136 f"
  have la: "length ?a = 8" and ly: "length ?y = 128"
    using assms(1) by (simp_all add: header_size_def)
  have f: "f = ?a @ ?y @ ?c"
  proof -
    have "drop 128 (drop 8 f) = ?c" by simp
    then have "drop 8 f = ?y @ ?c"
      using append_take_drop_id [of 128 "drop 8 f"] by simp
    then show ?thesis
      using append_take_drop_id [of 8 f] by simp
  qed
  let ?f' = "?a @ ?b @ ?c"
  have w: "write_at 8 ?b f = ?f'"
    using ne lb assms(1) by (simp add: write_at_def header_size_def)
  have 1: "set_tags tgs (Some f) = (Inr (), Some ?f')"
    by (simp add: set_tags_def with_file_def set_tags_fh_def enc w)
  have sl: "slice 8 128 ?f' = ?b" using la lb by (simp add: slice_def)
  have ends: "?j = [] \<or> (\<not> isspace (hd ?j) \<and> \<not> isspace (last ?j))"
  proof (cases "sort tgs = []")
    case True
    then show ?thesis by simp
  next
    case False
    have "\<forall>t\<in>set (sort tgs). t \<noteq> [] \<and> (\<forall>c\<in>set t. \<not> isspace c)"
      using assms(2) st by auto
    from join_space_ends [OF False this] show ?thesis by simp
  qed
  have "decode ?b = Some (ljust 128 ?j)" by (rule decode_ascii [OF pasc])
  moreover have "strip (ljust 128 ?j) = ?j"
    unfolding ljust_def by (rule strip_padded [OF ends])
  ultimately have 2: "get_tags (Some ?f') = Inr ?j"
    by (simp add: get_tags_def get_tags_fh_def sl)
  have "unpack_header (take 224 ?f') = (unpack_header (take 224 (?a @ ?y @ ?c)))\<lparr>tags := ?b\<rparr>"
    by (rule unpack_header_tags_written [OF la lb ly])
  then have 3: "header_of ?f' = (header_of f)\<lparr>tags := ?b\<rparr>"
    unfolding header_of_def header_size_def using f by simp
  have 4: "drop header_size ?f' = drop header_size f"
    using la lb by (simp add: header_size_def)
  from 1 2 3 4 show ?thesis by blast
qed

section \<open>save and the caller's object (claim C9)\<close>

lemma write_header_empty:
  "write_header h [] = Inr f1 \<Longrightarrow> length f1 = header_size \<and> pack_header h = Inr f1"
proof -
  assume a: "write_header h [] = Inr f1"
  then obtain hb where hb: "pack_header h = Inr hb" "f1 = write_at 0 hb []"
    by (auto simp: write_header_def split: sum.splits)
  have "length hb = 224" by (rule unpack_pack_header(1) [OF hb(1)])
  then show ?thesis using hb by (auto simp: write_at_def header_size_def)
qed

lemma save_object: "fst (snd (save dumps now params None)) = params\<lparr>tags_attr := None\<rparr>"
  by (simp add: save_def Let_def split: option.splits sum.splits)

lemma save_block:
  assumes "save dumps now params None = (Inr (), params', Some f')"
  shows "dumps (params\<lparr>tags_attr := None\<rparr>) = Inr (drop header_size f')"
proof -
  from assms obtain tgs block tb f1 h where
    d: "dumps (params\<lparr>tags_attr := None\<rparr>) = Inr block"
    and w: "write_header h [] = Inr f1"
    and f': "f' = write_at header_size block f1"
    by (auto simp: save_def Let_def split: option.splits sum.splits)
  from write_header_empty [OF w] have "length f1 = header_size" by simp
  then have "drop header_size f' = block" unfolding f' by (simp add: write_at_def)
  with d show ?thesis by simp
qed

lemma length_encode_ascii: "\<forall>c\<in>set s. c < 128 \<Longrightarrow> \<exists>b. encode s = Inr b \<and> length b = length s"
  by (simp add: encode_ascii)

lemma save_ok:
  assumes "tags_attr params = Some tgs"
    and "dumps (params\<lparr>tags_attr := None\<rparr>) = Inr block"
    and "length block < 2 ^ 31"
    and "encode (ljust 128 (join_space (sort tgs))) = Inr tb" "length tb = 128"
  shows "\<exists>hb. length hb = header_size \<and>
           save dumps now params None = (Inr (), params\<lparr>tags_attr := None\<rparr>, Some (hb @ block))"
proof -
  let ?h = "\<lparr>version = 1, status = status_value new, tags = tb, new_time = now,
     pending_time = 0, submitted_time = 0, running_time = 0, aborted_time = 0,
     failed_time = 0, completed_time = 0, last_modified = now,
     params_size = int (length block), pulse_size = 0, stdout_size = 0, stderr_size = 0,
     result_size = 0, signature_size = 0\<rparr>"
  have "packable ?h" using assms(3,5) by (simp add: packable_def int32_def)
  from pack_header_ok [OF this] obtain hb where hb: "pack_header ?h = Inr hb" by blast
  have l: "length hb = 224" by (rule unpack_pack_header(1) [OF hb])
  then have ne: "hb \<noteq> []" by auto
  have w: "write_header ?h [] = Inr hb" using ne hb by (simp add: write_header_def write_at_def)
  have a: "write_at header_size block hb = hb @ block"
    using l by (simp add: write_at_def header_size_def)
  have "save dumps now params None = (Inr (), params\<lparr>tags_attr := None\<rparr>, Some (hb @ block))"
    using w a by (simp add: save_def assms(1,2,4) Let_def)
  with l show ?thesis by (auto simp: header_size_def)
qed

text \<open>
  Claim C9. When the task file does not exist yet, \<open>save\<close> leaves the caller's object
  without its \<open>tags\<close> attribute, whatever else happens in the call, and what a call that
  returns has stored after the header is the serialization of the object without the
  attribute: the attribute is deleted before the object is serialized. When the task file
  exists, \<open>save\<close> returns and changes neither the file nor the object.
\<close>

theorem save_deletes_tags:
  "(s = None \<longrightarrow>
      fst (snd (save dumps now params s)) = params\<lparr>tags_attr := None\<rparr>
      \<and> tags_attr (fst (snd (save dumps now params s))) = None
      \<and> (\<forall>params' f'. save dumps now params s = (Inr (), params', Some f') \<longrightarrow>
            dumps (params\<lparr>tags_attr := None\<rparr>) = Inr (drop header_size f')))
   \<and> (\<forall>f. s = Some f \<longrightarrow> save dumps now params s = (Inr (), params, Some f))"
proof (intro conjI impI allI)
  assume "s = None"
  then show "fst (snd (save dumps now params s)) = params\<lparr>tags_attr := None\<rparr>"
    by (simp add: save_object)
  then show "tags_attr (fst (snd (save dumps now params s))) = None" by simp
next
  fix params' f'
  assume "s = None" "save dumps now params s = (Inr (), params', Some f')"
  then show "dumps (params\<lparr>tags_attr := None\<rparr>) = Inr (drop header_size f')"
    using save_block by simp
next
  fix f assume "s = Some f"
  then show "save dumps now params s = (Inr (), params, Some f)" by (simp add: save_def)
qed

theorem save_deletes_tags_witness:
  "tags_attr (fst (snd (save (\<lambda>p. Inr [1]) 1
      \<lparr>name = ''t'', global_def = [], task_text = [], raw_dict = empty_dict,
       sos_dict = empty_dict, tags_attr = Some [[97]]\<rparr> None))) = None
   \<and> (\<exists>f'. save (\<lambda>p. Inr [1]) 1
      \<lparr>name = ''t'', global_def = [], task_text = [], raw_dict = empty_dict,
       sos_dict = empty_dict, tags_attr = Some [[97]]\<rparr> None
        = (Inr (), \<lparr>name = ''t'', global_def = [], task_text = [], raw_dict = empty_dict,
       sos_dict = empty_dict, tags_attr = None\<rparr>, Some f')
      \<and> drop header_size f' = [1])
   \<and> save (\<lambda>p. Inr [1]) 1
      \<lparr>name = ''t'', global_def = [], task_text = [], raw_dict = empty_dict,
       sos_dict = empty_dict, tags_attr = Some [[97]]\<rparr> (Some [0])
        = (Inr (), \<lparr>name = ''t'', global_def = [], task_text = [], raw_dict = empty_dict,
       sos_dict = empty_dict, tags_attr = Some [[97]]\<rparr>, Some [0])"
proof -
  let ?p = "\<lparr>name = ''t'', global_def = [], task_text = [], raw_dict = empty_dict,
       sos_dict = empty_dict, tags_attr = Some [[97::nat]]\<rparr>"
  let ?d = "\<lambda>p::sos_targets TaskParams. (Inr [1] :: error + bytes)"
  have e: "encode (ljust 128 (join_space (sort [[97]]))) = Inr (97 # replicate 127 32)"
    by (simp add: ljust_def utf8_char_def encode_spaces)
  from save_ok [of ?p "[[97]]" ?d "[1]" _ 1, OF _ _ _ e] obtain hb where
    hb: "length hb = header_size"
        "save ?d 1 ?p None = (Inr (), ?p\<lparr>tags_attr := None\<rparr>, Some (hb @ [1]))"
    by auto
  note t = save_deletes_tags [of None ?d 1 ?p] save_deletes_tags [of "Some [0]" ?d 1 ?p]
  have 1: "tags_attr (fst (snd (save ?d 1 ?p None))) = None" using t(1) by simp
  have "?d (?p\<lparr>tags_attr := None\<rparr>) = Inr (drop header_size (hb @ [1]))"
    using t(1) hb(2) by blast
  then have 2: "drop header_size (hb @ [1]) = [1]" by simp
  have 3: "save ?d 1 ?p (Some [0]) = (Inr (), ?p, Some [0])" using t(2) by simp
  from 1 2 3 hb(2) show ?thesis by auto
qed

text \<open>
  A record that \<open>save\<close> has just written holds its sections: the params block and five
  empty sections, with the status \<open>new\<close>. The writers start from such a record.
\<close>

lemma save_holds:
  assumes "tags_attr params = Some tgs"
    and "dumps (params\<lparr>tags_attr := None\<rparr>) = Inr block"
    and "length block < 2 ^ 31"
    and "encode (ljust 128 (join_space (sort tgs))) = Inr tb" "length tb = 128"
  shows "\<exists>f'. save dumps now params None = (Inr (), params\<lparr>tags_attr := None\<rparr>, Some f')
           \<and> holds f' \<lparr>params_sec = block, pulse_sec = [], stdout_sec = [], stderr_sec = [],
                        result_sec = [], signature_sec = []\<rparr>
           \<and> status (header_of f') = status_value new"
proof -
  let ?h = "\<lparr>version = 1, status = status_value new, tags = tb, new_time = now,
     pending_time = 0, submitted_time = 0, running_time = 0, aborted_time = 0,
     failed_time = 0, completed_time = 0, last_modified = now,
     params_size = int (length block), pulse_size = 0, stdout_size = 0, stderr_size = 0,
     result_size = 0, signature_size = 0\<rparr>"
  have pk: "packable ?h" using assms(3,5) by (simp add: packable_def int32_def)
  from pack_header_ok [OF pk] obtain hb where hb: "pack_header ?h = Inr hb" by blast
  have l: "length hb = header_size"
    using unpack_pack_header(1) [OF hb] by (simp add: header_size_def)
  have "pack_s 128 (tags ?h) = tags ?h" using assms(5) by (simp add: pack_s_same)
  then have u: "unpack_header hb = ?h" using unpack_pack_header(2) [OF hb] by simp
  have ne: "hb \<noteq> []" using l by (auto simp: header_size_def)
  have w: "write_header ?h [] = Inr hb" using ne hb by (simp add: write_header_def write_at_def)
  have a: "write_at header_size block hb = hb @ block"
    using l by (simp add: write_at_def)
  have 1: "save dumps now params None = (Inr (), params\<lparr>tags_attr := None\<rparr>, Some (hb @ block))"
    using w a by (simp add: save_def assms(1,2,4) Let_def)
  have 2: "holds (hb @ block) \<lparr>params_sec = block, pulse_sec = [], stdout_sec = [],
                        stderr_sec = [], result_sec = [], signature_sec = []\<rparr>"
    by (rule holdsI [OF l]) (simp_all add: u)
  have 3: "status (header_of (hb @ block)) = status_value new"
    by (simp add: header_of_append [OF l] u)
  from 1 2 3 show ?thesis by blast
qed

section \<open>The probe: the hint (claim C5)\<close>

lemma evidence_entry_iff:
  "(if v \<noteq> 0 then (case files w f of None \<Rightarrow> False | Some i \<Rightarrow> st_mtime i = v)
    else files w f = None)
   \<longleftrightarrow> (v \<noteq> 0 \<longrightarrow> (\<exists>i. files w f = Some i \<and> st_mtime i = v)) \<and>
        (v = 0 \<longrightarrow> files w f = None)"
  by (cases "files w f") simp_all

lemma evidence_matches_iff:
  "evidence_matches w fs \<longleftrightarrow>
     (\<forall>(f, v)\<in>set fs.
        (v \<noteq> 0 \<longrightarrow> (\<exists>i. files w f = Some i \<and> st_mtime i = v)) \<and>
        (v = 0 \<longrightarrow> files w f = None))"
  unfolding evidence_matches_def list_all_iff
  by (simp only: evidence_entry_iff)

text \<open>
  Claim C5. With a hint that is not empty, whose status is neither \<open>pending\<close> nor
  \<open>running\<close>, and whose evidence still holds (a file recorded with a time other than 0
  exists with exactly that time, a file recorded with 0 does not exist), \<open>check_task\<close>
  returns the empty result: whatever the task, the byte order of the host and the rest of
  the probe.
\<close>

theorem cache_short_circuit:
  assumes "hint = Some h"
    and "hint_status h \<noteq> ''pending''" "hint_status h \<noteq> ''running''"
    and "\<forall>(f, v)\<in>set (hint_files h).
           (v \<noteq> 0 \<longrightarrow> (\<exists>i. files w f = Some i \<and> st_mtime i = v)) \<and>
           (v = 0 \<longrightarrow> files w f = None)"
  shows "check_task byteorder live w task hint = Inr Unchanged"
  using assms by (simp add: check_task_def evidence_matches_iff)

theorem cache_short_circuit_witness:
  "hint_status \<lparr>hint_status = ''submitted'',
                hint_files = [(''/home/u/.sos/tasks/t.task'', 5), (''/home/u/.sos/tasks/t.pulse'', 0)]\<rparr>
     \<noteq> ''pending''
   \<and> check_task Little (\<lambda>w t h s. Inl DecodeError)
        \<lparr>home = ''/home/u'',
         files = [''/home/u/.sos/tasks/t.task'' \<mapsto> \<lparr>st_mtime = 5, content = []\<rparr>]\<rparr>
        ''t''
        (Some \<lparr>hint_status = ''submitted'',
               hint_files = [(''/home/u/.sos/tasks/t.task'', 5),
                             (''/home/u/.sos/tasks/t.pulse'', 0)]\<rparr>)
      = Inr Unchanged"
  using cache_short_circuit [of
      "Some \<lparr>hint_status = ''submitted'',
               hint_files = [(''/home/u/.sos/tasks/t.task'', 5),
                             (''/home/u/.sos/tasks/t.pulse'', 0)]\<rparr>"
      "\<lparr>hint_status = ''submitted'',
               hint_files = [(''/home/u/.sos/tasks/t.task'', 5),
                             (''/home/u/.sos/tasks/t.pulse'', 0)]\<rparr>"
      "\<lparr>home = ''/home/u'',
         files = [''/home/u/.sos/tasks/t.task'' \<mapsto> \<lparr>st_mtime = 5, content = []\<rparr>]\<rparr>"
      Little "\<lambda>w t h s. Inl DecodeError" "''t''"]
  by simp

section \<open>The probe: terminal states (claim C4)\<close>

lemma get_status_big:
  assumes "header_size \<le> length f" "status (header_of f) = status_value s"
  shows "get_status_fh Big f = Inr (status_name s)"
proof -
  have l: "length (slice 4 4 f) = 4" using assms(1) by (simp add: slice_def header_size_def)
  have "slice 4 4 (take header_size f) = slice 4 4 f"
    by (simp add: slice_def header_size_def drop_take)
  then have "unpack_i (slice 4 4 f) = status_value s"
    using assms(2) by (simp add: header_of_def unpack_header_def)
  then have "unpack_native_i Big (slice 4 4 f) = Inr (status_value s)"
    using l by (simp add: unpack_native_i_def unpack_i_def)
  then show ?thesis
    by (cases s) (simp_all add: get_status_fh_def TaskStatus_of_value_def)
qed

lemma task_path_example:
  "task_path \<lparr>home = ''/home/u'', files = fs\<rparr> ''t'' ''.task'' = ''/home/u/.sos/tasks/t.task''"
  by (simp add: task_path_def os_path_join_def)

lemma four_bytes:
  assumes "length (bs :: bytes) = 4"
  obtains a b c d where "bs = [a, b, c, d]"
proof -
  from assms obtain a r1 where 1: "bs = a # r1" "length r1 = 3" by (cases bs) auto
  then obtain b r2 where 2: "r1 = b # r2" "length r2 = 2" by (cases r1) auto
  then obtain c r3 where 3: "r2 = c # r3" "length r3 = 1" by (cases r2) auto
  then obtain d where 4: "r3 = [d]" by (cases r3) auto
  from 1 2 3 4 that show ?thesis by simp
qed

lemma small_big_endian:
  assumes "length (bs :: bytes) = 4" "be_value bs = k" "k < 256"
  shows "le_value bs = k * 2 ^ 24"
proof -
  from assms(1) obtain a b c d where bs: "bs = [a, b, c, d]" by (rule four_bytes)
  have l: "unat a < 256" "unat b < 256" "unat c < 256" "unat d < 256"
    by (simp_all add: unat_byte_less)
  from assms(2,3) have "((unat a * 256 + unat b) * 256 + unat c) * 256 + unat d < 256"
    by (simp add: bs be_value_def)
  then have z: "unat a = 0" "unat b = 0" "unat c = 0" by auto
  with assms(2) have "unat d = k" by (simp add: bs be_value_def)
  with z show ?thesis by (simp add: bs le_value_def be_value_def)
qed

lemma get_status_little:
  assumes "header_size \<le> length f" "status (header_of f) = status_value s" "s \<noteq> new"
  shows "get_status_fh Little f = Inl (ValueError ''not a valid TaskStatus'')"
proof -
  have l: "length (slice 4 4 f) = 4" using assms(1) by (simp add: slice_def header_size_def)
  have "slice 4 4 (take header_size f) = slice 4 4 f"
    by (simp add: slice_def header_size_def drop_take)
  then have u: "unpack_i (slice 4 4 f) = status_value s"
    using assms(2) by (simp add: header_of_def unpack_header_def)
  have "be_value (slice 4 4 f) < 2 ^ 32" using be_value_less [of "slice 4 4 f"] l by simp
  then have b: "be_value (slice 4 4 f) = nat (status_value s)"
    using u by (cases s) (simp_all add: unpack_i_def signed32_def split: if_splits)
  have "nat (status_value s) < 256" by (cases s) simp_all
  from small_big_endian [OF l b this]
  have "le_value (slice 4 4 f) = nat (status_value s) * 2 ^ 24" .
  then have "unpack_native_i Little (slice 4 4 f) = Inr (status_value s * 2 ^ 24)"
    using l by (cases s) (simp_all add: unpack_native_i_def signed32_def)
  then show ?thesis using assms(3)
    by (cases s) (simp_all add: get_status_fh_def TaskStatus_of_value_def)
qed

text \<open>
  On a host whose byte order is the one of the header, the probe does what claim C4 says
  whenever it gets as far as the record: the task file exists, has a full header, and its
  stored status is \<open>completed\<close>, \<open>failed\<close> or \<open>aborted\<close>; the hint is empty, or its status
  is \<open>pending\<close> or \<open>running\<close>, or its evidence does not hold any more. Then \<open>check_task\<close>
  returns that status with the task file and its current modification time as the
  evidence, whatever the part of the probe after the terminal states would do: that part
  is not entered.
\<close>

lemma terminal_status_big_endian:
  assumes "files w (task_path w task ''.task'') = Some tf"
    and "header_size \<le> length (content tf)"
    and "status (header_of (content tf)) = status_value s"
    and "s \<in> {completed, failed, aborted}"
    and "case hint of None \<Rightarrow> True
         | Some h \<Rightarrow> hint_status h \<in> {''pending'', ''running''}
                     \<or> \<not> evidence_matches w (hint_files h)"
  shows "check_task Big live w task hint =
           Inr (Probe (status_name s) [(task_path w task ''.task'', st_mtime tf)])"
proof -
  have g: "get_status_fh Big (content tf) = Inr (status_name s)"
    by (rule get_status_big [OF assms(2,3)])
  have t: "status_name s \<in> {''failed'', ''completed'', ''aborted''}"
    using assms(4) by auto
  have n: "\<not> (case hint of None \<Rightarrow> False
          | Some h \<Rightarrow> hint_status h \<notin> {''pending'', ''running''}
                      \<and> evidence_matches w (hint_files h))"
    using assms(5) by (cases hint) auto
  show ?thesis
    unfolding check_task_def using n t by (simp add: assms(1) g Let_def)
qed

text \<open>
  The test of the hint comes before the record is read: a hint with the status
  \<open>completed\<close> whose evidence holds gives the empty result on either byte order.
\<close>

lemma matching_hint_comes_first:
  "check_task byteorder live
     \<lparr>home = ''/home/u'',
      files = [''/home/u/.sos/tasks/t.task'' \<mapsto>
                 \<lparr>st_mtime = 5, content = completed_record\<rparr>]\<rparr>
     ''t''
     (Some \<lparr>hint_status = ''completed'', hint_files = [(''/home/u/.sos/tasks/t.task'', 5)]\<rparr>)
   = Inr Unchanged"
  by (simp add: check_task_def evidence_matches_def)

text \<open>
  On a host that stores the low byte first, \<open>_get_status\<close> reads the four bytes of a
  status \<open>v\<close> as \<open>v * 2^24\<close>, which is a member of \<open>TaskStatus\<close> for no status but \<open>new\<close>:
  whenever the probe gets as far as a record whose status is not \<open>new\<close>, it raises.
\<close>

lemma terminal_status_little_endian:
  assumes "files w (task_path w task ''.task'') = Some tf"
    and "header_size \<le> length (content tf)"
    and "status (header_of (content tf)) = status_value s"
    and "s \<noteq> new"
    and "case hint of None \<Rightarrow> True
         | Some h \<Rightarrow> hint_status h \<in> {''pending'', ''running''}
                     \<or> \<not> evidence_matches w (hint_files h)"
  shows "check_task Little live w task hint = Inl (ValueError ''not a valid TaskStatus'')"
proof -
  have g: "get_status_fh Little (content tf) = Inl (ValueError ''not a valid TaskStatus'')"
    by (rule get_status_little [OF assms(2,3,4)])
  have n: "\<not> (case hint of None \<Rightarrow> False
          | Some h \<Rightarrow> hint_status h \<notin> {''pending'', ''running''}
                      \<and> evidence_matches w (hint_files h))"
    using assms(5) by (cases hint) auto
  show ?thesis
    unfolding check_task_def using n by (simp add: assms(1) g Let_def)
qed

text \<open>
  Claim C4 fails on the code. The header is written in network byte order
  (\<^verbatim>\<open>header_fmt = '!2i 128s 8d 6i'\<close>) and \<open>_read_header\<close> reads it so, but \<open>_get_status\<close>,
  which the probe uses, unpacks the status with the format \<^verbatim>\<open>'i'\<close>, the byte order of the
  host. The task file is the \<open>completed\<close> example record and the hint is empty. On a host
  that stores the low byte first the status bytes \<open>00 00 00 06\<close> are read as 100663296,
  \<open>TaskStatus(100663296)\<close> raises ValueError, and so does \<open>check_task\<close>, which the claim
  says returns \<open>completed\<close> with the task file and its modification time; on a host that
  stores the high byte first it returns just that.
\<close>

theorem terminal_status_native_order:
  "status (header_of completed_record) = status_value completed
   \<and> check_task Little live
        \<lparr>home = ''/home/u'',
         files = [''/home/u/.sos/tasks/t.task'' \<mapsto>
                    \<lparr>st_mtime = 5, content = completed_record\<rparr>]\<rparr>
        ''t'' None
      = Inl (ValueError ''not a valid TaskStatus'')
   \<and> check_task Big live
        \<lparr>home = ''/home/u'',
         files = [''/home/u/.sos/tasks/t.task'' \<mapsto>
                    \<lparr>st_mtime = 5, content = completed_record\<rparr>]\<rparr>
        ''t'' None
      = Inr (Probe ''completed'' [(''/home/u/.sos/tasks/t.task'', 5)])"
proof -
  have l: "header_size \<le> length completed_record"
    by (simp add: completed_record_def header_size_def)
  have s: "status (header_of completed_record) = status_value completed"
    by (simp add: header_of_completed_record)
  have "get_status_fh Little completed_record = Inl (ValueError ''not a valid TaskStatus'')"
    by (rule get_status_little [OF l s]) simp
  moreover have "get_status_fh Big completed_record = Inr (status_name completed)"
    by (rule get_status_big [OF l s])
  ultimately show ?thesis
    using s by (simp add: check_task_def task_path_example)
qed


section \<open>The master task\<close>

lemma merge_key_walltime:
  "merge_key H nw len ''walltime'' v0 m =
     (case expand_time H v0 of
        Inl e \<Rightarrow> Inl e
      | Inr t \<Rightarrow> Inr (m(''walltime'' \<mapsto> format_HHMMSS H (nrow nw len * t))))"
  by (simp add: merge_key_def)

lemma merge_key_mem:
  "merge_key H nw len ''mem'' v0 m =
     (case expand_size H v0 of
           Inl e \<Rightarrow> Inl e
         | Inr sz \<Rightarrow>
             if nw > 0 then
               (case expand_size H (PStr ''100M'') of
                  Inl e \<Rightarrow> Inl e
                | Inr extra \<Rightarrow> Inr (m(''mem'' \<mapsto> PInt (ncol nw len * sz + extra))))
             else Inr (m(''mem'' \<mapsto> PInt (ncol nw len * sz + 0))))"
  by (simp add: merge_key_def)

lemma merge_key_cores:
  "merge_key H nw len ''cores'' v0 m =
     (case v0 of
           PInt c \<Rightarrow> Inr (m(''cores'' \<mapsto> PInt (ncol nw len * c + (if nw > 0 then 1 else 0))))
         | PStr s \<Rightarrow> Inl TypeError)"
  by (simp add: merge_key_def)

lemma merge_key_name:
  "merge_key H nw len ''name'' v0 m =
     Inr (m(''name'' \<mapsto> PStr (str_val v0 @ ''_'' @ str_int (int len + 1))))"
  by (simp add: merge_key_def)

lemma merge_key_else:
  "k \<noteq> ''walltime'' \<Longrightarrow> k \<noteq> ''mem'' \<Longrightarrow> k \<noteq> ''cores'' \<Longrightarrow> k \<noteq> ''name'' \<Longrightarrow>
   merge_key H nw len k v0 m = Inr m"
  by (simp add: merge_key_def)

lemma merge_key_cases:
  obtains "k = ''walltime''" | "k = ''mem''" | "k = ''cores''" | "k = ''name''"
  | "k \<noteq> ''walltime''" "k \<noteq> ''mem''" "k \<noteq> ''cores''" "k \<noteq> ''name''"
  by blast

lemma merge_key_other:
  assumes "merge_key H nw len k v0 m = Inr m'" "j \<noteq> k"
  shows "m' j = m j"
proof (cases k rule: merge_key_cases)
  case 1
  with assms show ?thesis
    by (cases "expand_time H v0") (auto simp: merge_key_walltime)
next
  case 2
  show ?thesis
  proof (cases "expand_size H v0")
    case (Inl e)
    with assms 2 show ?thesis by (simp add: merge_key_mem)
  next
    case (Inr sz)
    show ?thesis
    proof (cases "expand_size H (PStr ''100M'')")
      case (Inl e)
      with assms 2 Inr show ?thesis by (auto simp: merge_key_mem split: if_splits)
    next
      case (Inr extra)
      with assms 2 \<open>expand_size H v0 = Inr sz\<close> show ?thesis
        by (auto simp: merge_key_mem split: if_splits)
    qed
  qed
next
  case 3
  with assms show ?thesis by (cases v0) (auto simp: merge_key_cores)
next
  case 4
  with assms show ?thesis by (auto simp: merge_key_name)
next
  case 5
  with assms show ?thesis by (simp add: merge_key_else)
qed


lemma merge_key_ok:
  assumes "resources_ok H nw rt0" "rt0 k = Some v0"
  shows "\<exists>m'. merge_key H nw len k v0 m = Inr m'"
proof (cases k rule: merge_key_cases)
  case 1
  with assms have "\<not> isl (expand_time H v0)" by (simp add: resources_ok_def)
  then obtain t where "expand_time H v0 = Inr t" by (cases "expand_time H v0") simp_all
  with 1 show ?thesis by (simp add: merge_key_walltime)
next
  case 2
  with assms have a: "\<not> isl (expand_size H v0)"
    and b: "nw > 0 \<longrightarrow> \<not> isl (expand_size H (PStr ''100M''))"
    by (simp_all add: resources_ok_def)
  from a obtain sz where sz: "expand_size H v0 = Inr sz"
    by (cases "expand_size H v0") simp_all
  show ?thesis
  proof (cases "nw > 0")
    case True
    with b obtain extra where "expand_size H (PStr ''100M'') = Inr extra"
      by (cases "expand_size H (PStr ''100M'')") simp_all
    with 2 sz True show ?thesis by (simp add: merge_key_mem)
  next
    case False
    with 2 sz show ?thesis by (simp add: merge_key_mem)
  qed
next
  case 3
  with assms obtain c where "v0 = PInt c"
    by (cases v0) (simp_all add: resources_ok_def)
  with 3 show ?thesis by (simp add: merge_key_cores)
next
  case 4
  then show ?thesis by (simp add: merge_key_name)
next
  case 5
  then show ?thesis by (simp add: merge_key_else)
qed

lemma merge_keys_Cons_neq:
  "rt key \<noteq> rt0 key \<Longrightarrow>
   merge_keys H nw len rt0 rt (key # keys) mrt =
     (Some (ValueError (''All tasks should have the same resource '' @ key)), mrt)"
proof -
  assume "rt key \<noteq> rt0 key"
  then have "rt0 key \<noteq> rt key" by simp
  then show ?thesis by (simp add: Let_def)
qed

lemma merge_keys_Cons_eq_None:
  "rt key = rt0 key \<Longrightarrow> rt0 key = None \<Longrightarrow>
   merge_keys H nw len rt0 rt (key # keys) mrt = merge_keys H nw len rt0 rt keys mrt"
  by (simp add: Let_def)

lemma merge_keys_Cons_eq_Inl:
  "rt key = rt0 key \<Longrightarrow> rt0 key = Some v0 \<Longrightarrow> merge_key H nw len key v0 mrt = Inl e \<Longrightarrow>
   merge_keys H nw len rt0 rt (key # keys) mrt = (Some e, mrt)"
  by (simp add: Let_def)

lemma merge_keys_Cons_eq_Inr:
  "rt key = rt0 key \<Longrightarrow> rt0 key = Some v0 \<Longrightarrow> merge_key H nw len key v0 mrt = Inr m1 \<Longrightarrow>
   merge_keys H nw len rt0 rt (key # keys) mrt = merge_keys H nw len rt0 rt keys m1"
  by (simp add: Let_def)

lemma merge_keys_Cons_None:
  assumes "merge_keys H nw len rt0 rt (key # keys) mrt = (None, mrt')"
  shows "rt key = rt0 key"
    and "rt0 key = None \<Longrightarrow> merge_keys H nw len rt0 rt keys mrt = (None, mrt')"
    and "rt0 key = Some v0 \<Longrightarrow>
           \<exists>m1. merge_key H nw len key v0 mrt = Inr m1 \<and>
                merge_keys H nw len rt0 rt keys m1 = (None, mrt')"
proof -
  show e: "rt key = rt0 key"
  proof (rule ccontr)
    assume "rt key \<noteq> rt0 key"
    then have "merge_keys H nw len rt0 rt (key # keys) mrt =
       (Some (ValueError (''All tasks should have the same resource '' @ key)), mrt)"
      by (rule merge_keys_Cons_neq)
    with assms show False by simp
  qed
  {
    assume n: "rt0 key = None"
    have "merge_keys H nw len rt0 rt (key # keys) mrt = merge_keys H nw len rt0 rt keys mrt"
      using e n by (rule merge_keys_Cons_eq_None)
    with assms show "merge_keys H nw len rt0 rt keys mrt = (None, mrt')" by simp
  }
  {
    assume s: "rt0 key = Some v0"
    show "\<exists>m1. merge_key H nw len key v0 mrt = Inr m1 \<and>
                merge_keys H nw len rt0 rt keys m1 = (None, mrt')"
    proof (cases "merge_key H nw len key v0 mrt")
      case (Inl err)
      have "merge_keys H nw len rt0 rt (key # keys) mrt = (Some err, mrt)"
        using e s Inl by (rule merge_keys_Cons_eq_Inl)
      with assms show ?thesis by simp
    next
      case (Inr m1)
      have "merge_keys H nw len rt0 rt (key # keys) mrt = merge_keys H nw len rt0 rt keys m1"
        using e s Inr by (rule merge_keys_Cons_eq_Inr)
      with assms Inr show ?thesis by simp
    qed
  }
qed

lemma merge_keys_unchanged:
  "merge_keys H nw len rt0 rt keys mrt = (None, mrt') \<Longrightarrow> k \<notin> set keys \<Longrightarrow> mrt' k = mrt k"
proof (induction keys arbitrary: mrt)
  case Nil
  then show ?case by simp
next
  case (Cons key keys)
  note c = merge_keys_Cons_None [OF Cons.prems(1)]
  from Cons.prems(2) have nk: "k \<notin> set keys" "k \<noteq> key" by auto
  show ?case
  proof (cases "rt0 key")
    case None
    from Cons.IH [OF c(2) [OF None] nk(1)] show ?thesis .
  next
    case (Some v0)
    from c(3) [OF Some] obtain m1 where
      m1: "merge_key H nw len key v0 mrt = Inr m1"
          "merge_keys H nw len rt0 rt keys m1 = (None, mrt')"
      by blast
    from Cons.IH [OF m1(2) nk(1)] have "mrt' k = m1 k" .
    also have "m1 k = mrt k" by (rule merge_key_other [OF m1(1) nk(2)])
    finally show ?thesis .
  qed
qed

lemma merge_keys_at:
  assumes "distinct keys" "merge_keys H nw len rt0 rt keys mrt = (None, mrt')"
    "k \<in> set keys" "rt0 k = Some v0"
  shows "\<exists>m m'. merge_key H nw len k v0 m = Inr m' \<and> mrt' k = m' k"
  using assms(1,2,3)
proof (induction keys arbitrary: mrt)
  case Nil
  then show ?case by simp
next
  case (Cons key keys)
  note c = merge_keys_Cons_None [OF Cons.prems(2)]
  have d: "distinct keys" "key \<notin> set keys" using Cons.prems(1) by simp_all
  show ?case
  proof (cases "k = key")
    case True
    from c(3) [of v0] assms(4) True obtain m1 where
      m1: "merge_key H nw len k v0 mrt = Inr m1"
          "merge_keys H nw len rt0 rt keys m1 = (None, mrt')"
      by blast
    have "k \<notin> set keys" using d(2) True by simp
    from merge_keys_unchanged [OF m1(2) this] m1(1) show ?thesis by blast
  next
    case False
    with Cons.prems(3) have k: "k \<in> set keys" by simp
    show ?thesis
    proof (cases "rt0 key")
      case None
      from Cons.IH [OF d(1) c(2) [OF None] k] show ?thesis .
    next
      case (Some u)
      from c(3) [OF Some] obtain m1 where
        "merge_keys H nw len rt0 rt keys m1 = (None, mrt')" by blast
      from Cons.IH [OF d(1) this k] show ?thesis .
    qed
  qed
qed


lemma merge_keys_match:
  assumes "\<forall>k\<in>set keys. rt k = rt0 k" "resources_ok H nw rt0"
  shows "\<exists>mrt'. merge_keys H nw len rt0 rt keys mrt = (None, mrt')"
  using assms(1)
proof (induction keys arbitrary: mrt)
  case Nil
  then show ?case by simp
next
  case (Cons key keys)
  then have e: "rt key = rt0 key" and r: "\<forall>k\<in>set keys. rt k = rt0 k" by simp_all
  show ?case
  proof (cases "rt0 key")
    case None
    have "merge_keys H nw len rt0 rt (key # keys) mrt = merge_keys H nw len rt0 rt keys mrt"
      using e None by (rule merge_keys_Cons_eq_None)
    with Cons.IH [OF r, of mrt] show ?thesis by simp
  next
    case (Some v0)
    from merge_key_ok [OF assms(2) Some, of len mrt] obtain m1 where
      m1: "merge_key H nw len key v0 mrt = Inr m1" by blast
    have "merge_keys H nw len rt0 rt (key # keys) mrt = merge_keys H nw len rt0 rt keys m1"
      using e Some m1 by (rule merge_keys_Cons_eq_Inr)
    with Cons.IH [OF r, of m1] show ?thesis by simp
  qed
qed

lemma merge_keys_mismatch:
  assumes "\<exists>k\<in>set keys. rt k \<noteq> rt0 k"
  shows "fst (merge_keys H nw len rt0 rt keys mrt) \<noteq> None"
  using assms
proof (induction keys arbitrary: mrt)
  case Nil
  then show ?case by simp
next
  case (Cons key keys)
  show ?case
  proof (cases "rt key = rt0 key")
    case False
    then have "merge_keys H nw len rt0 rt (key # keys) mrt =
       (Some (ValueError (''All tasks should have the same resource '' @ key)), mrt)"
      by (rule merge_keys_Cons_neq)
    then show ?thesis by simp
  next
    case True
    with Cons.prems have r: "\<exists>k\<in>set keys. rt k \<noteq> rt0 k" by auto
    show ?thesis
    proof (cases "rt0 key")
      case None
      have "merge_keys H nw len rt0 rt (key # keys) mrt = merge_keys H nw len rt0 rt keys mrt"
        using True None by (rule merge_keys_Cons_eq_None)
      with Cons.IH [OF r, of mrt] show ?thesis by simp
    next
      case (Some v0)
      show ?thesis
      proof (cases "merge_key H nw len key v0 mrt")
        case (Inl e)
        have "merge_keys H nw len rt0 rt (key # keys) mrt = (Some e, mrt)"
          using True Some Inl by (rule merge_keys_Cons_eq_Inl)
        then show ?thesis by simp
      next
        case (Inr m1)
        have "merge_keys H nw len rt0 rt (key # keys) mrt = merge_keys H nw len rt0 rt keys m1"
          using True Some Inr by (rule merge_keys_Cons_eq_Inr)
        with Cons.IH [OF r, of m1] show ?thesis by simp
      qed
    qed
  qed
qed

lemma merge_keys_mismatch_error:
  assumes "\<exists>k\<in>set keys. rt k \<noteq> rt0 k" "resources_ok H nw rt0"
  shows "\<exists>k\<in>set keys. rt k \<noteq> rt0 k \<and>
           fst (merge_keys H nw len rt0 rt keys mrt)
             = Some (ValueError (''All tasks should have the same resource '' @ k))"
  using assms(1)
proof (induction keys arbitrary: mrt)
  case Nil
  then show ?case by simp
next
  case (Cons key keys)
  show ?case
  proof (cases "rt key = rt0 key")
    case False
    then have "merge_keys H nw len rt0 rt (key # keys) mrt =
       (Some (ValueError (''All tasks should have the same resource '' @ key)), mrt)"
      by (rule merge_keys_Cons_neq)
    then have "fst (merge_keys H nw len rt0 rt (key # keys) mrt)
            = Some (ValueError (''All tasks should have the same resource '' @ key))"
      by (simp only: fst_conv)
    with False show ?thesis by (intro bexI [of _ key]) simp_all
  next
    case True
    with Cons.prems have r: "\<exists>k\<in>set keys. rt k \<noteq> rt0 k" by auto
    have "\<exists>m1. merge_keys H nw len rt0 rt (key # keys) mrt = merge_keys H nw len rt0 rt keys m1"
    proof (cases "rt0 key")
      case None
      have "merge_keys H nw len rt0 rt (key # keys) mrt = merge_keys H nw len rt0 rt keys mrt"
        using True None by (rule merge_keys_Cons_eq_None)
      then show ?thesis by blast
    next
      case (Some v0)
      from merge_key_ok [OF assms(2) Some, of len mrt] obtain m1 where
        m1: "merge_key H nw len key v0 mrt = Inr m1" by blast
      have "merge_keys H nw len rt0 rt (key # keys) mrt = merge_keys H nw len rt0 rt keys m1"
        using True Some m1 by (rule merge_keys_Cons_eq_Inr)
      then show ?thesis by blast
    qed
    then obtain m1 where
      m1: "merge_keys H nw len rt0 rt (key # keys) mrt = merge_keys H nw len rt0 rt keys m1"
      by blast
    from Cons.IH [OF r, of m1] obtain k where
      k: "k \<in> set keys" "rt k \<noteq> rt0 k"
      "fst (merge_keys H nw len rt0 rt keys m1)
             = Some (ValueError (''All tasks should have the same resource '' @ k))"
      by blast
    have "fst (merge_keys H nw len rt0 rt (key # keys) mrt)
             = Some (ValueError (''All tasks should have the same resource '' @ k))"
      by (simp only: m1 k(3))
    with k(1,2) show ?thesis by (intro bexI [of _ k]) simp_all
  qed
qed

lemma distinct_identity_keys: "distinct identity_keys"
  by (simp add: identity_keys_def)


lemma push_first:
  assumes "task_stack m = []" "tags_attr params = Some tgs"
  shows "\<exists>m'. push H tid params m = (None, m')
           \<and> task_stack m' = [(tid, params)]
           \<and> num_workers m' = num_workers m
           \<and> tags_attr m' = Some (sort (remdups tgs))
           \<and> runtime (sos_dict m') =
                copy_keys first_keys (runtime (sos_dict params)) (runtime (sos_dict m))"
  using assms by (simp add: push_def Let_def)

lemma push_later:
  assumes "task_stack m \<noteq> []"
    and "merge_keys H (num_workers m) (length (task_stack m))
           (runtime (sos_dict (snd (hd (task_stack m))))) (runtime (sos_dict params))
           identity_keys (runtime (sos_dict m)) = (None, mrt')"
    and "tags_attr m = Some own" "tags_attr params = Some tgs"
  shows "\<exists>m'. push H tid params m = (None, m')
           \<and> task_stack m' = task_stack m @ [(tid, params)]
           \<and> num_workers m' = num_workers m
           \<and> tags_attr m' = Some (sort (remdups (own @ tgs)))
           \<and> runtime (sos_dict m') = mrt'"
  using assms by (simp add: push_def Let_def)

lemma push_raises:
  assumes "task_stack m \<noteq> []"
    and "fst (merge_keys H (num_workers m) (length (task_stack m))
           (runtime (sos_dict (snd (hd (task_stack m))))) (runtime (sos_dict params))
           identity_keys (runtime (sos_dict m))) = Some e"
  shows "fst (push H tid params m) = Some e"
proof -
  obtain r mrt where r: "merge_keys H (num_workers m) (length (task_stack m))
           (runtime (sos_dict (snd (hd (task_stack m))))) (runtime (sos_dict params))
           identity_keys (runtime (sos_dict m)) = (r, mrt)"
    by (cases "merge_keys H (num_workers m) (length (task_stack m))
           (runtime (sos_dict (snd (hd (task_stack m))))) (runtime (sos_dict params))
           identity_keys (runtime (sos_dict m))")
  with assms(2) have "r = Some e" by simp
  with r assms(1) show ?thesis by (simp add: push_def Let_def)
qed


lemma push_all_append:
  "push_all H (ts @ us) m =
     (case push_all H ts m of (Some e, m') \<Rightarrow> (Some e, m') | (None, m') \<Rightarrow> push_all H us m')"
proof (induction ts arbitrary: m)
  case Nil
  show ?case by (cases "push_all H us m") (auto split: option.splits)
next
  case (Cons t ts)
  obtain i p where t: "t = (i, p)" by (cases t)
  show ?case
  proof (cases "push H i p m")
    case (Pair r m1)
    show ?thesis
    proof (cases r)
      case None
      with Pair t Cons.IH [of m1] show ?thesis by simp
    next
      case (Some e)
      with Pair t show ?thesis by simp
    qed
  qed
qed

lemma push_match:
  assumes "task_stack m \<noteq> []"
    and "\<forall>k\<in>set identity_keys.
           runtime (sos_dict p) k = runtime (sos_dict (snd (hd (task_stack m)))) k"
    and "resources_ok H (num_workers m) (runtime (sos_dict (snd (hd (task_stack m)))))"
    and "tags_attr m \<noteq> None" "tags_attr p \<noteq> None"
  shows "\<exists>m'. push H i p m = (None, m')
           \<and> task_stack m' = task_stack m @ [(i, p)]
           \<and> num_workers m' = num_workers m
           \<and> tags_attr m' \<noteq> None
           \<and> merge_keys H (num_workers m) (length (task_stack m))
                (runtime (sos_dict (snd (hd (task_stack m))))) (runtime (sos_dict p))
                identity_keys (runtime (sos_dict m)) = (None, runtime (sos_dict m'))"
proof -
  from merge_keys_match [OF assms(2,3)] obtain mrt' where
    mk: "merge_keys H (num_workers m) (length (task_stack m))
           (runtime (sos_dict (snd (hd (task_stack m))))) (runtime (sos_dict p))
           identity_keys (runtime (sos_dict m)) = (None, mrt')"
    by blast
  from assms(4,5) obtain own tgs where t: "tags_attr m = Some own" "tags_attr p = Some tgs"
    by auto
  from push_later [OF assms(1) mk t, of i] obtain m' where
    "push H i p m = (None, m')" "task_stack m' = task_stack m @ [(i, p)]"
    "num_workers m' = num_workers m" "tags_attr m' = Some (sort (remdups (own @ tgs)))"
    "runtime (sos_dict m') = mrt'"
    by blast
  with mk show ?thesis by auto
qed

lemma push_all_match:
  assumes "task_stack m \<noteq> []"
    and "resources_ok H (num_workers m) (runtime (sos_dict (snd (hd (task_stack m)))))"
    and "tags_attr m \<noteq> None"
  shows "\<forall>(i, p)\<in>set ts.
           (\<forall>k\<in>set identity_keys.
              runtime (sos_dict p) k = runtime (sos_dict (snd (hd (task_stack m)))) k)
           \<and> tags_attr p \<noteq> None \<Longrightarrow>
         \<exists>m'. push_all H ts m = (None, m')
           \<and> task_stack m' = task_stack m @ ts
           \<and> num_workers m' = num_workers m
           \<and> tags_attr m' \<noteq> None"
proof (induction ts rule: rev_induct)
  case Nil
  with assms show ?case by simp
next
  case (snoc t ts)
  obtain i p where t: "t = (i, p)" by (cases t)
  from snoc.prems have pre: "\<forall>(i, p)\<in>set ts.
           (\<forall>k\<in>set identity_keys.
              runtime (sos_dict p) k = runtime (sos_dict (snd (hd (task_stack m)))) k)
           \<and> tags_attr p \<noteq> None"
    by simp
  from snoc.IH [OF pre] obtain m1 where
    m1: "push_all H ts m = (None, m1)" "task_stack m1 = task_stack m @ ts"
        "num_workers m1 = num_workers m" "tags_attr m1 \<noteq> None"
    by blast
  have ne: "task_stack m1 \<noteq> []" using m1(2) assms(1) by simp
  have hd: "hd (task_stack m1) = hd (task_stack m)" using m1(2) assms(1) by simp
  from snoc.prems t have p: "\<forall>k\<in>set identity_keys.
           runtime (sos_dict p) k = runtime (sos_dict (snd (hd (task_stack m1)))) k"
    "tags_attr p \<noteq> None"
    by (simp_all add: hd)
  have ok: "resources_ok H (num_workers m1) (runtime (sos_dict (snd (hd (task_stack m1)))))"
    using assms(2) by (simp add: hd m1(3))
  from push_match [OF ne p(1) ok m1(4) p(2), of i] obtain m' where
    m': "push H i p m1 = (None, m')" "task_stack m' = task_stack m1 @ [(i, p)]"
        "num_workers m' = num_workers m1" "tags_attr m' \<noteq> None"
    by blast
  have "push_all H (ts @ [t]) m = (None, m')"
    by (simp add: push_all_append m1(1) t m'(1))
  with m' m1 t show ?case by simp
qed


lemma grid_five_two: "nrow 2 4 = 3" "ncol 2 4 = 2"
  by (simp_all add: nrow_def ncol_def)

section \<open>Batch resource arithmetic (claim C7)\<close>

text \<open>
  Claim C7. Five tasks are pushed into a master made with \<open>num_workers = 2\<close>. Each has 2
  cores and the same walltime, which \<open>expand_time\<close> reads as 3600 seconds; all agree with
  the first on the identity keys, have their tags, and have well-formed resource values.
  Then no push raises, the master holds five tasks, and its request is
  \<open>2 * 2 + 1 = 5\<close> cores and a walltime of \<open>format_HHMMSS (3 * 3600)\<close>: at the fifth push
  the grid has \<open>3\<close> rows and \<open>2\<close> columns.
\<close>

theorem five_tasks_two_workers:
  assumes "\<forall>p\<in>set [p2, p3, p4, p5].
             (\<forall>k\<in>set identity_keys. runtime (sos_dict p) k = runtime (sos_dict p1) k)
             \<and> tags_attr p \<noteq> None"
    and "tags_attr p1 \<noteq> None"
    and "runtime (sos_dict p1) ''cores'' = Some (PInt 2)"
    and "runtime (sos_dict p1) ''walltime'' = Some wt"
    and "expand_time H wt = Inr 3600"
    and "resources_ok H 2 (runtime (sos_dict p1))"
  shows "\<exists>m. push_all H [(i1, p1), (i2, p2), (i3, p3), (i4, p4), (i5, p5)]
               (MasterTaskParams_init 2) = (None, m)
           \<and> num_tasks m = 5
           \<and> runtime (sos_dict m) ''cores'' = Some (PInt (2 * 2 + 1))
           \<and> runtime (sos_dict m) ''walltime'' = Some (format_HHMMSS H (3 * 3600))
           \<and> nrow 2 4 = 3 \<and> ncol 2 4 = 2"
proof -
  let ?init = "MasterTaskParams_init 2"
  let ?first = "runtime (sos_dict p1)"
  have m0: "task_stack ?init = []" "num_workers ?init = 2"
    by (simp_all add: MasterTaskParams_init_def)
  from assms(2) obtain t1 where t1: "tags_attr p1 = Some t1" by auto
  from push_first [OF m0(1) t1, of H i1] obtain m1 where
    m1: "push H i1 p1 ?init = (None, m1)" "task_stack m1 = [(i1, p1)]"
        "num_workers m1 = 2" "tags_attr m1 = Some (sort (remdups t1))"
    by (auto simp: m0(2))
  have ne1: "task_stack m1 \<noteq> []" by (simp add: m1(2))
  have hd1: "snd (hd (task_stack m1)) = p1" by (simp add: m1(2))
  have ok1: "resources_ok H (num_workers m1) (runtime (sos_dict (snd (hd (task_stack m1)))))"
    using assms(6) by (simp add: m1(3) hd1)
  have tg1: "tags_attr m1 \<noteq> None" by (simp add: m1(4))
  have pre: "\<forall>(i, p)\<in>set [(i2, p2), (i3, p3), (i4, p4)].
           (\<forall>k\<in>set identity_keys.
              runtime (sos_dict p) k = runtime (sos_dict (snd (hd (task_stack m1)))) k)
           \<and> tags_attr p \<noteq> None"
    using assms(1) by (simp add: hd1)
  from push_all_match [OF ne1 ok1 tg1 pre] obtain m4 where
    m4: "push_all H [(i2, p2), (i3, p3), (i4, p4)] m1 = (None, m4)"
        "task_stack m4 = task_stack m1 @ [(i2, p2), (i3, p3), (i4, p4)]"
        "num_workers m4 = num_workers m1" "tags_attr m4 \<noteq> None"
    by blast
  have ne4: "task_stack m4 \<noteq> []" by (simp add: m4(2))
  have hd4: "snd (hd (task_stack m4)) = p1" by (simp add: m4(2) m1(2))
  have len4: "length (task_stack m4) = 4" by (simp add: m4(2) m1(2))
  have nw4: "num_workers m4 = 2" by (simp add: m4(3) m1(3))
  have p5: "\<forall>k\<in>set identity_keys.
           runtime (sos_dict p5) k = runtime (sos_dict (snd (hd (task_stack m4)))) k"
    "tags_attr p5 \<noteq> None"
    using assms(1) by (simp_all add: hd4)
  have ok4: "resources_ok H (num_workers m4) (runtime (sos_dict (snd (hd (task_stack m4)))))"
    using assms(6) by (simp add: nw4 hd4)
  from push_match [OF ne4 p5(1) ok4 m4(4) p5(2), of i5] obtain m5 where
    m5: "push H i5 p5 m4 = (None, m5)" "task_stack m5 = task_stack m4 @ [(i5, p5)]"
        "merge_keys H 2 4 ?first (runtime (sos_dict p5)) identity_keys (runtime (sos_dict m4))
           = (None, runtime (sos_dict m5))"
    by (auto simp: nw4 len4 hd4)
  have run: "push_all H [(i1, p1), (i2, p2), (i3, p3), (i4, p4), (i5, p5)] ?init = (None, m5)"
  proof -
    have "push_all H ([(i2, p2), (i3, p3), (i4, p4)] @ [(i5, p5)]) m1 = (None, m5)"
      by (simp only: push_all_append m4(1)) (simp add: m5(1))
    then show ?thesis by (simp add: m1(1))
  qed
  have n5: "num_tasks m5 = 5" by (simp add: num_tasks_def m5(2) len4)
  have kc: "''cores'' \<in> set identity_keys" and kw: "''walltime'' \<in> set identity_keys"
    by (simp_all add: identity_keys_def)
  from merge_keys_at [OF distinct_identity_keys m5(3) kc assms(3)] obtain a a' where
    a: "merge_key H 2 4 ''cores'' (PInt 2) a = Inr a'"
       "runtime (sos_dict m5) ''cores'' = a' ''cores''"
    by blast
  from a(1) have "a' ''cores'' = Some (PInt (2 * 2 + 1))"
    by (auto simp: merge_key_cores grid_five_two)
  with a(2) have c: "runtime (sos_dict m5) ''cores'' = Some (PInt (2 * 2 + 1))" by simp
  from merge_keys_at [OF distinct_identity_keys m5(3) kw assms(4)] obtain b b' where
    b: "merge_key H 2 4 ''walltime'' wt b = Inr b'"
       "runtime (sos_dict m5) ''walltime'' = b' ''walltime''"
    by blast
  from b(1) have "b' ''walltime'' = Some (format_HHMMSS H (3 * 3600))"
    by (auto simp: merge_key_walltime assms(5) grid_five_two)
  with b(2) have w: "runtime (sos_dict m5) ''walltime'' = Some (format_HHMMSS H (3 * 3600))"
    by simp
  from run n5 c w grid_five_two show ?thesis by blast
qed

theorem five_tasks_two_workers_witness:
  "\<exists>m. push_all
         \<lparr>expand_time = (\<lambda>v. if v = PStr ''1h'' then Inr 3600 else Inl (ValueError ''time'')),
          expand_size = (\<lambda>v. Inl (ValueError ''size'')),
          format_HHMMSS = PInt, has_item = (\<lambda>t x. False)\<rparr>
         [(''a'', \<lparr>name = ''t'', global_def = [], task_text = [], 
          raw_dict = \<lparr>runtime = [''cores'' \<mapsto> PInt 2, ''walltime'' \<mapsto> PStr ''1h''],
                      step_name = ''s'', d_input = Some [''in.txt''], d_output = None,
                      d_depends = None\<rparr>,
          sos_dict = \<lparr>runtime = [''cores'' \<mapsto> PInt 2, ''walltime'' \<mapsto> PStr ''1h''],
                      step_name = ''s'', d_input = Some [''in.txt''], d_output = None,
                      d_depends = None\<rparr>,
          tags_attr = Some []\<rparr>),
          (''b'', \<lparr>name = ''t'', global_def = [], task_text = [], 
          raw_dict = \<lparr>runtime = [''cores'' \<mapsto> PInt 2, ''walltime'' \<mapsto> PStr ''1h''],
                      step_name = ''s'', d_input = Some [''in.txt''], d_output = None,
                      d_depends = None\<rparr>,
          sos_dict = \<lparr>runtime = [''cores'' \<mapsto> PInt 2, ''walltime'' \<mapsto> PStr ''1h''],
                      step_name = ''s'', d_input = Some [''in.txt''], d_output = None,
                      d_depends = None\<rparr>,
          tags_attr = Some []\<rparr>),
          (''c'', \<lparr>name = ''t'', global_def = [], task_text = [], 
          raw_dict = \<lparr>runtime = [''cores'' \<mapsto> PInt 2, ''walltime'' \<mapsto> PStr ''1h''],
                      step_name = ''s'', d_input = Some [''in.txt''], d_output = None,
                      d_depends = None\<rparr>,
          sos_dict = \<lparr>runtime = [''cores'' \<mapsto> PInt 2, ''walltime'' \<mapsto> PStr ''1h''],
                      step_name = ''s'', d_input = Some [''in.txt''], d_output = None,
                      d_depends = None\<rparr>,
          tags_attr = Some []\<rparr>),
          (''d'', \<lparr>name = ''t'', global_def = [], task_text = [], 
          raw_dict = \<lparr>runtime = [''cores'' \<mapsto> PInt 2, ''walltime'' \<mapsto> PStr ''1h''],
                      step_name = ''s'', d_input = Some [''in.txt''], d_output = None,
                      d_depends = None\<rparr>,
          sos_dict = \<lparr>runtime = [''cores'' \<mapsto> PInt 2, ''walltime'' \<mapsto> PStr ''1h''],
                      step_name = ''s'', d_input = Some [''in.txt''], d_output = None,
                      d_depends = None\<rparr>,
          tags_attr = Some []\<rparr>),
          (''e'', \<lparr>name = ''t'', global_def = [], task_text = [], 
          raw_dict = \<lparr>runtime = [''cores'' \<mapsto> PInt 2, ''walltime'' \<mapsto> PStr ''1h''],
                      step_name = ''s'', d_input = Some [''in.txt''], d_output = None,
                      d_depends = None\<rparr>,
          sos_dict = \<lparr>runtime = [''cores'' \<mapsto> PInt 2, ''walltime'' \<mapsto> PStr ''1h''],
                      step_name = ''s'', d_input = Some [''in.txt''], d_output = None,
                      d_depends = None\<rparr>,
          tags_attr = Some []\<rparr>)]
         (MasterTaskParams_init 2) = (None, m)
       \<and> runtime (sos_dict m) ''cores'' = Some (PInt 5)
       \<and> runtime (sos_dict m) ''walltime'' = Some (PInt 10800)"
proof -
  let ?p = "\<lparr>name = ''t'', global_def = [], task_text = [], 
          raw_dict = \<lparr>runtime = [''cores'' \<mapsto> PInt 2, ''walltime'' \<mapsto> PStr ''1h''],
                      step_name = ''s'', d_input = Some [''in.txt''], d_output = None,
                      d_depends = None\<rparr>,
          sos_dict = \<lparr>runtime = [''cores'' \<mapsto> PInt 2, ''walltime'' \<mapsto> PStr ''1h''],
                      step_name = ''s'', d_input = Some [''in.txt''], d_output = None,
                      d_depends = None\<rparr>,
          tags_attr = Some []\<rparr>"
  let ?H = "\<lparr>expand_time = (\<lambda>v. if v = PStr ''1h'' then Inr 3600 else Inl (ValueError ''time'')),
          expand_size = (\<lambda>v. Inl (ValueError ''size'')),
          format_HHMMSS = PInt, has_item = (\<lambda>t x. False)\<rparr>"
  have 1: "\<forall>p\<in>set [?p, ?p, ?p, ?p].
             (\<forall>k\<in>set identity_keys. runtime (sos_dict p) k = runtime (sos_dict ?p) k)
             \<and> tags_attr p \<noteq> None"
    by simp
  have 2: "tags_attr ?p \<noteq> None" by simp
  have 3: "runtime (sos_dict ?p) ''cores'' = Some (PInt 2)" by simp
  have 4: "runtime (sos_dict ?p) ''walltime'' = Some (PStr ''1h'')" by simp
  have 5: "expand_time ?H (PStr ''1h'') = Inr 3600" by simp
  have 6: "resources_ok ?H 2 (runtime (sos_dict ?p))" by (simp add: resources_ok_def)
  from five_tasks_two_workers [OF 1 2 3 4 5 6, of "''a''" "''b''" "''c''" "''d''" "''e''"]
  obtain m where
    a: "push_all ?H [(''a'', ?p), (''b'', ?p), (''c'', ?p), (''d'', ?p), (''e'', ?p)]
          (MasterTaskParams_init 2) = (None, m)"
    and b: "runtime (sos_dict m) ''cores'' = Some (PInt (2 * 2 + 1))"
    and c: "runtime (sos_dict m) ''walltime'' = Some (format_HHMMSS ?H (3 * 3600))"
    by blast
  from b have b': "runtime (sos_dict m) ''cores'' = Some (PInt 5)" by simp
  from c have c': "runtime (sos_dict m) ''walltime'' = Some (PInt 10800)" by simp
  from a b' c' show ?thesis by blast
qed

section \<open>Mismatched batch resources (claim C8)\<close>

text \<open>
  Claim C8, as the code has it. The master holds at least one task. A push whose task
  carries, for some identity key, a defined value that is not the value of the first task
  of the stack raises; when the resource values of the first task are well-formed (the
  number of cores is an integer, \<open>expand_time\<close> accepts the walltime, \<open>expand_size\<close>
  accepts the memory and, where there are workers, \<open>100M\<close>), what it raises is the
  ValueError \<open>All tasks should have the same resource\<close> for a key on which the two tasks
  differ. A push whose task agrees with the first task on every identity key does not
  raise when the resource values of the first task are well-formed and the master and the
  task have their \<open>tags\<close> attribute.
\<close>

theorem push_identity_keys:
  assumes "task_stack m \<noteq> []"
  shows "((\<exists>k\<in>set identity_keys. \<exists>v.
             runtime (sos_dict params) k = Some v
             \<and> runtime (sos_dict (snd (hd (task_stack m)))) k \<noteq> Some v) \<longrightarrow>
          fst (push H task_id params m) \<noteq> None
          \<and> (resources_ok H (num_workers m) (runtime (sos_dict (snd (hd (task_stack m))))) \<longrightarrow>
               (\<exists>k\<in>set identity_keys.
                  runtime (sos_dict params) k \<noteq> runtime (sos_dict (snd (hd (task_stack m)))) k
                  \<and> fst (push H task_id params m)
                      = Some (ValueError (''All tasks should have the same resource '' @ k)))))
       \<and> ((\<forall>k\<in>set identity_keys.
             runtime (sos_dict params) k = runtime (sos_dict (snd (hd (task_stack m)))) k)
           \<and> resources_ok H (num_workers m) (runtime (sos_dict (snd (hd (task_stack m)))))
           \<and> tags_attr m \<noteq> None \<and> tags_attr params \<noteq> None \<longrightarrow>
          fst (push H task_id params m) = None)"
proof (intro conjI impI)
  let ?first = "runtime (sos_dict (snd (hd (task_stack m))))"
  let ?pushed = "runtime (sos_dict params)"
  assume "\<exists>k\<in>set identity_keys. \<exists>v. ?pushed k = Some v \<and> ?first k \<noteq> Some v"
  then have mis: "\<exists>k\<in>set identity_keys. ?pushed k \<noteq> ?first k" by force
  have "fst (merge_keys H (num_workers m) (length (task_stack m)) ?first ?pushed identity_keys
            (runtime (sos_dict m))) \<noteq> None"
    using mis by (rule merge_keys_mismatch)
  then obtain e where
    "fst (merge_keys H (num_workers m) (length (task_stack m)) ?first ?pushed identity_keys
            (runtime (sos_dict m))) = Some e"
    by blast
  then have "fst (push H task_id params m) = Some e"
    using assms by (intro push_raises)
  then show "fst (push H task_id params m) \<noteq> None" by simp
  assume ok: "resources_ok H (num_workers m) ?first"
  have "\<exists>k\<in>set identity_keys. ?pushed k \<noteq> ?first k \<and>
           fst (merge_keys H (num_workers m) (length (task_stack m)) ?first ?pushed identity_keys
                  (runtime (sos_dict m)))
             = Some (ValueError (''All tasks should have the same resource '' @ k))"
    using mis ok by (rule merge_keys_mismatch_error)
  then obtain k where
    k: "k \<in> set identity_keys" "?pushed k \<noteq> ?first k"
       "fst (merge_keys H (num_workers m) (length (task_stack m)) ?first ?pushed identity_keys
            (runtime (sos_dict m)))
          = Some (ValueError (''All tasks should have the same resource '' @ k))"
    by blast
  have "fst (push H task_id params m)
          = Some (ValueError (''All tasks should have the same resource '' @ k))"
    using assms k(3) by (intro push_raises)
  with k(1,2)
  show "\<exists>k\<in>set identity_keys. ?pushed k \<noteq> ?first k
          \<and> fst (push H task_id params m)
               = Some (ValueError (''All tasks should have the same resource '' @ k))"
    by blast
next
  let ?first = "runtime (sos_dict (snd (hd (task_stack m))))"
  let ?pushed = "runtime (sos_dict params)"
  assume a: "(\<forall>k\<in>set identity_keys. ?pushed k = ?first k)
           \<and> resources_ok H (num_workers m) ?first
           \<and> tags_attr m \<noteq> None \<and> tags_attr params \<noteq> None"
  then have 1: "\<forall>k\<in>set identity_keys. ?pushed k = ?first k"
    and 2: "resources_ok H (num_workers m) ?first"
    and 3: "tags_attr m \<noteq> None" and 4: "tags_attr params \<noteq> None"
    by blast+
  from push_match [OF assms 1 2 3 4, of task_id] show "fst (push H task_id params m) = None"
    by auto
qed

theorem push_identity_keys_witness:
  "fst (push \<lparr>expand_time = (\<lambda>v. if v = PStr ''1h'' then Inr 3600 else Inl (ValueError ''time'')),
          expand_size = (\<lambda>v. Inl (ValueError ''size'')),
          format_HHMMSS = PInt, has_item = (\<lambda>t x. False)\<rparr>
         ''b''
         \<lparr>name = ''t'', global_def = [], task_text = [], 
          raw_dict = \<lparr>runtime = [''cores'' \<mapsto> PInt 4, ''walltime'' \<mapsto> PStr ''1h''],
                      step_name = ''s'', d_input = Some [''in.txt''], d_output = None,
                      d_depends = None\<rparr>,
          sos_dict = \<lparr>runtime = [''cores'' \<mapsto> PInt 4, ''walltime'' \<mapsto> PStr ''1h''],
                      step_name = ''s'', d_input = Some [''in.txt''], d_output = None,
                      d_depends = None\<rparr>,
          tags_attr = Some []\<rparr>
         \<lparr>name = ''M1_a'', global_def = [], task_text = [], raw_dict = empty_dict,
          sos_dict = empty_dict, tags_attr = Some [], ID = ''M1_a'', num_workers = 2,
          task_stack = [(''a'', \<lparr>name = ''t'', global_def = [], task_text = [], 
            raw_dict = \<lparr>runtime = [''cores'' \<mapsto> PInt 2, ''walltime'' \<mapsto> PStr ''1h''],
                        step_name = ''s'', d_input = Some [''in.txt''], d_output = None,
                        d_depends = None\<rparr>,
            sos_dict = \<lparr>runtime = [''cores'' \<mapsto> PInt 2, ''walltime'' \<mapsto> PStr ''1h''],
                        step_name = ''s'', d_input = Some [''in.txt''], d_output = None,
                        d_depends = None\<rparr>,
            tags_attr = Some []\<rparr>)]\<rparr>) \<noteq> None
   \<and> fst (push \<lparr>expand_time = (\<lambda>v. if v = PStr ''1h'' then Inr 3600 else Inl (ValueError ''time'')),
          expand_size = (\<lambda>v. Inl (ValueError ''size'')),
          format_HHMMSS = PInt, has_item = (\<lambda>t x. False)\<rparr>
         ''b''
         \<lparr>name = ''t'', global_def = [], task_text = [], 
          raw_dict = \<lparr>runtime = [''cores'' \<mapsto> PInt 2, ''walltime'' \<mapsto> PStr ''1h''],
                      step_name = ''s'', d_input = Some [''in.txt''], d_output = None,
                      d_depends = None\<rparr>,
          sos_dict = \<lparr>runtime = [''cores'' \<mapsto> PInt 2, ''walltime'' \<mapsto> PStr ''1h''],
                      step_name = ''s'', d_input = Some [''in.txt''], d_output = None,
                      d_depends = None\<rparr>,
          tags_attr = Some []\<rparr>
         \<lparr>name = ''M1_a'', global_def = [], task_text = [], raw_dict = empty_dict,
          sos_dict = empty_dict, tags_attr = Some [], ID = ''M1_a'', num_workers = 2,
          task_stack = [(''a'', \<lparr>name = ''t'', global_def = [], task_text = [], 
            raw_dict = \<lparr>runtime = [''cores'' \<mapsto> PInt 2, ''walltime'' \<mapsto> PStr ''1h''],
                        step_name = ''s'', d_input = Some [''in.txt''], d_output = None,
                        d_depends = None\<rparr>,
            sos_dict = \<lparr>runtime = [''cores'' \<mapsto> PInt 2, ''walltime'' \<mapsto> PStr ''1h''],
                        step_name = ''s'', d_input = Some [''in.txt''], d_output = None,
                        d_depends = None\<rparr>,
            tags_attr = Some []\<rparr>)]\<rparr>) = None"
proof -
  let ?p = "\<lparr>name = ''t'', global_def = [], task_text = [], 
          raw_dict = \<lparr>runtime = [''cores'' \<mapsto> PInt 2, ''walltime'' \<mapsto> PStr ''1h''],
                      step_name = ''s'', d_input = Some [''in.txt''], d_output = None,
                      d_depends = None\<rparr>,
          sos_dict = \<lparr>runtime = [''cores'' \<mapsto> PInt 2, ''walltime'' \<mapsto> PStr ''1h''],
                      step_name = ''s'', d_input = Some [''in.txt''], d_output = None,
                      d_depends = None\<rparr>,
          tags_attr = Some []\<rparr>"
  let ?q = "\<lparr>name = ''t'', global_def = [], task_text = [], 
          raw_dict = \<lparr>runtime = [''cores'' \<mapsto> PInt 4, ''walltime'' \<mapsto> PStr ''1h''],
                      step_name = ''s'', d_input = Some [''in.txt''], d_output = None,
                      d_depends = None\<rparr>,
          sos_dict = \<lparr>runtime = [''cores'' \<mapsto> PInt 4, ''walltime'' \<mapsto> PStr ''1h''],
                      step_name = ''s'', d_input = Some [''in.txt''], d_output = None,
                      d_depends = None\<rparr>,
          tags_attr = Some []\<rparr>"
  let ?H = "\<lparr>expand_time = (\<lambda>v. if v = PStr ''1h'' then Inr 3600 else Inl (ValueError ''time'')),
          expand_size = (\<lambda>v. Inl (ValueError ''size'')),
          format_HHMMSS = PInt, has_item = (\<lambda>t x. False)\<rparr>"
  let ?m = "\<lparr>name = ''M1_a'', global_def = [], task_text = [], raw_dict = empty_dict,
          sos_dict = empty_dict, tags_attr = Some [], ID = ''M1_a'', num_workers = 2,
          task_stack = [(''a'', ?p)]\<rparr>"
  have ne: "task_stack ?m \<noteq> []" by simp
  have mis: "\<exists>k\<in>set identity_keys. \<exists>v.
             runtime (sos_dict ?q) k = Some v
             \<and> runtime (sos_dict (snd (hd (task_stack ?m)))) k \<noteq> Some v"
    by (intro bexI [of _ "''cores''"]) (simp_all add: identity_keys_def)
  have eq: "\<forall>k\<in>set identity_keys.
             runtime (sos_dict ?p) k = runtime (sos_dict (snd (hd (task_stack ?m)))) k"
    by simp
  have ok: "resources_ok ?H (num_workers ?m) (runtime (sos_dict (snd (hd (task_stack ?m)))))"
    by (simp add: resources_ok_def)
  have tg: "tags_attr ?m \<noteq> None" "tags_attr ?p \<noteq> None" by simp_all
  from push_identity_keys [OF ne, of ?q ?H "''b''"] mis
  have 1: "fst (push ?H ''b'' ?q ?m) \<noteq> None" by blast
  from push_identity_keys [OF ne, of ?p ?H "''b''"] eq ok tg
  have 2: "fst (push ?H ''b'' ?p ?m) = None" by blast
  from 1 2 show ?thesis by blast
qed

text \<open>
  Claim C8 as stated fails: agreement on the identity keys is not enough for a push not
  to raise. The loop that compares the keys also computes the request of the master from
  the values of the first task, and \<^verbatim>\<open>ncol * val0 + 1\<close> is a TypeError when the number of
  cores is a string. The same task, with \<open>cores = '2'\<close>, is pushed twice into a new master
  with two workers: the first push returns, the second raises TypeError.
\<close>

theorem matching_push_raises:
  "fst (push_all
         \<lparr>expand_time = (\<lambda>v. if v = PStr ''1h'' then Inr 3600 else Inl (ValueError ''time'')),
          expand_size = (\<lambda>v. Inl (ValueError ''size'')),
          format_HHMMSS = PInt, has_item = (\<lambda>t x. False)\<rparr>
         [(''a'', \<lparr>name = ''t'', global_def = [], task_text = [],
            raw_dict = \<lparr>runtime = [''cores'' \<mapsto> PStr ''2''], step_name = ''s'',
                        d_input = Some [''in.txt''], d_output = None, d_depends = None\<rparr>,
            sos_dict = \<lparr>runtime = [''cores'' \<mapsto> PStr ''2''], step_name = ''s'',
                        d_input = Some [''in.txt''], d_output = None, d_depends = None\<rparr>,
            tags_attr = Some []\<rparr>)]
         (MasterTaskParams_init 2)) = None
   \<and> fst (push_all
         \<lparr>expand_time = (\<lambda>v. if v = PStr ''1h'' then Inr 3600 else Inl (ValueError ''time'')),
          expand_size = (\<lambda>v. Inl (ValueError ''size'')),
          format_HHMMSS = PInt, has_item = (\<lambda>t x. False)\<rparr>
         [(''a'', \<lparr>name = ''t'', global_def = [], task_text = [],
            raw_dict = \<lparr>runtime = [''cores'' \<mapsto> PStr ''2''], step_name = ''s'',
                        d_input = Some [''in.txt''], d_output = None, d_depends = None\<rparr>,
            sos_dict = \<lparr>runtime = [''cores'' \<mapsto> PStr ''2''], step_name = ''s'',
                        d_input = Some [''in.txt''], d_output = None, d_depends = None\<rparr>,
            tags_attr = Some []\<rparr>),
          (''b'', \<lparr>name = ''t'', global_def = [], task_text = [],
            raw_dict = \<lparr>runtime = [''cores'' \<mapsto> PStr ''2''], step_name = ''s'',
                        d_input = Some [''in.txt''], d_output = None, d_depends = None\<rparr>,
            sos_dict = \<lparr>runtime = [''cores'' \<mapsto> PStr ''2''], step_name = ''s'',
                        d_input = Some [''in.txt''], d_output = None, d_depends = None\<rparr>,
            tags_attr = Some []\<rparr>)]
         (MasterTaskParams_init 2)) = Some TypeError"
proof -
  let ?H = "\<lparr>expand_time = (\<lambda>v. if v = PStr ''1h'' then Inr 3600 else Inl (ValueError ''time'')),
          expand_size = (\<lambda>v. Inl (ValueError ''size'')),
          format_HHMMSS = PInt, has_item = (\<lambda>t x. False)\<rparr>"
  let ?p = "\<lparr>name = ''t'', global_def = [], task_text = [],
            raw_dict = \<lparr>runtime = [''cores'' \<mapsto> PStr ''2''], step_name = ''s'',
                        d_input = Some [''in.txt''], d_output = None, d_depends = None\<rparr>,
            sos_dict = \<lparr>runtime = [''cores'' \<mapsto> PStr ''2''], step_name = ''s'',
                        d_input = Some [''in.txt''], d_output = None, d_depends = None\<rparr>,
            tags_attr = Some []\<rparr>"
  let ?init = "MasterTaskParams_init 2"
  have m0: "task_stack ?init = []" by (simp add: MasterTaskParams_init_def)
  have t: "tags_attr ?p = Some []" by simp
  from push_first [OF m0 t, of ?H "''a''"] obtain m1 where
    m1: "push ?H ''a'' ?p ?init = (None, m1)" "task_stack m1 = [(''a'', ?p)]"
    by blast
  have ne: "task_stack m1 \<noteq> []" by (simp add: m1(2))
  have "fst (merge_keys ?H (num_workers m1) (length (task_stack m1))
           (runtime (sos_dict (snd (hd (task_stack m1))))) (runtime (sos_dict ?p))
           identity_keys (runtime (sos_dict m1))) = Some TypeError"
    by (simp add: m1(2) identity_keys_def merge_key_def)
  from push_raises [OF ne this, of "''b''"] have 2: "fst (push ?H ''b'' ?p m1) = Some TypeError" .
  have a: "push_all ?H [(''a'', ?p)] ?init = (None, m1)" by (simp add: m1(1))
  have b: "fst (push_all ?H [(''a'', ?p), (''b'', ?p)] ?init) = Some TypeError"
    using 2 by (cases "push ?H ''b'' ?p m1") (auto simp: m1(1) split: option.splits)
  from a b show ?thesis by simp
qed


end
